theory Spec2Isabelle
  imports Complex_Main "HOL-Library.Sublist"
begin

section \<open>Errors\<close>

text \<open>
  The notebook raises nothing itself; every exception comes from numpy, from the file
  system or from the GP library.  Each of them is a value of \<open>error\<close>.
\<close>

datatype error = FileNotFoundError | IndexError | AxisError | ValueError | LibraryError nat

definition ebind :: "error + 'a \<Rightarrow> ('a \<Rightarrow> error + 'b) \<Rightarrow> error + 'b" where
  "ebind m f = (case m of Inl e \<Rightarrow> Inl e | Inr x \<Rightarrow> f x)"

section \<open>The fragment of numpy the notebook uses\<close>

text \<open>
  An array is its shape and its elements, read by a full index (one number per axis).
  Elements are only ever read at indices inside the shape.  The element type of the
  data arrays is float64 in the notebook; where arithmetic is needed it is modelled by
  \<open>real\<close>, so rounding is not part of the model.
\<close>

record 'a ndarray =
  shape :: "nat list"
  elem :: "nat list \<Rightarrow> 'a"

definition asize :: "'a ndarray \<Rightarrow> nat" where
  "asize a = prod_list (shape a)"

fun inb :: "nat list \<Rightarrow> nat list \<Rightarrow> bool" where
  "inb [] [] = True"
| "inb (n # ns) (i # js) = (i < n \<and> inb ns js)"
| "inb _ _ = False"

text \<open>Row-major (C order) position of an index, and the index at a position.\<close>

fun ravel :: "nat list \<Rightarrow> nat list \<Rightarrow> nat" where
  "ravel (n # ns) (i # js) = i * prod_list ns + ravel ns js"
| "ravel _ _ = 0"

fun unravel :: "nat list \<Rightarrow> nat \<Rightarrow> nat list" where
  "unravel [] k = []"
| "unravel (n # ns) k = (k div prod_list ns) # unravel ns (k mod prod_list ns)"

subsection \<open>Basic indexing\<close>

text \<open>
  \<open>a[i]\<close> with an integer (negative counts from the end, out of range raises),
  \<open>a[lo:hi]\<close> with non-negative bounds (clipped to the axis, never raises) and
  \<open>a[:]\<close>.  Axes without an index are taken whole; more indices than axes raise.
\<close>

datatype ix = Idx int | Slice nat nat | Full

fun ix_ok :: "ix list \<Rightarrow> nat list \<Rightarrow> bool" where
  "ix_ok [] ns = True"
| "ix_ok (x # xs) [] = False"
| "ix_ok (Idx i # xs) (n # ns) =
     ((let j = (if i < 0 then int n + i else i) in 0 \<le> j \<and> j < int n) \<and> ix_ok xs ns)"
| "ix_ok (Slice lo hi # xs) (n # ns) = ix_ok xs ns"
| "ix_ok (Full # xs) (n # ns) = ix_ok xs ns"

fun ix_shape :: "ix list \<Rightarrow> nat list \<Rightarrow> nat list" where
  "ix_shape [] ns = ns"
| "ix_shape (x # xs) [] = []"
| "ix_shape (Idx i # xs) (n # ns) = ix_shape xs ns"
| "ix_shape (Slice lo hi # xs) (n # ns) = (min hi n - min lo n) # ix_shape xs ns"
| "ix_shape (Full # xs) (n # ns) = n # ix_shape xs ns"

fun ix_map :: "ix list \<Rightarrow> nat list \<Rightarrow> nat list \<Rightarrow> nat list" where
  "ix_map [] ns js = js"
| "ix_map (x # xs) [] js = []"
| "ix_map (Idx i # xs) (n # ns) js =
     nat (if i < 0 then int n + i else i) # ix_map xs ns js"
| "ix_map (Slice lo hi # xs) (n # ns) js =
     (case js of [] \<Rightarrow> [] | k # ks \<Rightarrow> (min lo n + k) # ix_map xs ns ks)"
| "ix_map (Full # xs) (n # ns) js =
     (case js of [] \<Rightarrow> [] | k # ks \<Rightarrow> k # ix_map xs ns ks)"

definition getitem :: "ix list \<Rightarrow> 'a ndarray \<Rightarrow> error + 'a ndarray" where
  "getitem xs a =
     (if ix_ok xs (shape a)
      then Inr \<lparr>shape = ix_shape xs (shape a),
                elem = (\<lambda>js. elem a (ix_map xs (shape a) js))\<rparr>
      else Inl IndexError)"

text \<open>
  An access with one integer per axis gives a scalar.  The notebook uses it on
  \<open>tiles_x\<close> only, with five integers on five axes.
\<close>

definition item :: "int list \<Rightarrow> 'a ndarray \<Rightarrow> error + 'a" where
  "item js a =
     (if length js = length (shape a)
      then ebind (getitem (map Idx js) a) (\<lambda>b. Inr (elem b []))
      else Inl IndexError)"

subsection \<open>swapaxes, reshape, expand_dims, broadcasting\<close>

definition swap :: "nat \<Rightarrow> nat \<Rightarrow> 'b list \<Rightarrow> 'b list" where
  "swap i j xs = xs[i := xs ! j, j := xs ! i]"

definition swapaxes :: "nat \<Rightarrow> nat \<Rightarrow> 'a ndarray \<Rightarrow> error + 'a ndarray" where
  "swapaxes i j a =
     (if i < length (shape a) \<and> j < length (shape a)
      then Inr \<lparr>shape = swap i j (shape a), elem = (\<lambda>js. elem a (swap i j js))\<rparr>
      else Inl AxisError)"

text \<open>
  \<open>reshape\<close> takes the wanted shape, where one entry may be \<open>-1\<close> and is then
  computed from the size; the elements keep their row-major order.
\<close>

definition infer_shape :: "int list \<Rightarrow> nat \<Rightarrow> error + nat list" where
  "infer_shape spec sz =
     (let known = prod_list (map nat (filter (\<lambda>d. d \<noteq> - 1) spec));
          holes = length (filter (\<lambda>d. d = - 1) spec)
      in if list_ex (\<lambda>d. d < - 1) spec then Inl ValueError
         else if 1 < holes then Inl ValueError
         else if holes = 0 then (if known = sz then Inr (map nat spec) else Inl ValueError)
         else if known = 0 then Inl ValueError
         else if sz mod known = 0
           then Inr (map (\<lambda>d. if d = - 1 then sz div known else nat d) spec)
           else Inl ValueError)"

definition reshape :: "int list \<Rightarrow> 'a ndarray \<Rightarrow> error + 'a ndarray" where
  "reshape spec a =
     ebind (infer_shape spec (asize a))
       (\<lambda>sh. Inr \<lparr>shape = sh, elem = (\<lambda>js. elem a (unravel (shape a) (ravel sh js)))\<rparr>)"


text \<open>
  \<open>np.expand_dims(a, axis=axes)\<close>: the result has one more axis, of length 1, at each
  position listed in \<open>axes\<close>; the other positions take the axes of \<open>a\<close> in order.
\<close>

fun expand_shape :: "nat list \<Rightarrow> nat \<Rightarrow> nat \<Rightarrow> nat list \<Rightarrow> nat list" where
  "expand_shape axes p 0 ns = []"
| "expand_shape axes p (Suc m) ns =
     (if p \<in> set axes then 1 # expand_shape axes (Suc p) m ns
      else (case ns of [] \<Rightarrow> [] | n # ns' \<Rightarrow> n # expand_shape axes (Suc p) m ns'))"

fun squeeze_ix :: "nat list \<Rightarrow> nat \<Rightarrow> nat list \<Rightarrow> nat list" where
  "squeeze_ix axes p [] = []"
| "squeeze_ix axes p (k # ks) =
     (if p \<in> set axes then squeeze_ix axes (Suc p) ks else k # squeeze_ix axes (Suc p) ks)"

definition expand_dims :: "nat list \<Rightarrow> 'a ndarray \<Rightarrow> error + 'a ndarray" where
  "expand_dims axes a =
     (let rank = length (shape a) + length axes
      in if list_ex (\<lambda>x. rank \<le> x) axes then Inl AxisError
         else if distinct axes
           then Inr \<lparr>shape = expand_shape axes 0 rank (shape a),
                     elem = (\<lambda>js. elem a (squeeze_ix axes 0 js))\<rparr>
           else Inl ValueError)"

text \<open>\<open>np.zeros(shape)\<close> and the assignment \<open>a[j0, ..., jn] = v\<close> of one element.\<close>

definition zeros :: "nat list \<Rightarrow> real ndarray" where
  "zeros sh = \<lparr>shape = sh, elem = (\<lambda>js. 0)\<rparr>"

definition setitem :: "int list \<Rightarrow> 'a \<Rightarrow> 'a ndarray \<Rightarrow> error + 'a ndarray" where
  "setitem js v a =
     (if length js = length (shape a) \<and> ix_ok (map Idx js) (shape a)
      then Inr (a\<lparr>elem := (elem a)(ix_map (map Idx js) (shape a) [] := v)\<rparr>)
      else Inl IndexError)"

fun setitems :: "(int list \<times> 'a) list \<Rightarrow> 'a ndarray \<Rightarrow> error + 'a ndarray" where
  "setitems [] a = Inr a"
| "setitems ((js, v) # rest) a = ebind (setitem js v a) (setitems rest)"

text \<open>
  \<open>a + b\<close> with broadcasting: the shapes are aligned at their last axes, an axis of
  length 1 (or a missing one) is stretched, and any other mismatch raises.
\<close>

fun bshape_rev :: "nat list \<Rightarrow> nat list \<Rightarrow> nat list option" where
  "bshape_rev [] ns = Some ns"
| "bshape_rev ms [] = Some ms"
| "bshape_rev (m # ms) (n # ns) =
     (if m = n \<or> n = 1 then map_option ((#) m) (bshape_rev ms ns)
      else if m = 1 then map_option ((#) n) (bshape_rev ms ns)
      else None)"

definition bshape :: "nat list \<Rightarrow> nat list \<Rightarrow> nat list option" where
  "bshape ms ns = map_option rev (bshape_rev (rev ms) (rev ns))"

definition bidx :: "nat list \<Rightarrow> nat list \<Rightarrow> nat list" where
  "bidx src js = map2 (\<lambda>n j. if n = 1 then 0 else j) src (drop (length js - length src) js)"

definition add :: "real ndarray \<Rightarrow> real ndarray \<Rightarrow> error + real ndarray" where
  "add a b =
     (case bshape (shape a) (shape b) of
        None \<Rightarrow> Inl ValueError
      | Some sh \<Rightarrow>
          Inr \<lparr>shape = sh,
               elem = (\<lambda>js. elem a (bidx (shape a) js) + elem b (bidx (shape b) js))\<rparr>)"

text \<open>\<open>np.arange(lo, hi, dtype=np.float64)\<close> for integers \<open>lo \<le> hi\<close>, and \<open>a.T\<close>.\<close>

definition arange :: "nat \<Rightarrow> nat \<Rightarrow> real ndarray" where
  "arange lo hi = \<lparr>shape = [hi - lo], elem = (\<lambda>js. case js of [] \<Rightarrow> 0 | k # ks \<Rightarrow> real (lo + k))\<rparr>"

definition transpose_nd :: "'a ndarray \<Rightarrow> 'a ndarray" where
  "transpose_nd a = \<lparr>shape = rev (shape a), elem = (\<lambda>js. elem a (rev js))\<rparr>"

section \<open>Time series: data preparation\<close>

text \<open>
  \<open>long=12 ; lat=30 ; point = (8,8)\<close>, \<open>Start_Day=10 ; N_Train = 120\<close>.  The names
  \<open>long\<close> and \<open>lat\<close> are the notebook's; \<open>long\<close> indexes the second axis of the
  data (the 18 north-south tiles) and \<open>lat\<close> the third (the 39 west-east tiles).
\<close>

definition long :: nat where "long = 12"
definition lat :: nat where "lat = 30"
definition point :: "nat \<times> nat" where "point = (8, 8)"
definition Start_Day :: nat where "Start_Day = 10"
definition N_Train :: nat where "N_Train = 120"

text \<open>\<open>train_x = np.arange(Start_Day, Start_Day+N_Train, dtype=np.float64).reshape((N_Train,1))\<close>\<close>

definition ts_train_x :: "error + real ndarray" where
  "ts_train_x = reshape [int N_Train, 1] (arange Start_Day (Start_Day + N_Train))"

text \<open>\<open>train_y = output_data_all[Start_Day:Start_Day+N_Train, long, lat, point[0], point[1]]\<close>\<close>

definition ts_train_y_ix :: "ix list" where
  "ts_train_y_ix = [Slice Start_Day (Start_Day + N_Train), Idx (int long), Idx (int lat),
                    Idx (int (fst point)), Idx (int (snd point))]"

definition ts_train_y :: "'a ndarray \<Rightarrow> error + 'a ndarray" where
  "ts_train_y output_data_all = getitem ts_train_y_ix output_data_all"

text \<open>
  The prediction cell: \<open>Test_Days = N_Train + 30\<close>, \<open>Start_Test = Start_Day\<close>,
  \<open>test_x = np.arange(Start_Test, Start_Test+Test_Days, dtype=np.float64).reshape((Test_Days,1))\<close>,
  \<open>test_y = output_data_all[Start_Test:Start_Test+Test_Days, long, lat, point[0], point[1]]\<close>.
\<close>

definition Test_Days :: nat where "Test_Days = N_Train + 30"
definition Start_Test :: nat where "Start_Test = Start_Day"

definition ts_test_x :: "error + real ndarray" where
  "ts_test_x = reshape [int Test_Days, 1] (arange Start_Test (Start_Test + Test_Days))"

definition ts_test_y_ix :: "ix list" where
  "ts_test_y_ix = [Slice Start_Test (Start_Test + Test_Days), Idx (int long), Idx (int lat),
                   Idx (int (fst point)), Idx (int (snd point))]"

definition ts_test_y :: "'a ndarray \<Rightarrow> error + 'a ndarray" where
  "ts_test_y output_data_all = getitem ts_test_y_ix output_data_all"

section \<open>Downscaling: data preparation (the cell starting \<open># Data prep...\<close>)\<close>

text \<open>
  The constants of the cell.  The functions below take them as arguments, so that the
  exercise of the notebook that changes \<open>Num_Tiles\<close> is covered too.
\<close>

definition Num_Tiles :: nat where "Num_Tiles = 8"
definition Start_Lat :: nat where "Start_Lat = 4"
definition Start_Long :: nat where "Start_Long = 14"
definition Day_Number :: nat where "Day_Number = 100"

text \<open>
  \<open>tiles_x = input_data_all[Day_Number, Start_Lat:Start_Lat+Num_Tiles,
  Start_Long:Start_Long+Num_Tiles, :, :, :]\<close>, then \<open>np.swapaxes(tiles_x, 1, 2)\<close>.
\<close>

definition tiles_x_ix :: "nat \<Rightarrow> nat \<Rightarrow> nat \<Rightarrow> nat \<Rightarrow> ix list" where
  "tiles_x_ix nt slat slong day =
     [Idx (int day), Slice slat (slat + nt), Slice slong (slong + nt), Full, Full, Full]"

definition tiles_x :: "nat \<Rightarrow> nat \<Rightarrow> nat \<Rightarrow> nat \<Rightarrow> 'a ndarray \<Rightarrow> error + 'a ndarray" where
  "tiles_x nt slat slong day input_data_all =
     ebind (getitem (tiles_x_ix nt slat slong day) input_data_all) (swapaxes 1 2)"

text \<open>\<open>n_train = np.array(tiles_x.shape[:4]).prod()\<close>\<close>

definition n_train :: "'a ndarray \<Rightarrow> nat" where
  "n_train tx = prod_list (take 4 (shape tx))"

text \<open>\<open>train_x = tiles_x.reshape((n_train,-1))\<close>\<close>

definition ds_train_x :: "'a ndarray \<Rightarrow> error + 'a ndarray" where
  "ds_train_x tx = reshape [int (n_train tx), - 1] tx"

text \<open>
  \<open>tiles_y = output_data_all[Day_Number, Start_Lat:Start_Lat+Num_Tiles,
  Start_Long:Start_Long+Num_Tiles, :, :]\<close>, then \<open>np.swapaxes(tiles_y, 1, 2)\<close>.
\<close>

definition tiles_y_ix :: "nat \<Rightarrow> nat \<Rightarrow> nat \<Rightarrow> nat \<Rightarrow> ix list" where
  "tiles_y_ix nt slat slong day =
     [Idx (int day), Slice slat (slat + nt), Slice slong (slong + nt), Full, Full]"

definition tiles_y :: "nat \<Rightarrow> nat \<Rightarrow> nat \<Rightarrow> nat \<Rightarrow> 'a ndarray \<Rightarrow> error + 'a ndarray" where
  "tiles_y nt slat slong day output_data_all =
     ebind (getitem (tiles_y_ix nt slat slong day) output_data_all) (swapaxes 1 2)"

text \<open>\<open>train_y = tiles_y.reshape(n_train)\<close>, with \<open>n_train\<close> taken from \<open>tiles_x\<close>.\<close>

definition ds_train_y :: "'a ndarray \<Rightarrow> 'b ndarray \<Rightarrow> error + 'b ndarray" where
  "ds_train_y tx ty = reshape [int (n_train tx)] ty"


section \<open>Downscaling: the test grid\<close>

text \<open>
  \<open>dlat = tiles_x[0,0,0,0,0] - tiles_x[0,0,1,0,0]\<close> and
  \<open>dlong = tiles_x[0,0,0,1,1] - tiles_x[0,0,0,0,1]\<close>, on \<open>tiles_x\<close> after
  \<open>swapaxes\<close>, whose axes are (latitude tile, row, longitude tile, column, component).
\<close>

definition dlat :: "real ndarray \<Rightarrow> error + real" where
  "dlat tx = ebind (item [0,0,0,0,0] tx) (\<lambda>p. ebind (item [0,0,1,0,0] tx) (\<lambda>q. Inr (p - q)))"

definition dlong :: "real ndarray \<Rightarrow> error + real" where
  "dlong tx = ebind (item [0,0,0,1,1] tx) (\<lambda>p. ebind (item [0,0,0,0,1] tx) (\<lambda>q. Inr (p - q)))"

text \<open>
  \<open>delta_vecs = np.zeros((1,1,2,1,1,2,2))\<close> and its eight assignments, in the order
  of the source.
\<close>

definition delta_vecs :: "real \<Rightarrow> real \<Rightarrow> error + real ndarray" where
  "delta_vecs dla dlo =
     setitems
       [([0,0,0,0,0,0,0], dla / 4), ([0,0,0,0,0,0,1], (- dlo) / 4),
        ([0,0,1,0,0,0,0], (- dla) / 4), ([0,0,1,0,0,0,1], (- dlo) / 4),
        ([0,0,0,0,0,1,0], dla / 4), ([0,0,0,0,0,1,1], dlo / 4),
        ([0,0,1,0,0,1,0], (- dla) / 4), ([0,0,1,0,0,1,1], dlo / 4)]
       (zeros [1,1,2,1,1,2,2])"

text \<open>
  \<open>test_tiles = np.expand_dims(tiles_x, axis=(2,5))\<close>, \<open>test_tiles + delta_vecs\<close>,
  \<open>ts = np.array(test_tiles.shape)\<close>, and the reshape to
  \<open>[ts[0], ts[1]*ts[2], ts[3], ts[4]*ts[5], ts[6]]\<close>.
\<close>

definition test_tiles_shape :: "nat list \<Rightarrow> error + int list" where
  "test_tiles_shape ts =
     (if length ts < 7 then Inl IndexError
      else Inr [int (ts ! 0), int (ts ! 1 * ts ! 2), int (ts ! 3), int (ts ! 4 * ts ! 5),
                int (ts ! 6)])"

definition test_tiles :: "real ndarray \<Rightarrow> error + real ndarray" where
  "test_tiles tx =
     ebind (dlat tx) (\<lambda>dla.
     ebind (dlong tx) (\<lambda>dlo.
     ebind (expand_dims [2, 5] tx) (\<lambda>t.
     ebind (delta_vecs dla dlo) (\<lambda>dv.
     ebind (add t dv) (\<lambda>t'.
     ebind (test_tiles_shape (shape t')) (\<lambda>sh. reshape sh t'))))))"

text \<open>
  \<open>n_test = np.array(test_tiles.shape[:4]).prod()\<close> and
  \<open>test_x = test_tiles.reshape((n_test,-1))\<close>.
\<close>

definition n_test :: "'a ndarray \<Rightarrow> nat" where
  "n_test tt = prod_list (take 4 (shape tt))"

definition ds_test_x :: "'a ndarray \<Rightarrow> error + 'a ndarray" where
  "ds_test_x tt = reshape [int (n_test tt), - 1] tt"

section \<open>Downscaling: the images of the last cell\<close>

text \<open>
  \<open>odim = 16 * Num_Tiles\<close>, \<open>ddim = 2 * odim\<close>,
  \<open>downscaled_SVDI = preds_mean.cpu().numpy().reshape((ddim,ddim)).T\<close>,
  \<open>orig_SVDI = train_y.cpu().numpy().reshape((odim,odim)).T\<close>.
\<close>

definition odim :: "nat \<Rightarrow> nat" where "odim nt = 16 * nt"
definition ddim :: "nat \<Rightarrow> nat" where "ddim nt = 2 * odim nt"

definition downscaled_SVDI :: "nat \<Rightarrow> 'a ndarray \<Rightarrow> error + 'a ndarray" where
  "downscaled_SVDI nt preds_mean =
     ebind (reshape [int (ddim nt), int (ddim nt)] preds_mean) (\<lambda>a. Inr (transpose_nd a))"

definition orig_SVDI :: "nat \<Rightarrow> 'a ndarray \<Rightarrow> error + 'a ndarray" where
  "orig_SVDI nt train_y =
     ebind (reshape [int (odim nt), int (odim nt)] train_y) (\<lambda>a. Inr (transpose_nd a))"

text \<open>
  \<open>long0 = tiles_x[0,0,0,0,1] ; long1 = tiles_x[0,0,-1,-1,1]\<close>,
  \<open>lat0 = tiles_x [-1,-1,0,0,0] ; lat1 = tiles_x[0,0,0,0,0]\<close>: the extent of both images.
\<close>

definition extent :: "'a ndarray \<Rightarrow> error + ('a \<times> 'a \<times> 'a \<times> 'a)" where
  "extent tx =
     ebind (item [0,0,0,0,1] tx) (\<lambda>long0.
     ebind (item [0,0,- 1,- 1,1] tx) (\<lambda>long1.
     ebind (item [- 1,- 1,0,0,0] tx) (\<lambda>lat0.
     ebind (item [0,0,0,0,0] tx) (\<lambda>lat1. Inr (long0, long1, lat0, lat1)))))"

section \<open>The external libraries\<close>

text \<open>
  torch, gpytorch and matplotlib are not part of the notebook.  A call into them either
  raises or returns, changing the state of the library's objects (model, likelihood,
  optimizer, loss, predictions); what such a call does is a parameter of the model.
  The two parts of the notebook (time series, downscaling) define one model class each.
\<close>

datatype phase = TimeSeries | Downscaling

text \<open>\<open>N_iterations = 500\<close> in the first training cell, \<open>N_iterations = 81\<close> in the second.\<close>

fun N_iterations :: "phase \<Rightarrow> nat" where
  "N_iterations TimeSeries = 500"
| "N_iterations Downscaling = 81"

datatype figure =
    TimeSeriesFigure "real ndarray" "real ndarray" "real ndarray" "real ndarray" "real ndarray" nat
  | ImagesFigure "real ndarray" "real ndarray" "real \<times> real \<times> real \<times> real"

datatype libcall =
    GaussianLikelihood
  | GPRegressionModel phase "real ndarray" "real ndarray"
  | ModelTrain
  | LikelihoodTrain
  | ModelCuda
  | LikelihoodCuda
  | Adam
  | ExactMarginalLogLikelihood
  | ZeroGrad
  | ModelCall "real ndarray"
  | NegMll "real ndarray"
  | Backward
  | OptimizerStep
  | ModelEval
  | LikelihoodEval
  | Predict bool "real ndarray"
  | ConfidenceRegion
  | Variance
  | PltShow figure

datatype pname = Noise | LengthScale | OutputScale | Mean

record 'g library =
  call :: "libcall \<Rightarrow> 'g \<Rightarrow> error + 'g"
  cuda_is_available :: bool
  loss_of :: "'g \<Rightarrow> real"
  param_item :: "pname \<Rightarrow> 'g \<Rightarrow> real"
  preds_mean_of :: "'g \<Rightarrow> real ndarray"
  lower_of :: "'g \<Rightarrow> real ndarray"
  upper_of :: "'g \<Rightarrow> real ndarray"

section \<open>The notebook as a sequence of statements\<close>

text \<open>
  What a statement can do: read a file, read from a loaded data array, call a library,
  print a line, bind a variable to an array computed from other variables (recorded with
  the name of the variable and the number of its cell, counting all cells of the
  notebook from 0), open a connection.  The notebook has no statement of the
  last kind.  A printed line is a tuple of shapes, a label and a shape, an iteration
  number, a loss or a parameter; formatting is not modelled.
\<close>

datatype line =
    Shapes "nat list list"
  | LabelledShape string "nat list"
  | IterationNumber nat
  | Loss real
  | Param pname real

datatype event =
    Load string
  | Read string "ix list"
  | Call libcall
  | Print line
  | Assign nat string
  | Connect string

text \<open>
  The state of a run: the file system, the library's objects, the events so far, and the
  global variables of the notebook that a later statement reads.  Conversions between
  numpy arrays and tensors and moves of a tensor between devices keep the values and are
  left out; so is the import cell.
\<close>

record 'g nb =
  files :: "string \<Rightarrow> real ndarray option"
  gp :: 'g
  log :: "event list"
  v_input_data_all :: "real ndarray"
  v_output_data_all :: "real ndarray"
  v_train_x :: "real ndarray"
  v_train_y :: "real ndarray"
  v_test_x :: "real ndarray"
  v_test_y :: "real ndarray"
  v_tiles_x :: "real ndarray"
  v_tiles_y :: "real ndarray"
  v_preds_mean :: "real ndarray"
  v_downscaled_SVDI :: "real ndarray"
  v_orig_SVDI :: "real ndarray"
  v_extent :: "real \<times> real \<times> real \<times> real"

type_synonym 'g step = "'g nb \<Rightarrow> error + 'g nb"

definition emit :: "event \<Rightarrow> 'g nb \<Rightarrow> 'g nb" where
  "emit e s = s\<lparr>log := log s @ [e]\<rparr>"

definition np_load :: "string \<Rightarrow> (real ndarray \<Rightarrow> 'g nb \<Rightarrow> 'g nb) \<Rightarrow> 'g step" where
  "np_load path store s =
     (case files s path of
        None \<Rightarrow> Inl FileNotFoundError
      | Some a \<Rightarrow> Inr (emit (Load path) (store a s)))"

definition index_data ::
  "string \<Rightarrow> ('g nb \<Rightarrow> real ndarray) \<Rightarrow> ix list \<Rightarrow> (real ndarray \<Rightarrow> 'g nb \<Rightarrow> 'g nb) \<Rightarrow> 'g step" where
  "index_data name arr ixs store s =
     (case getitem ixs (arr s) of
        Inl e \<Rightarrow> Inl e
      | Inr a \<Rightarrow> Inr (emit (Read name ixs) (store a s)))"

definition assign ::
  "nat \<Rightarrow> string \<Rightarrow> ('g nb \<Rightarrow> error + 'a) \<Rightarrow> ('a \<Rightarrow> 'g nb \<Rightarrow> 'g nb) \<Rightarrow> 'g step" where
  "assign cell name rhs store s =
     (case rhs s of
        Inl e \<Rightarrow> Inl e
      | Inr v \<Rightarrow> Inr (emit (Assign cell name) (store v s)))"

definition py_print :: "('g nb \<Rightarrow> line) \<Rightarrow> 'g step" where
  "py_print f s = Inr (emit (Print (f s)) s)"

definition lib_call :: "'g library \<Rightarrow> ('g nb \<Rightarrow> libcall) \<Rightarrow> 'g step" where
  "lib_call L c s =
     (case call L (c s) (gp s) of
        Inl e \<Rightarrow> Inl e
      | Inr g \<Rightarrow> Inr (emit (Call (c s)) (s\<lparr>gp := g\<rparr>)))"

text \<open>
  Statements run one after the other.  The notebook has no \<open>try\<close>: the first statement
  that raises ends the run, with its error and the state reached before it.
\<close>

fun exec :: "'g step list \<Rightarrow> 'g nb \<Rightarrow> error option \<times> 'g nb" where
  "exec [] s = (None, s)"
| "exec (c # cs) s = (case c s of Inl e \<Rightarrow> (Some e, s) | Inr s' \<Rightarrow> exec cs s')"

subsection \<open>Loading the data\<close>

definition input_path :: string where
  "input_path = ''/lus/eagle/projects/datascience/cgraziani/Drought_data/droughtSVDI_data_input.npy''"

definition output_path :: string where
  "output_path = ''/lus/eagle/projects/datascience/cgraziani/Drought_data/droughtSVDI_data_ouput.npy''"

definition cell_load :: "'g step list" where
  "cell_load =
     [np_load input_path (\<lambda>a s. s\<lparr>v_input_data_all := a\<rparr>),
      np_load output_path (\<lambda>a s. s\<lparr>v_output_data_all := a\<rparr>),
      py_print (\<lambda>s. Shapes [shape (v_input_data_all s), shape (v_output_data_all s)])]"

subsection \<open>The time series\<close>

definition cell_ts_data :: "'g step list" where
  "cell_ts_data =
     [assign 4 ''train_x'' (\<lambda>s. ts_train_x) (\<lambda>a s. s\<lparr>v_train_x := a\<rparr>),
      index_data ''output_data_all'' v_output_data_all ts_train_y_ix (\<lambda>a s. s\<lparr>v_train_y := a\<rparr>)]"

definition cell_model :: "'g library \<Rightarrow> phase \<Rightarrow> 'g step list" where
  "cell_model L sec =
     [lib_call L (\<lambda>s. GaussianLikelihood),
      lib_call L (\<lambda>s. GPRegressionModel sec (v_train_x s) (v_train_y s))]"

text \<open>
  The body of \<open>for i in range(N_iterations)\<close> in \<open>train()\<close>, and the loop: the
  statements of iteration 0, then those of iteration 1, and so on.
\<close>

definition train_body :: "'g library \<Rightarrow> nat \<Rightarrow> 'g step list" where
  "train_body L i =
     [lib_call L (\<lambda>s. ZeroGrad),
      lib_call L (\<lambda>s. ModelCall (v_train_x s)),
      lib_call L (\<lambda>s. NegMll (v_train_y s)),
      lib_call L (\<lambda>s. Backward)] @
     (if i mod 10 = 0
      then [py_print (\<lambda>s. IterationNumber i), py_print (\<lambda>s. Loss (loss_of L (gp s)))]
      else []) @
     [lib_call L (\<lambda>s. OptimizerStep)]"

definition train :: "'g library \<Rightarrow> phase \<Rightarrow> 'g step list" where
  "train L sec = concat (map (train_body L) [0..<N_iterations sec])"

definition print_params :: "'g library \<Rightarrow> 'g step list" where
  "print_params L =
     [py_print (\<lambda>s. Param Noise (param_item L Noise (gp s))),
      py_print (\<lambda>s. Param LengthScale (param_item L LengthScale (gp s))),
      py_print (\<lambda>s. Param OutputScale (param_item L OutputScale (gp s))),
      py_print (\<lambda>s. Param Mean (param_item L Mean (gp s)))]"

definition cell_ts_train :: "'g library \<Rightarrow> 'g step list" where
  "cell_ts_train L =
     [lib_call L (\<lambda>s. ModelTrain), lib_call L (\<lambda>s. LikelihoodTrain),
      lib_call L (\<lambda>s. Adam), lib_call L (\<lambda>s. ExactMarginalLogLikelihood)] @
     train L TimeSeries @ print_params L"

definition cell_ts_predict :: "'g library \<Rightarrow> 'g step list" where
  "cell_ts_predict L =
     [assign 10 ''test_x'' (\<lambda>s. ts_test_x) (\<lambda>a s. s\<lparr>v_test_x := a\<rparr>),
      index_data ''output_data_all'' v_output_data_all ts_test_y_ix (\<lambda>a s. s\<lparr>v_test_y := a\<rparr>),
      lib_call L (\<lambda>s. ModelEval), lib_call L (\<lambda>s. LikelihoodEval),
      lib_call L (\<lambda>s. Predict False (v_test_x s)),
      lib_call L (\<lambda>s. ConfidenceRegion),
      lib_call L (\<lambda>s. PltShow (TimeSeriesFigure (v_test_x s) (v_test_y s)
                   (preds_mean_of L (gp s)) (lower_of L (gp s)) (upper_of L (gp s))
                   (Start_Day + N_Train)))]"

subsection \<open>The downscaling\<close>

definition cell_ds_data :: "'g step list" where
  "cell_ds_data =
     [index_data ''input_data_all'' v_input_data_all
        (tiles_x_ix Num_Tiles Start_Lat Start_Long Day_Number) (\<lambda>a s. s\<lparr>v_tiles_x := a\<rparr>),
      assign 13 ''tiles_x'' (\<lambda>s. swapaxes 1 2 (v_tiles_x s)) (\<lambda>a s. s\<lparr>v_tiles_x := a\<rparr>),
      py_print (\<lambda>s. LabelledShape ''tiles_x shape:'' (shape (v_tiles_x s))),
      assign 13 ''train_x'' (\<lambda>s. ds_train_x (v_tiles_x s)) (\<lambda>a s. s\<lparr>v_train_x := a\<rparr>),
      py_print (\<lambda>s. LabelledShape ''train_x shape: '' (shape (v_train_x s))),
      index_data ''output_data_all'' v_output_data_all
        (tiles_y_ix Num_Tiles Start_Lat Start_Long Day_Number) (\<lambda>a s. s\<lparr>v_tiles_y := a\<rparr>),
      assign 13 ''tiles_y'' (\<lambda>s. swapaxes 1 2 (v_tiles_y s)) (\<lambda>a s. s\<lparr>v_tiles_y := a\<rparr>),
      py_print (\<lambda>s. LabelledShape ''tiles_y shape'' (shape (v_tiles_y s))),
      assign 13 ''train_y'' (\<lambda>s. ds_train_y (v_tiles_x s) (v_tiles_y s))
        (\<lambda>a s. s\<lparr>v_train_y := a\<rparr>),
      py_print (\<lambda>s. LabelledShape ''train_y shape:'' (shape (v_train_y s)))]"

definition cell_ds_train :: "'g library \<Rightarrow> 'g step list" where
  "cell_ds_train L =
     (if cuda_is_available L
      then [lib_call L (\<lambda>s. ModelCuda), lib_call L (\<lambda>s. LikelihoodCuda)]
      else []) @
     [lib_call L (\<lambda>s. Adam), lib_call L (\<lambda>s. ExactMarginalLogLikelihood)] @
     train L Downscaling @ print_params L"

definition cell_ds_grid :: "'g step list" where
  "cell_ds_grid =
     [assign 19 ''test_x'' (\<lambda>s. ebind (test_tiles (v_tiles_x s)) ds_test_x)
        (\<lambda>a s. s\<lparr>v_test_x := a\<rparr>)]"

definition cell_ds_predict :: "'g library \<Rightarrow> 'g step list" where
  "cell_ds_predict L =
     [lib_call L (\<lambda>s. ModelEval), lib_call L (\<lambda>s. LikelihoodEval),
      lib_call L (\<lambda>s. Predict True (v_test_x s)),
      assign 21 ''preds_mean'' (\<lambda>s. Inr (preds_mean_of L (gp s)))
        (\<lambda>a s. s\<lparr>v_preds_mean := a\<rparr>),
      lib_call L (\<lambda>s. Variance)]"

definition cell_ds_plot :: "'g library \<Rightarrow> 'g step list" where
  "cell_ds_plot L =
     [assign 23 ''downscaled_SVDI'' (\<lambda>s. downscaled_SVDI Num_Tiles (v_preds_mean s))
        (\<lambda>a s. s\<lparr>v_downscaled_SVDI := a\<rparr>),
      assign 23 ''orig_SVDI'' (\<lambda>s. orig_SVDI Num_Tiles (v_train_y s))
        (\<lambda>a s. s\<lparr>v_orig_SVDI := a\<rparr>),
      assign 23 ''extent'' (\<lambda>s. extent (v_tiles_x s)) (\<lambda>a s. s\<lparr>v_extent := a\<rparr>),
      lib_call L (\<lambda>s. PltShow (ImagesFigure (v_orig_SVDI s) (v_downscaled_SVDI s) (v_extent s)))]"

subsection \<open>The whole notebook\<close>

definition cells :: "'g library \<Rightarrow> 'g step list list" where
  "cells L =
     [cell_load,
      cell_ts_data, cell_model L TimeSeries, cell_ts_train L, cell_ts_predict L,
      cell_ds_data, cell_model L Downscaling, cell_ds_train L, cell_ds_grid,
      cell_ds_predict L, cell_ds_plot L]"

definition notebook :: "'g library \<Rightarrow> 'g step list" where
  "notebook L = concat (cells L)"

text \<open>A run starts with every variable unset; each is assigned before it is read.\<close>

definition fresh :: "(string \<Rightarrow> real ndarray option) \<Rightarrow> 'g \<Rightarrow> 'g nb" where
  "fresh fs g =
     \<lparr>files = fs, gp = g, log = [],
      v_input_data_all = zeros [0], v_output_data_all = zeros [0],
      v_train_x = zeros [0], v_train_y = zeros [0], v_test_x = zeros [0], v_test_y = zeros [0],
      v_tiles_x = zeros [0], v_tiles_y = zeros [0], v_preds_mean = zeros [0],
      v_downscaled_SVDI = zeros [0], v_orig_SVDI = zeros [0], v_extent = (0, 0, 0, 0)\<rparr>"

section \<open>What a run is compared with\<close>

text \<open>
  The events of a run carry data (arrays, losses).  \<open>erase\<close> forgets the data and keeps
  what was done: which file, which index, which call, which variable, which kind of line
  (for a line of shapes, how many).
\<close>

definition blank :: "real ndarray" where
  "blank = zeros []"

fun erase_call :: "libcall \<Rightarrow> libcall" where
  "erase_call (GPRegressionModel k x y) = GPRegressionModel k blank blank"
| "erase_call (ModelCall x) = ModelCall blank"
| "erase_call (NegMll y) = NegMll blank"
| "erase_call (Predict f x) = Predict f blank"
| "erase_call (PltShow (TimeSeriesFigure a b c d e n)) =
     PltShow (TimeSeriesFigure blank blank blank blank blank n)"
| "erase_call (PltShow (ImagesFigure a b x)) = PltShow (ImagesFigure blank blank (0, 0, 0, 0))"
| "erase_call c = c"

fun erase_line :: "line \<Rightarrow> line" where
  "erase_line (Shapes shs) = Shapes (map (\<lambda>sh. []) shs)"
| "erase_line (LabelledShape l sh) = LabelledShape l []"
| "erase_line (IterationNumber i) = IterationNumber i"
| "erase_line (Loss v) = Loss 0"
| "erase_line (Param p v) = Param p 0"

fun erase :: "event \<Rightarrow> event" where
  "erase (Call c) = Call (erase_call c)"
| "erase (Print l) = Print (erase_line l)"
| "erase e = e"

text \<open>
  The order of events of a complete run, as the cells give it: the load; then for the
  time series the training arrays, the model, the optimization, the test arrays, the
  switch to evaluation mode, the prediction and the plot; then the same for the
  downscaling.
\<close>

definition train_events :: "nat \<Rightarrow> event list" where
  "train_events n =
     concat (map (\<lambda>i.
       [Call ZeroGrad, Call (ModelCall blank), Call (NegMll blank), Call Backward] @
       (if i mod 10 = 0 then [Print (IterationNumber i), Print (Loss 0)] else []) @
       [Call OptimizerStep]) [0..<n])"

definition param_events :: "event list" where
  "param_events =
     [Print (Param Noise 0), Print (Param LengthScale 0), Print (Param OutputScale 0),
      Print (Param Mean 0)]"

definition schedule :: "bool \<Rightarrow> event list" where
  "schedule cuda =
     [Load input_path, Load output_path, Print (Shapes [[], []])] @
     [Assign 4 ''train_x'', Read ''output_data_all'' ts_train_y_ix] @
     [Call GaussianLikelihood, Call (GPRegressionModel TimeSeries blank blank)] @
     ([Call ModelTrain, Call LikelihoodTrain, Call Adam, Call ExactMarginalLogLikelihood] @
      train_events (N_iterations TimeSeries) @ param_events) @
     [Assign 10 ''test_x'', Read ''output_data_all'' ts_test_y_ix,
      Call ModelEval, Call LikelihoodEval, Call (Predict False blank), Call ConfidenceRegion,
      Call (PltShow (TimeSeriesFigure blank blank blank blank blank (Start_Day + N_Train)))] @
     [Read ''input_data_all'' (tiles_x_ix Num_Tiles Start_Lat Start_Long Day_Number),
      Assign 13 ''tiles_x'', Print (LabelledShape ''tiles_x shape:'' []),
      Assign 13 ''train_x'', Print (LabelledShape ''train_x shape: '' []),
      Read ''output_data_all'' (tiles_y_ix Num_Tiles Start_Lat Start_Long Day_Number),
      Assign 13 ''tiles_y'', Print (LabelledShape ''tiles_y shape'' []),
      Assign 13 ''train_y'', Print (LabelledShape ''train_y shape:'' [])] @
     [Call GaussianLikelihood, Call (GPRegressionModel Downscaling blank blank)] @
     ((if cuda then [Call ModelCuda, Call LikelihoodCuda] else []) @
      [Call Adam, Call ExactMarginalLogLikelihood] @
      train_events (N_iterations Downscaling) @ param_events) @
     [Assign 19 ''test_x''] @
     [Call ModelEval, Call LikelihoodEval, Call (Predict True blank), Assign 21 ''preds_mean'',
      Call Variance] @
     [Assign 23 ''downscaled_SVDI'', Assign 23 ''orig_SVDI'', Assign 23 ''extent'',
      Call (PltShow (ImagesFigure blank blank (0, 0, 0, 0)))]"








text \<open>Reads of the data, and the effects the frame claim allows.\<close>

fun is_data :: "event \<Rightarrow> bool" where
  "is_data (Load p) = True"
| "is_data (Read name ixs) = True"
| "is_data e = False"

fun access_ok :: "event \<Rightarrow> bool" where
  "access_ok (Read name ixs) =
     (if name = ''input_data_all'' then length ixs = 6 \<and> ix_ok ixs [365, 18, 39, 16, 16, 2]
      else if name = ''output_data_all'' then length ixs = 5 \<and> ix_ok ixs [365, 18, 39, 16, 16]
      else False)"
| "access_ok e = True"

fun allowed :: "event \<Rightarrow> bool" where
  "allowed (Load p) = (p = input_path \<or> p = output_path)"
| "allowed (Connect h) = False"
| "allowed e = True"

fun scalar_output :: "event \<Rightarrow> bool" where
  "scalar_output (Print (Shapes shs)) = False"
| "scalar_output (Print (LabelledShape l sh)) = False"
| "scalar_output e = True"

text \<open>The variables whose values the notebook computes from the data alone.\<close>

definition data_vars ::
  "'g nb \<Rightarrow> real ndarray \<times> real ndarray \<times> real ndarray \<times> real ndarray \<times> real ndarray \<times>
     real ndarray \<times> real ndarray \<times> real ndarray \<times> real ndarray \<times> (real \<times> real \<times> real \<times> real)" where
  "data_vars s =
     (v_input_data_all s, v_output_data_all s, v_train_x s, v_train_y s, v_test_x s,
      v_test_y s, v_tiles_x s, v_tiles_y s, v_orig_SVDI s, v_extent s)"

text \<open>
  A list of statements tracks a list of erased events when every run of it leaves the
  files alone and appends events that erase to a prefix of the list, to the whole list
  when the run succeeds.
\<close>

definition tracks :: "'g step list \<Rightarrow> event list \<Rightarrow> bool" where
  "tracks cs tr \<longleftrightarrow>
     (\<forall>s r s'. exec cs s = (r, s') \<longrightarrow>
        files s' = files s \<and>
        (\<exists>ev. log s' = log s @ ev \<and> prefix (map erase ev) tr \<and> (r = None \<longrightarrow> map erase ev = tr)))"

text \<open>
  Two states hold the same data when their files and data variables agree; two
  statements, or two cells, are related when they take states with the same data to
  states with the same data.
\<close>

definition same_data :: "'g nb \<Rightarrow> 'h nb \<Rightarrow> bool" where
  "same_data s t \<longleftrightarrow> files s = files t \<and> data_vars s = data_vars t"

definition step_rel :: "'g step \<Rightarrow> 'h step \<Rightarrow> bool" where
  "step_rel c d \<longleftrightarrow>
     (\<forall>s t s' t'. same_data s t \<longrightarrow> c s = Inr s' \<longrightarrow> d t = Inr t' \<longrightarrow> same_data s' t')"

definition cell_rel :: "'g step list \<Rightarrow> 'h step list \<Rightarrow> bool" where
  "cell_rel cs ds \<longleftrightarrow>
     (\<forall>s t s' t'. same_data s t \<longrightarrow> exec cs s = (None, s') \<longrightarrow> exec ds t = (None, t') \<longrightarrow>
        same_data s' t')"

text \<open>
  The figures and the printed lines among the events, and those of a complete run: the
  shapes of the two data arrays, for each model the iteration number and the loss of
  every tenth iteration and then the four parameters, the four labelled shapes of the
  downscaling data, and the two figures.
\<close>

fun is_output :: "event \<Rightarrow> bool" where
  "is_output (Print l) = True"
| "is_output (Call (PltShow fig)) = True"
| "is_output e = False"

definition loop_lines :: "nat \<Rightarrow> event list" where
  "loop_lines n =
     concat (map (\<lambda>i. if i mod 10 = 0 then [Print (IterationNumber i), Print (Loss 0)] else [])
       [0..<n])"

definition outputs :: "event list" where
  "outputs =
     [Print (Shapes [[], []])] @
     loop_lines (N_iterations TimeSeries) @ param_events @
     [Call (PltShow (TimeSeriesFigure blank blank blank blank blank (Start_Day + N_Train)))] @
     [Print (LabelledShape ''tiles_x shape:'' []), Print (LabelledShape ''train_x shape: '' []),
      Print (LabelledShape ''tiles_y shape'' []), Print (LabelledShape ''train_y shape:'' [])] @
     loop_lines (N_iterations Downscaling) @ param_events @
     [Call (PltShow (ImagesFigure blank blank (0, 0, 0, 0)))]"

text \<open>
  The library calls among the events of a run, and what the library's objects become
  when a list of calls is made one after the other, each of them returning.
\<close>

fun calls_of :: "event list \<Rightarrow> libcall list" where
  "calls_of [] = []"
| "calls_of (Call c # ev) = c # calls_of ev"
| "calls_of (e # ev) = calls_of ev"

fun lib_run :: "'g library \<Rightarrow> libcall list \<Rightarrow> 'g \<Rightarrow> error + 'g" where
  "lib_run L [] g = Inr g"
| "lib_run L (c # cs) g = (case call L c g of Inl e \<Rightarrow> Inl e | Inr g' \<Rightarrow> lib_run L cs g')"

text \<open>
  Where the arrays given to the library come from.  The arrays a model is built on and
  is called on during training are training arrays, and the array a prediction is made on
  is the test array of its model, each computed from the data files as the cells before
  it do.
\<close>

definition from_file ::
  "(string \<Rightarrow> real ndarray option) \<Rightarrow> string \<Rightarrow> (real ndarray \<Rightarrow> error + real ndarray) \<Rightarrow>
     real ndarray \<Rightarrow> bool" where
  "from_file fs path f x = (case fs path of None \<Rightarrow> False | Some a \<Rightarrow> f a = Inr x)"

definition is_ts_train_y :: "(string \<Rightarrow> real ndarray option) \<Rightarrow> real ndarray \<Rightarrow> bool" where
  "is_ts_train_y fs y = from_file fs output_path ts_train_y y"

definition is_ds_train_x :: "(string \<Rightarrow> real ndarray option) \<Rightarrow> real ndarray \<Rightarrow> bool" where
  "is_ds_train_x fs x =
     from_file fs input_path
       (\<lambda>inp. ebind (tiles_x Num_Tiles Start_Lat Start_Long Day_Number inp) ds_train_x) x"

definition is_ds_train_y :: "(string \<Rightarrow> real ndarray option) \<Rightarrow> real ndarray \<Rightarrow> bool" where
  "is_ds_train_y fs y =
     (case fs input_path of
        None \<Rightarrow> False
      | Some inp \<Rightarrow>
          from_file fs output_path
            (\<lambda>out. ebind (tiles_x Num_Tiles Start_Lat Start_Long Day_Number inp) (\<lambda>tx.
                    ebind (tiles_y Num_Tiles Start_Lat Start_Long Day_Number out) (ds_train_y tx))) y)"

definition is_ds_test_x :: "(string \<Rightarrow> real ndarray option) \<Rightarrow> real ndarray \<Rightarrow> bool" where
  "is_ds_test_x fs x =
     from_file fs input_path
       (\<lambda>inp. ebind (tiles_x Num_Tiles Start_Lat Start_Long Day_Number inp) (\<lambda>tx.
               ebind (test_tiles tx) ds_test_x)) x"

fun prepared_call :: "(string \<Rightarrow> real ndarray option) \<Rightarrow> libcall \<Rightarrow> bool" where
  "prepared_call fs (GPRegressionModel TimeSeries x y) = (ts_train_x = Inr x \<and> is_ts_train_y fs y)"
| "prepared_call fs (GPRegressionModel Downscaling x y) = (is_ds_train_x fs x \<and> is_ds_train_y fs y)"
| "prepared_call fs (ModelCall x) = (ts_train_x = Inr x \<or> is_ds_train_x fs x)"
| "prepared_call fs (NegMll y) = (is_ts_train_y fs y \<or> is_ds_train_y fs y)"
| "prepared_call fs (Predict f x) = (if f then is_ds_test_x fs x else ts_test_x = Inr x)"
| "prepared_call fs c = True"

fun prepared :: "(string \<Rightarrow> real ndarray option) \<Rightarrow> event \<Rightarrow> bool" where
  "prepared fs (Call c) = prepared_call fs c"
| "prepared fs e = True"

text \<open>
  What the variables hold after each cell, in terms of the files: after the load, after
  the time-series data, after the time-series prediction, after the downscaling data,
  after the test grid, and at the end.
\<close>

definition loaded :: "(string \<Rightarrow> real ndarray option) \<Rightarrow> 'g nb \<Rightarrow> bool" where
  "loaded fs s \<longleftrightarrow>
     fs input_path = Some (v_input_data_all s) \<and> fs output_path = Some (v_output_data_all s)"

definition ts_ready :: "(string \<Rightarrow> real ndarray option) \<Rightarrow> 'g nb \<Rightarrow> bool" where
  "ts_ready fs s \<longleftrightarrow>
     loaded fs s \<and> ts_train_x = Inr (v_train_x s) \<and>
     ts_train_y (v_output_data_all s) = Inr (v_train_y s)"

definition ts_done :: "(string \<Rightarrow> real ndarray option) \<Rightarrow> 'g nb \<Rightarrow> bool" where
  "ts_done fs s \<longleftrightarrow>
     loaded fs s \<and> (\<exists>a. ts_train_x = Inr a) \<and>
     (\<exists>a. ts_train_y (v_output_data_all s) = Inr a) \<and> (\<exists>a. ts_test_x = Inr a) \<and>
     ts_test_y (v_output_data_all s) = Inr (v_test_y s)"

definition ds_ready :: "(string \<Rightarrow> real ndarray option) \<Rightarrow> 'g nb \<Rightarrow> bool" where
  "ds_ready fs s \<longleftrightarrow>
     ts_done fs s \<and>
     tiles_x Num_Tiles Start_Lat Start_Long Day_Number (v_input_data_all s) = Inr (v_tiles_x s) \<and>
     ds_train_x (v_tiles_x s) = Inr (v_train_x s) \<and>
     tiles_y Num_Tiles Start_Lat Start_Long Day_Number (v_output_data_all s) = Inr (v_tiles_y s) \<and>
     ds_train_y (v_tiles_x s) (v_tiles_y s) = Inr (v_train_y s)"

definition ds_grid_ready :: "(string \<Rightarrow> real ndarray option) \<Rightarrow> 'g nb \<Rightarrow> bool" where
  "ds_grid_ready fs s \<longleftrightarrow>
     ds_ready fs s \<and> ebind (test_tiles (v_tiles_x s)) ds_test_x = Inr (v_test_x s)"

definition completed :: "(string \<Rightarrow> real ndarray option) \<Rightarrow> 'g nb \<Rightarrow> bool" where
  "completed fs s \<longleftrightarrow>
     ds_grid_ready fs s \<and>
     downscaled_SVDI Num_Tiles (v_preds_mean s) = Inr (v_downscaled_SVDI s) \<and>
     orig_SVDI Num_Tiles (v_train_y s) = Inr (v_orig_SVDI s) \<and>
     extent (v_tiles_x s) = Inr (v_extent s)"

text \<open>
  A list of statements, started in a state that satisfies \<open>P\<close>, appends events whose
  library calls are given prepared arrays, changes the library's objects by exactly these
  calls, and ends in a state that satisfies \<open>Q\<close> when it runs to its end.
\<close>

definition flows ::
  "'g library \<Rightarrow> (string \<Rightarrow> real ndarray option) \<Rightarrow> ('g nb \<Rightarrow> bool) \<Rightarrow> 'g step list \<Rightarrow>
     ('g nb \<Rightarrow> bool) \<Rightarrow> bool" where
  "flows L fs P cs Q \<longleftrightarrow>
     (\<forall>s r s'. P s \<and> exec cs s = (r, s') \<longrightarrow>
        (\<exists>ev. log s' = log s @ ev \<and> list_all (prepared fs) ev \<and>
              lib_run L (calls_of ev) (gp s) = Inr (gp s')) \<and>
        (r = None \<longrightarrow> Q s'))"

text \<open>
  What each scheduled operation raises.  \<open>call_at\<close> puts the current values of the
  variables back into an erased call, as the statement of the notebook passes them.
  \<open>fails_at L s op e\<close>: in state \<open>s\<close> the operation \<open>op\<close> raises \<open>e\<close>, that is, the
  file is missing, the index is refused by numpy, the library call raises, or the numpy
  expression of that assignment raises; printing raises nothing.  A statement raises as
  an operation when it raises this and nothing else.
\<close>

fun call_at :: "'g library \<Rightarrow> 'g nb \<Rightarrow> libcall \<Rightarrow> libcall" where
  "call_at L s (GPRegressionModel k x y) = GPRegressionModel k (v_train_x s) (v_train_y s)"
| "call_at L s (ModelCall x) = ModelCall (v_train_x s)"
| "call_at L s (NegMll y) = NegMll (v_train_y s)"
| "call_at L s (Predict f x) = Predict f (v_test_x s)"
| "call_at L s (PltShow (TimeSeriesFigure a b c d e n)) =
     PltShow (TimeSeriesFigure (v_test_x s) (v_test_y s) (preds_mean_of L (gp s))
       (lower_of L (gp s)) (upper_of L (gp s)) n)"
| "call_at L s (PltShow (ImagesFigure a b x)) =
     PltShow (ImagesFigure (v_orig_SVDI s) (v_downscaled_SVDI s) (v_extent s))"
| "call_at L s c = c"

fun fails_at :: "'g library \<Rightarrow> 'g nb \<Rightarrow> event \<Rightarrow> error \<Rightarrow> bool" where
  "fails_at L s (Load p) e = (files s p = None \<and> e = FileNotFoundError)"
| "fails_at L s (Read name ixs) e =
     (getitem ixs (if name = ''input_data_all'' then v_input_data_all s
                   else v_output_data_all s) = Inl e)"
| "fails_at L s (Call k) e = (call L (call_at L s k) (gp s) = Inl e)"
| "fails_at L s (Assign cell name) e =
     (if cell = 4 \<and> name = ''train_x'' then ts_train_x = Inl e
      else if cell = 10 \<and> name = ''test_x'' then ts_test_x = Inl e
      else if cell = 13 \<and> name = ''tiles_x'' then swapaxes 1 2 (v_tiles_x s) = Inl e
      else if cell = 13 \<and> name = ''train_x'' then ds_train_x (v_tiles_x s) = Inl e
      else if cell = 13 \<and> name = ''tiles_y'' then swapaxes 1 2 (v_tiles_y s) = Inl e
      else if cell = 13 \<and> name = ''train_y''
        then ds_train_y (v_tiles_x s) (v_tiles_y s) = Inl e
      else if cell = 19 \<and> name = ''test_x''
        then ebind (test_tiles (v_tiles_x s)) ds_test_x = Inl e
      else if cell = 23 \<and> name = ''downscaled_SVDI''
        then downscaled_SVDI Num_Tiles (v_preds_mean s) = Inl e
      else if cell = 23 \<and> name = ''orig_SVDI'' then orig_SVDI Num_Tiles (v_train_y s) = Inl e
      else if cell = 23 \<and> name = ''extent'' then extent (v_tiles_x s) = Inl e
      else False)"
| "fails_at L s (Print l) e = False"
| "fails_at L s (Connect h) e = False"

definition raises_as :: "'g library \<Rightarrow> 'g step \<Rightarrow> event \<Rightarrow> bool" where
  "raises_as L stmt ev \<longleftrightarrow> (\<forall>s e. stmt s = Inl e \<longleftrightarrow> fails_at L s ev e)"

section \<open>Sample data\<close>

text \<open>
  Two arrays of the size the notebook reports for its data (365 days, 18 by 39 tiles of
  16 by 16 points).  The input is a regular grid: latitude falls by one per row from north
  to south and does not depend on the column, longitude grows by one per column from west
  to east and does not depend on the row.
\<close>

definition grid_input :: "real ndarray" where
  "grid_input = \<lparr>shape = [365, 18, 39, 16, 16, 2],
     elem = (\<lambda>js. case js of [d, i, j, r, c, k] \<Rightarrow>
                (if k = 0 then - real (16 * i + r) else real (16 * j + c)) | _ \<Rightarrow> 0)\<rparr>"

definition grid_output :: "real ndarray" where
  "grid_output = \<lparr>shape = [365, 18, 39, 16, 16],
     elem = (\<lambda>js. case js of [d, i, j, r, c] \<Rightarrow> real (d + i + j + r + c) | _ \<Rightarrow> 0)\<rparr>"

text \<open>
  A file system with the two files, and an empty one.  Two libraries that never raise
  and differ in everything the notebook reads from them; their state is the number of
  optimizer steps taken and the shape of the last predictive mean.  A third one
  whose backward pass raises after three steps.
\<close>

definition grid_files :: "string \<Rightarrow> real ndarray option" where
  "grid_files = (\<lambda>p. if p = input_path then Some grid_input
                      else if p = output_path then Some grid_output else None)"

definition no_files :: "string \<Rightarrow> real ndarray option" where
  "no_files = (\<lambda>p. None)"

fun count_call :: "libcall \<Rightarrow> nat \<times> nat list \<Rightarrow> nat \<times> nat list" where
  "count_call OptimizerStep g = (Suc (fst g), snd g)"
| "count_call (Predict f x) g = (fst g, take 1 (shape x))"
| "count_call c g = g"

definition cpu_library :: "(nat \<times> nat list) library" where
  "cpu_library =
     \<lparr>call = (\<lambda>c g. Inr (count_call c g)), cuda_is_available = False,
      loss_of = (\<lambda>g. 1 / real (Suc (fst g))), param_item = (\<lambda>p g. 1),
      preds_mean_of = (\<lambda>g. zeros (snd g)), lower_of = (\<lambda>g. zeros (snd g)),
      upper_of = (\<lambda>g. zeros (snd g))\<rparr>"

definition gpu_library :: "(nat \<times> nat list) library" where
  "gpu_library =
     \<lparr>call = (\<lambda>c g. Inr (count_call c g)), cuda_is_available = True,
      loss_of = (\<lambda>g. 2 + real (fst g)), param_item = (\<lambda>p g. 3),
      preds_mean_of = (\<lambda>g. \<lparr>shape = snd g, elem = (\<lambda>js. 7)\<rparr>),
      lower_of = (\<lambda>g. \<lparr>shape = snd g, elem = (\<lambda>js. 6)\<rparr>),
      upper_of = (\<lambda>g. \<lparr>shape = snd g, elem = (\<lambda>js. 8)\<rparr>)\<rparr>"

fun diverge_call :: "libcall \<Rightarrow> nat \<times> nat list \<Rightarrow> error + nat \<times> nat list" where
  "diverge_call Backward g = (if fst g = 3 then Inl (LibraryError 1) else Inr g)"
| "diverge_call c g = Inr (count_call c g)"

definition diverging_library :: "(nat \<times> nat list) library" where
  "diverging_library = cpu_library\<lparr>call := diverge_call\<rparr>"

text \<open>
  An input array with only four rows of tiles, in which the window of tiles that starts
  at \<open>Start_Lat = 4\<close> is empty, and a file system that holds it.
\<close>

definition short_input :: "real ndarray" where
  "short_input = zeros [365, 4, 39, 16, 16, 2]"

definition short_files :: "string \<Rightarrow> real ndarray option" where
  "short_files = (\<lambda>p. if p = input_path then Some short_input
                       else if p = output_path then Some grid_output else None)"

section \<open>Row-major positions\<close>

lemma ravel_lt: "inb ns js \<Longrightarrow> ravel ns js < prod_list ns"
proof (induction ns js rule: inb.induct)
  case (2 n ns i js)
  then have a: "i < n" and b: "ravel ns js < prod_list ns" by simp_all
  have "i * prod_list ns + ravel ns js < Suc i * prod_list ns" using b by simp
  also have "\<dots> \<le> n * prod_list ns" using a by (simp add: Suc_leI mult_le_mono1 del: mult_Suc)
  finally show ?case by simp
qed simp_all

lemma unravel_ravel: "inb ns js \<Longrightarrow> unravel ns (ravel ns js) = js"
proof (induction ns js rule: inb.induct)
  case (2 n ns i js)
  then have b: "ravel ns js < prod_list ns" by (simp add: ravel_lt)
  with 2 show ?case by simp
qed simp_all

lemma unravel4:
  assumes "i < n" "r < 16" "j < n" "c < 16"
  shows "unravel [n, 16, n, 16] (((i * 16 + r) * n + j) * 16 + c) = [i, r, j, c]"
proof -
  have "ravel [n, 16, n, 16] [i, r, j, c] = ((i * 16 + r) * n + j) * 16 + c"
    by (simp add: algebra_simps)
  moreover have "inb [n, 16, n, 16] [i, r, j, c]" using assms by simp
  ultimately show ?thesis using unravel_ravel by metis
qed

lemma unravel5:
  assumes "i < n" "r < 16" "j < n" "c < 16" "k < 2"
  shows "unravel [n, 16, n, 16, 2] ((((i * 16 + r) * n + j) * 16 + c) * 2 + k) = [i, r, j, c, k]"
proof -
  have "ravel [n, 16, n, 16, 2] [i, r, j, c, k] = (((i * 16 + r) * n + j) * 16 + c) * 2 + k"
    by (simp add: algebra_simps)
  moreover have "inb [n, 16, n, 16, 2] [i, r, j, c, k]" using assms by simp
  ultimately show ?thesis using unravel_ravel by metis
qed

lemma tiles_x_full:
  assumes "shape a = [nd, nlat, nlong, th, tw, 2]" "day < nd" "slat + nt \<le> nlat" "slong + nt \<le> nlong"
  shows "tiles_x nt slat slong day a =
           Inr \<lparr>shape = [nt, th, nt, tw, 2],
                elem = (\<lambda>js. elem a (ix_map (tiles_x_ix nt slat slong day) (shape a) (swap 1 2 js)))\<rparr>"
  using assms
  by (simp add: tiles_x_def tiles_x_ix_def getitem_def ebind_def swapaxes_def swap_def min_def)

lemma tiles_y_full:
  assumes "shape a = [nd, nlat, nlong, th, tw]" "day < nd" "slat + nt \<le> nlat" "slong + nt \<le> nlong"
  shows "tiles_y nt slat slong day a =
           Inr \<lparr>shape = [nt, th, nt, tw],
                elem = (\<lambda>js. elem a (ix_map (tiles_y_ix nt slat slong day) (shape a) (swap 1 2 js)))\<rparr>"
  using assms
  by (simp add: tiles_y_def tiles_y_ix_def getitem_def ebind_def swapaxes_def swap_def min_def)

lemma int_ne_m1: "int n \<noteq> - 1" "\<not> int n < - 1" "(int n = - 1) = False"
  by simp_all

lemma infer_shape_1: "infer_shape [int n] sz = (if n = sz then Inr [n] else Inl ValueError)"
  by (simp add: infer_shape_def Let_def int_ne_m1)

lemma infer_shape_2:
  "infer_shape [int m, int n] sz = (if m * n = sz then Inr [m, n] else Inl ValueError)"
  by (simp add: infer_shape_def Let_def int_ne_m1)

lemma infer_shape_hole:
  "infer_shape [int n, - 1] sz =
     (if n = 0 \<or> sz mod n \<noteq> 0 then Inl ValueError else Inr [n, sz div n])"
  by (simp add: infer_shape_def Let_def int_ne_m1)

lemma infer_shape_5:
  "infer_shape [int a, int b, int c, int d, int e] sz =
     (if a * b * c * d * e = sz then Inr [a, b, c, d, e] else Inl ValueError)"
  by (simp add: infer_shape_def Let_def int_ne_m1 mult.assoc)

lemma ds_train_x_full:
  assumes "shape tx = [nt, 16, nt, 16, 2]" "0 < nt"
  shows "ds_train_x tx =
           Inr \<lparr>shape = [256 * nt\<^sup>2, 2],
                elem = (\<lambda>js. elem tx (unravel [nt, 16, nt, 16, 2] (ravel [256 * nt\<^sup>2, 2] js)))\<rparr>"
proof -
  have n: "n_train tx = 256 * nt\<^sup>2" using assms by (simp add: n_train_def power2_eq_square)
  have sz: "asize tx = 256 * nt\<^sup>2 * 2" using assms by (simp add: asize_def power2_eq_square)
  have pos: "256 * nt\<^sup>2 \<noteq> 0" using assms by simp
  show ?thesis
    unfolding ds_train_x_def reshape_def n infer_shape_hole sz
    using pos assms(1) by (simp add: ebind_def del: unravel.simps ravel.simps)
qed

lemma ds_train_y_full:
  assumes "shape tx = [nt, 16, nt, 16, 2]" "shape ty = [nt, 16, nt, 16]"
  shows "ds_train_y tx ty =
           Inr \<lparr>shape = [256 * nt\<^sup>2],
                elem = (\<lambda>js. elem ty (unravel [nt, 16, nt, 16] (ravel [256 * nt\<^sup>2] js)))\<rparr>"
proof -
  have n: "n_train tx = 256 * nt\<^sup>2" using assms by (simp add: n_train_def power2_eq_square)
  have sz: "asize ty = 256 * nt\<^sup>2" using assms by (simp add: asize_def power2_eq_square)
  show ?thesis
    unfolding ds_train_y_def reshape_def n infer_shape_1 sz
    using assms(2) by (simp add: ebind_def del: unravel.simps ravel.simps)
qed

lemma ravel_1: "ravel [m] [p] = p"
  by simp

lemma ravel_2: "ravel [m, n] [p, k] = p * n + k"
  by simp

lemma tiles_x_elem:
  assumes "shape a = [nd, nlat, nlong, th, tw, 2]" "day < nd" "slat + nt \<le> nlat" "slong + nt \<le> nlong"
    and "tiles_x nt slat slong day a = Inr tx"
  shows "shape tx = [nt, th, nt, tw, 2]"
    and "elem tx [i, r, j, c, k] = elem a [day, slat + i, slong + j, r, c, k]"
  using assms(5) assms(2,3,4) unfolding tiles_x_full [OF assms(1,2,3,4)]
  by (auto simp add: assms(1) tiles_x_ix_def swap_def min_def)

lemma tiles_y_elem:
  assumes "shape a = [nd, nlat, nlong, th, tw]" "day < nd" "slat + nt \<le> nlat" "slong + nt \<le> nlong"
    and "tiles_y nt slat slong day a = Inr ty"
  shows "shape ty = [nt, th, nt, tw]"
    and "elem ty [i, r, j, c] = elem a [day, slat + i, slong + j, r, c]"
  using assms(5) assms(2,3,4) unfolding tiles_y_full [OF assms(1,2,3,4)]
  by (auto simp add: assms(1) tiles_y_ix_def swap_def min_def)

lemma ds_train_x_elem:
  assumes "shape tx = [nt, 16, nt, 16, 2]" "ds_train_x tx = Inr X"
    and "i < nt" "r < 16" "j < nt" "c < 16" "k < 2"
  shows "elem X [((i * 16 + r) * nt + j) * 16 + c, k] = elem tx [i, r, j, c, k]"
proof -
  have "0 < nt" using assms(3) by simp
  from ds_train_x_full [OF assms(1) this] assms(2)
  have X: "X = \<lparr>shape = [256 * nt\<^sup>2, 2],
                elem = (\<lambda>js. elem tx (unravel [nt, 16, nt, 16, 2] (ravel [256 * nt\<^sup>2, 2] js)))\<rparr>"
    by simp
  show ?thesis
    unfolding X using unravel5 [OF assms(3-7)]
    by (simp only: ndarray.simps ravel_2)
qed

lemma ds_train_y_elem:
  assumes "shape tx = [nt, 16, nt, 16, 2]" "shape ty = [nt, 16, nt, 16]" "ds_train_y tx ty = Inr Y"
    and "i < nt" "r < 16" "j < nt" "c < 16"
  shows "elem Y [((i * 16 + r) * nt + j) * 16 + c] = elem ty [i, r, j, c]"
proof -
  from ds_train_y_full [OF assms(1,2)] assms(3)
  have Y: "Y = \<lparr>shape = [256 * nt\<^sup>2],
                elem = (\<lambda>js. elem ty (unravel [nt, 16, nt, 16] (ravel [256 * nt\<^sup>2] js)))\<rparr>"
    by simp
  show ?thesis
    unfolding Y using unravel4 [OF assms(4-7)]
    by (simp only: ndarray.simps ravel_1)
qed

section \<open>The test grid, step by step\<close>

lemma unravel_eq:
  assumes "inb ns js" "ravel ns js = p"
  shows "unravel ns p = js"
  using unravel_ravel [OF assms(1)] assms(2) by simp

lemma dlat_full:
  assumes "shape tx = [nt, 16, nt, 16, 2]" "2 \<le> nt"
  shows "dlat tx = Inr (elem tx [0,0,0,0,0] - elem tx [0,0,1,0,0])"
  using assms by (simp add: dlat_def item_def getitem_def ebind_def)

lemma dlat_fails:
  assumes "shape tx = [nt, 16, nt, 16, 2]" "nt < 2"
  shows "dlat tx = Inl IndexError"
  using assms by (auto simp add: dlat_def item_def getitem_def ebind_def)

lemma dlong_full:
  assumes "shape tx = [nt, 16, nt, 16, 2]" "0 < nt"
  shows "dlong tx = Inr (elem tx [0,0,0,1,1] - elem tx [0,0,0,0,1])"
  using assms by (simp add: dlong_def item_def getitem_def ebind_def)

lemma expand_dims_full:
  assumes "shape tx = [nt, 16, nt, 16, 2]"
  shows "expand_dims [2, 5] tx =
           Inr \<lparr>shape = [nt, 16, 1, nt, 16, 1, 2], elem = (\<lambda>js. elem tx (squeeze_ix [2, 5] 0 js))\<rparr>"
  using assms by (simp add: expand_dims_def eval_nat_numeral)

lemma delta_vecs_full:
  "\<exists>dv. delta_vecs dla dlo = Inr dv \<and> shape dv = [1,1,2,1,1,2,2] \<and>
     elem dv [0,0,0,0,0,0,0] = dla / 4 \<and> elem dv [0,0,0,0,0,0,1] = (- dlo) / 4 \<and>
     elem dv [0,0,1,0,0,0,0] = (- dla) / 4 \<and> elem dv [0,0,1,0,0,0,1] = (- dlo) / 4 \<and>
     elem dv [0,0,0,0,0,1,0] = dla / 4 \<and> elem dv [0,0,0,0,0,1,1] = dlo / 4 \<and>
     elem dv [0,0,1,0,0,1,0] = (- dla) / 4 \<and> elem dv [0,0,1,0,0,1,1] = dlo / 4"
  by (simp add: delta_vecs_def setitem_def zeros_def ebind_def)


lemma add_full:
  assumes "shape t = [nt, 16, 1, nt, 16, 1, 2]" "shape dv = [1, 1, 2, 1, 1, 2, 2]"
  shows "add t dv =
           Inr \<lparr>shape = [nt, 16, 2, nt, 16, 2, 2],
                elem = (\<lambda>js. elem t (bidx (shape t) js) + elem dv (bidx (shape dv) js))\<rparr>"
  using assms by (simp add: add_def bshape_def)

lemma unravel7:
  assumes "i < nt" "r < 16" "a < 2" "j < nt" "c < 16" "b < 2" "k < 2"
  shows "unravel [nt, 16, 2, nt, 16, 2, 2] (ravel [nt, 32, nt, 32, 2] [i, 2 * r + a, j, 2 * c + b, k])
           = [i, r, a, j, c, b, k]"
proof (rule unravel_eq)
  show "inb [nt, 16, 2, nt, 16, 2, 2] [i, r, a, j, c, b, k]" using assms by simp
  show "ravel [nt, 16, 2, nt, 16, 2, 2] [i, r, a, j, c, b, k] =
          ravel [nt, 32, nt, 32, 2] [i, 2 * r + a, j, 2 * c + b, k]"
    by (simp add: algebra_simps)
qed

lemma test_tiles_elem:
  assumes sh: "shape tx = [nt, 16, nt, 16, 2]" and nt: "2 \<le> nt"
  shows "\<exists>T. test_tiles tx = Inr T \<and> shape T = [nt, 32, nt, 32, 2] \<and>
           (\<forall>i<nt. \<forall>r<16. \<forall>a<2. \<forall>j<nt. \<forall>c<16. \<forall>b<2. \<forall>k<2.
              elem T [i, 2 * r + a, j, 2 * c + b, k] =
                elem tx [i, r, j, c, k] +
                (if k = 0
                 then (if a = 0 then (elem tx [0,0,0,0,0] - elem tx [0,0,1,0,0]) / 4
                       else (- (elem tx [0,0,0,0,0] - elem tx [0,0,1,0,0])) / 4)
                 else (if b = 0 then (- (elem tx [0,0,0,1,1] - elem tx [0,0,0,0,1])) / 4
                       else (elem tx [0,0,0,1,1] - elem tx [0,0,0,0,1]) / 4)))"
proof -
  define dla where "dla = elem tx [0,0,0,0,0] - elem tx [0,0,1,0,0]"
  define dlo where "dlo = elem tx [0,0,0,1,1] - elem tx [0,0,0,0,1]"
  have pos: "0 < nt" using nt by simp
  obtain dv where dv: "delta_vecs dla dlo = Inr dv" and shdv: "shape dv = [1,1,2,1,1,2,2]"
    and el: "elem dv [0,0,0,0,0,0,0] = dla / 4" "elem dv [0,0,0,0,0,0,1] = (- dlo) / 4"
     "elem dv [0,0,1,0,0,0,0] = (- dla) / 4" "elem dv [0,0,1,0,0,0,1] = (- dlo) / 4"
     "elem dv [0,0,0,0,0,1,0] = dla / 4" "elem dv [0,0,0,0,0,1,1] = dlo / 4"
     "elem dv [0,0,1,0,0,1,0] = (- dla) / 4" "elem dv [0,0,1,0,0,1,1] = dlo / 4"
    using delta_vecs_full [of dla dlo] by blast
  define t where "t = \<lparr>shape = [nt, 16, 1, nt, 16, 1, 2], elem = (\<lambda>js. elem tx (squeeze_ix [2, 5] 0 js))\<rparr>"
  have sht: "shape t = [nt, 16, 1, nt, 16, 1, 2]" by (simp add: t_def)
  define t' where "t' = \<lparr>shape = [nt, 16, 2, nt, 16, 2, 2],
                elem = (\<lambda>js. elem t (bidx (shape t) js) + elem dv (bidx (shape dv) js))\<rparr>"
  define T where "T = \<lparr>shape = [nt, 32, nt, 32, 2],
                elem = (\<lambda>js. elem t' (unravel (shape t') (ravel [nt, 32, nt, 32, 2] js)))\<rparr>"
  have tts: "test_tiles_shape (shape t') = Inr [int nt, int 32, int nt, int 32, int 2]"
    by (simp add: t'_def test_tiles_shape_def)
  have rs: "reshape [int nt, int 32, int nt, int 32, int 2] t' = Inr T"
    unfolding reshape_def infer_shape_5
    by (simp add: asize_def t'_def T_def ebind_def del: unravel.simps ravel.simps)
  have "test_tiles tx = Inr T"
    unfolding test_tiles_def dlat_full [OF sh nt] dlong_full [OF sh pos] expand_dims_full [OF sh]
    using dv add_full [OF sht shdv] tts rs
    by (simp add: ebind_def dla_def dlo_def t_def t'_def del: unravel.simps ravel.simps)
  moreover have "shape T = [nt, 32, nt, 32, 2]" by (simp add: T_def)
  moreover have "elem T [i, 2 * r + a, j, 2 * c + b, k] =
                elem tx [i, r, j, c, k] +
                (if k = 0 then (if a = 0 then dla / 4 else (- dla) / 4)
                 else (if b = 0 then (- dlo) / 4 else dlo / 4))"
    if "i < nt" "r < 16" "a < 2" "j < nt" "c < 16" "b < 2" "k < 2" for i r a j c b k
  proof -
    have "elem T [i, 2 * r + a, j, 2 * c + b, k] = elem t' [i, r, a, j, c, b, k]"
      unfolding T_def using unravel7 [OF that]
      by (simp add: t'_def del: unravel.simps ravel.simps)
    also have "\<dots> = elem tx [i, r, j, c, k] + elem dv [0, 0, a, 0, 0, b, k]"
      using nt by (simp add: t'_def t_def shdv bidx_def)
    also have "elem dv [0, 0, a, 0, 0, b, k] =
                (if k = 0 then (if a = 0 then dla / 4 else (- dla) / 4)
                 else (if b = 0 then (- dlo) / 4 else dlo / 4))"
    proof -
      have "a = 0 \<or> a = 1" "b = 0 \<or> b = 1" "k = 0 \<or> k = 1" using that by auto
      then show ?thesis using el by auto
    qed
    finally show ?thesis .
  qed
  ultimately show ?thesis unfolding dla_def dlo_def by blast
qed


lemma unravel5t:
  assumes "i < nt" "r < 32" "j < nt" "c < 32" "k < 2"
  shows "unravel [nt, 32, nt, 32, 2] ((((i * 32 + r) * nt + j) * 32 + c) * 2 + k) = [i, r, j, c, k]"
proof (rule unravel_eq)
  show "inb [nt, 32, nt, 32, 2] [i, r, j, c, k]" using assms by simp
  show "ravel [nt, 32, nt, 32, 2] [i, r, j, c, k] = (((i * 32 + r) * nt + j) * 32 + c) * 2 + k"
    by (simp add: algebra_simps)
qed

lemma ds_test_x_full:
  assumes "shape T = [nt, 32, nt, 32, 2]" "0 < nt"
  shows "ds_test_x T =
           Inr \<lparr>shape = [1024 * nt\<^sup>2, 2],
                elem = (\<lambda>js. elem T (unravel [nt, 32, nt, 32, 2] (ravel [1024 * nt\<^sup>2, 2] js)))\<rparr>"
proof -
  have n: "n_test T = 1024 * nt\<^sup>2" using assms by (simp add: n_test_def power2_eq_square)
  have sz: "asize T = 1024 * nt\<^sup>2 * 2" using assms by (simp add: asize_def power2_eq_square)
  have pos: "1024 * nt\<^sup>2 \<noteq> 0" using assms by simp
  show ?thesis
    unfolding ds_test_x_def reshape_def n infer_shape_hole sz
    using pos assms(1) by (simp add: ebind_def del: unravel.simps ravel.simps)
qed

lemma test_grid_points:
  assumes sh: "shape tx = [nt, 16, nt, 16, 2]" and nt: "2 \<le> nt"
  shows "\<exists>T X. test_tiles tx = Inr T \<and> ds_test_x T = Inr X \<and>
           n_test T = 4 * n_train tx \<and> shape X = [1024 * nt\<^sup>2, 2] \<and>
           (\<forall>i<nt. \<forall>r<16. \<forall>a<2. \<forall>j<nt. \<forall>c<16. \<forall>b<2.
              elem X [((i * 32 + (2 * r + a)) * nt + j) * 32 + (2 * c + b), 0] =
                elem tx [i, r, j, c, 0] +
                (if a = 0 then (elem tx [0,0,0,0,0] - elem tx [0,0,1,0,0]) / 4
                 else (- (elem tx [0,0,0,0,0] - elem tx [0,0,1,0,0])) / 4) \<and>
              elem X [((i * 32 + (2 * r + a)) * nt + j) * 32 + (2 * c + b), 1] =
                elem tx [i, r, j, c, 1] +
                (if b = 0 then (- (elem tx [0,0,0,1,1] - elem tx [0,0,0,0,1])) / 4
                 else (elem tx [0,0,0,1,1] - elem tx [0,0,0,0,1]) / 4))"
proof -
  have pos: "0 < nt" using nt by simp
  from test_tiles_elem [OF sh nt] obtain T where TT:
    "test_tiles tx = Inr T \<and> shape T = [nt, 32, nt, 32, 2] \<and>
           (\<forall>i<nt. \<forall>r<16. \<forall>a<2. \<forall>j<nt. \<forall>c<16. \<forall>b<2. \<forall>k<2.
              elem T [i, 2 * r + a, j, 2 * c + b, k] =
                elem tx [i, r, j, c, k] +
                (if k = 0
                 then (if a = 0 then (elem tx [0,0,0,0,0] - elem tx [0,0,1,0,0]) / 4
                       else (- (elem tx [0,0,0,0,0] - elem tx [0,0,1,0,0])) / 4)
                 else (if b = 0 then (- (elem tx [0,0,0,1,1] - elem tx [0,0,0,0,1])) / 4
                       else (elem tx [0,0,0,1,1] - elem tx [0,0,0,0,1]) / 4)))" ..
  note T = TT [THEN conjunct1]
  note shT = TT [THEN conjunct2, THEN conjunct1]
  note el = TT [THEN conjunct2, THEN conjunct2, rule_format]
  define X where "X = \<lparr>shape = [1024 * nt\<^sup>2, 2],
                elem = (\<lambda>js. elem T (unravel [nt, 32, nt, 32, 2] (ravel [1024 * nt\<^sup>2, 2] js)))\<rparr>"
  have X: "ds_test_x T = Inr X" using ds_test_x_full [OF shT pos] by (simp add: X_def)
  have n: "n_test T = 4 * n_train tx"
    using sh shT by (simp add: n_test_def n_train_def)
  have shX: "shape X = [1024 * nt\<^sup>2, 2]" by (simp add: X_def)
  have ex: "elem X [((i * 32 + (2 * r + a)) * nt + j) * 32 + (2 * c + b), k] =
              elem tx [i, r, j, c, k] +
                (if k = 0
                 then (if a = 0 then (elem tx [0,0,0,0,0] - elem tx [0,0,1,0,0]) / 4
                       else (- (elem tx [0,0,0,0,0] - elem tx [0,0,1,0,0])) / 4)
                 else (if b = 0 then (- (elem tx [0,0,0,1,1] - elem tx [0,0,0,0,1])) / 4
                       else (elem tx [0,0,0,1,1] - elem tx [0,0,0,0,1]) / 4))"
    if "i < nt" "r < 16" "a < 2" "j < nt" "c < 16" "b < 2" "k < 2" for i r a j c b k
  proof -
    have r: "2 * r + a < 32" "2 * c + b < 32" using that by simp_all
    have "elem X [((i * 32 + (2 * r + a)) * nt + j) * 32 + (2 * c + b), k] =
            elem T [i, 2 * r + a, j, 2 * c + b, k]"
      unfolding X_def using unravel5t [OF that(1) r(1) that(4) r(2) that(7)]
      by (simp only: ndarray.simps ravel_2)
    then show ?thesis using el [OF that] by simp
  qed
  have e0: "elem X [((i * 32 + (2 * r + a)) * nt + j) * 32 + (2 * c + b), 0] =
                elem tx [i, r, j, c, 0] +
                (if a = 0 then (elem tx [0,0,0,0,0] - elem tx [0,0,1,0,0]) / 4
                 else (- (elem tx [0,0,0,0,0] - elem tx [0,0,1,0,0])) / 4)"
    if "i < nt" "r < 16" "a < 2" "j < nt" "c < 16" "b < 2" for i r a j c b
    using ex [OF that, of 0] by simp
  have e1: "elem X [((i * 32 + (2 * r + a)) * nt + j) * 32 + (2 * c + b), 1] =
                elem tx [i, r, j, c, 1] +
                (if b = 0 then (- (elem tx [0,0,0,1,1] - elem tx [0,0,0,0,1])) / 4
                 else (elem tx [0,0,0,1,1] - elem tx [0,0,0,0,1]) / 4)"
    if "i < nt" "r < 16" "a < 2" "j < nt" "c < 16" "b < 2" for i r a j c b
    using ex [OF that, of 1] by simp
  show ?thesis
    apply (rule exI [of _ T], rule exI [of _ X])
    apply (intro conjI allI impI)
         apply (rule T, rule X, rule n, rule shX)
     apply (rule e0; assumption)
    apply (rule e1; assumption)
    done
qed

section \<open>The flattened training arrays of the downscaling section\<close>

text \<open>
  Claim C4.  With the constants of the notebook (\<open>Num_Tiles = 8\<close>, \<open>Day_Number = 100\<close>,
  \<open>Start_Lat = 4\<close>, \<open>Start_Long = 14\<close>) and data that contain the window of tiles, the
  data preparation succeeds, \<open>train_x\<close> has shape \<open>(256 * Num_Tiles^2, 2)\<close>,
  \<open>train_y\<close> has shape \<open>(256 * Num_Tiles^2,)\<close>, and the element of \<open>train_y\<close> at
  position \<open>((i*16 + r)*Num_Tiles + j)*16 + c\<close> is the output value of day
  \<open>Day_Number\<close>, tile \<open>(Start_Lat + i, Start_Long + j)\<close>, point \<open>(r, c)\<close>; the row of
  \<open>train_x\<close> at that position is the pair of coordinates of the same point.
\<close>

theorem flattening_index:
  assumes "shape input_data_all = [nd, nlat, nlong, 16, 16, 2]"
    and "shape output_data_all = [nd, nlat, nlong, 16, 16]"
    and "Day_Number < nd" and "Start_Lat + Num_Tiles \<le> nlat" and "Start_Long + Num_Tiles \<le> nlong"
  shows "\<exists>tx ty train_x train_y.
           tiles_x Num_Tiles Start_Lat Start_Long Day_Number input_data_all = Inr tx \<and>
           tiles_y Num_Tiles Start_Lat Start_Long Day_Number output_data_all = Inr ty \<and>
           ds_train_x tx = Inr train_x \<and> ds_train_y tx ty = Inr train_y \<and>
           shape train_x = [256 * Num_Tiles\<^sup>2, 2] \<and> shape train_y = [256 * Num_Tiles\<^sup>2] \<and>
           (\<forall>i<Num_Tiles. \<forall>j<Num_Tiles. \<forall>r<16. \<forall>c<16.
              elem train_y [((i * 16 + r) * Num_Tiles + j) * 16 + c] =
                elem output_data_all [Day_Number, Start_Lat + i, Start_Long + j, r, c] \<and>
              (\<forall>k<2. elem train_x [((i * 16 + r) * Num_Tiles + j) * 16 + c, k] =
                elem input_data_all [Day_Number, Start_Lat + i, Start_Long + j, r, c, k]))"
proof -
  have nt: "0 < Num_Tiles" by (simp add: Num_Tiles_def)
  obtain tx where tx: "tiles_x Num_Tiles Start_Lat Start_Long Day_Number input_data_all = Inr tx"
    using tiles_x_full [OF assms(1,3,4,5)] by simp
  obtain ty where ty: "tiles_y Num_Tiles Start_Lat Start_Long Day_Number output_data_all = Inr ty"
    using tiles_y_full [OF assms(2,3,4,5)] by simp
  note sx = tiles_x_elem(1) [OF assms(1,3,4,5) tx]
  note sy = tiles_y_elem(1) [OF assms(2,3,4,5) ty]
  obtain X where X: "ds_train_x tx = Inr X" and shX: "shape X = [256 * Num_Tiles\<^sup>2, 2]"
    using ds_train_x_full [OF sx nt] by simp
  obtain Y where Y: "ds_train_y tx ty = Inr Y" and shY: "shape Y = [256 * Num_Tiles\<^sup>2]"
    using ds_train_y_full [OF sx sy] by simp
  have ey: "elem Y [((i * 16 + r) * Num_Tiles + j) * 16 + c] =
              elem output_data_all [Day_Number, Start_Lat + i, Start_Long + j, r, c]"
    if "i < Num_Tiles" "j < Num_Tiles" "r < 16" "c < 16" for i j r c
    using ds_train_y_elem [OF sx sy Y that(1,3,2,4)]
      tiles_y_elem(2) [OF assms(2,3,4,5) ty] by simp
  have ex: "elem X [((i * 16 + r) * Num_Tiles + j) * 16 + c, k] =
              elem input_data_all [Day_Number, Start_Lat + i, Start_Long + j, r, c, k]"
    if "i < Num_Tiles" "j < Num_Tiles" "r < 16" "c < 16" "k < 2" for i j r c k
    using ds_train_x_elem [OF sx X that(1,3,2,4,5)]
      tiles_x_elem(2) [OF assms(1,3,4,5) tx] by simp
  show ?thesis
    using tx ty X Y shX shY ex ey by blast
qed


theorem flattening_index_witness:
  "\<exists>tx ty train_x train_y.
     tiles_x Num_Tiles Start_Lat Start_Long Day_Number grid_input = Inr tx \<and>
     tiles_y Num_Tiles Start_Lat Start_Long Day_Number grid_output = Inr ty \<and>
     ds_train_x tx = Inr train_x \<and> ds_train_y tx ty = Inr train_y \<and>
     shape train_x = [16384, 2] \<and> shape train_y = [16384] \<and>
     elem train_y [2468] = 128 \<and> elem train_x [2468, 0] = - 83 \<and> elem train_x [2468, 1] = 260"
proof -
  have h: "shape grid_input = [365, 18, 39, 16, 16, 2]" "shape grid_output = [365, 18, 39, 16, 16]"
    "Day_Number < 365" "Start_Lat + Num_Tiles \<le> 18" "Start_Long + Num_Tiles \<le> 39"
    by (simp_all add: grid_input_def grid_output_def Day_Number_def Start_Lat_def Start_Long_def
          Num_Tiles_def)
  from flattening_index [OF h] obtain tx ty X Y where
    r: "tiles_x Num_Tiles Start_Lat Start_Long Day_Number grid_input = Inr tx"
       "tiles_y Num_Tiles Start_Lat Start_Long Day_Number grid_output = Inr ty"
       "ds_train_x tx = Inr X" "ds_train_y tx ty = Inr Y"
       "shape X = [256 * Num_Tiles\<^sup>2, 2]" "shape Y = [256 * Num_Tiles\<^sup>2]"
    and el: "\<And>i j r c. i < Num_Tiles \<Longrightarrow> j < Num_Tiles \<Longrightarrow> r < 16 \<Longrightarrow> c < 16 \<Longrightarrow>
              elem Y [((i * 16 + r) * Num_Tiles + j) * 16 + c] =
                elem grid_output [Day_Number, Start_Lat + i, Start_Long + j, r, c] \<and>
              (\<forall>k<2. elem X [((i * 16 + r) * Num_Tiles + j) * 16 + c, k] =
                elem grid_input [Day_Number, Start_Lat + i, Start_Long + j, r, c, k])"
    by blast
  have e: "elem Y [2468] = 128" "elem X [2468, 0] = - 83" "elem X [2468, 1] = 260"
    using el [of 1 2 3 4]
    by (simp_all add: Num_Tiles_def Day_Number_def Start_Lat_def Start_Long_def grid_input_def
          grid_output_def)
  have s: "shape X = [16384, 2]" "shape Y = [16384]"
    using r(5,6) by (simp_all add: Num_Tiles_def)
  show ?thesis using r(1-4) s e by blast
qed

lemma grid_tiles_x:
  "\<exists>tx. tiles_x Num_Tiles Start_Lat Start_Long Day_Number grid_input = Inr tx \<and>
        shape tx = [8, 16, 8, 16, 2] \<and>
        (\<forall>i r j c k. elem tx [i, r, j, c, k] = elem grid_input [100, 4 + i, 14 + j, r, c, k])"
proof -
  have h: "shape grid_input = [365, 18, 39, 16, 16, 2]"
    "Day_Number < 365" "Start_Lat + Num_Tiles \<le> 18" "Start_Long + Num_Tiles \<le> 39"
    by (simp_all add: grid_input_def Day_Number_def Start_Lat_def Start_Long_def Num_Tiles_def)
  obtain tx where tx: "tiles_x Num_Tiles Start_Lat Start_Long Day_Number grid_input = Inr tx"
    using tiles_x_full [OF h] by simp
  have "shape tx = [8, 16, 8, 16, 2]"
    using tiles_x_elem(1) [OF h tx] by (simp add: Num_Tiles_def)
  moreover have "elem tx [i, r, j, c, k] = elem grid_input [100, 4 + i, 14 + j, r, c, k]" for i r j c k
    using tiles_x_elem(2) [OF h tx, of i r j c k]
    by (simp add: Day_Number_def Start_Lat_def Start_Long_def)
  ultimately show ?thesis using tx by blast
qed

section \<open>The displacement of the test grid on a regular grid\<close>

text \<open>
  Claim C2.  The test grid has four points per training point, displaced by
  \<open>(+dlat/4, -dlong/4)\<close>, \<open>(-dlat/4, -dlong/4)\<close>, \<open>(+dlat/4, +dlong/4)\<close>,
  \<open>(-dlat/4, +dlong/4)\<close> (lemma \<open>test_grid_points\<close>), and \<open>dlong\<close> is the step
  between two neighbouring columns.  But \<open>dlat\<close> is read at \<open>tiles_x[0,0,1,0,0]\<close>,
  which after \<open>swapaxes\<close> is the first point of the next tile to the east, not the next
  row: on the regular grid \<open>grid_input\<close>, where one row is one unit of latitude
  (\<open>- 64\<close> and \<open>- 65\<close> for rows 0 and 1), the notebook computes \<open>dlat = 0\<close>, and the
  test points that should lie a quarter of a cell north and south of the first training
  point (positions 0 and 256 of \<open>test_x\<close>) both have its latitude \<open>- 64\<close>.
\<close>

theorem dlat_on_regular_grid:
  "\<exists>tx tt test_x.
     tiles_x Num_Tiles Start_Lat Start_Long Day_Number grid_input = Inr tx \<and>
     test_tiles tx = Inr tt \<and> ds_test_x tt = Inr test_x \<and>
     elem tx [0, 0, 0, 0, 0] = - 64 \<and> elem tx [0, 1, 0, 0, 0] = - 65 \<and>
     dlat tx = Inr 0 \<and> dlong tx = Inr 1 \<and>
     elem test_x [0, 0] = - 64 \<and> elem test_x [256, 0] = - 64 \<and>
     elem test_x [0, 1] = 224 - 1 / 4 \<and> elem test_x [1, 1] = 224 + 1 / 4"
proof -
  from grid_tiles_x obtain tx where
    tx: "tiles_x Num_Tiles Start_Lat Start_Long Day_Number grid_input = Inr tx"
    and sh: "shape tx = [8, 16, 8, 16, 2]"
    and el: "\<And>i r j c k. elem tx [i, r, j, c, k] = elem grid_input [100, 4 + i, 14 + j, r, c, k]"
    by blast
  have v: "elem tx [0, 0, 0, 0, 0] = - 64" "elem tx [0, 1, 0, 0, 0] = - 65"
    "elem tx [0, 0, 1, 0, 0] = - 64" "elem tx [0, 0, 0, 1, 1] = 225" "elem tx [0, 0, 0, 0, 1] = 224"
    by (simp_all add: el grid_input_def)
  have dl: "dlat tx = Inr 0" "dlong tx = Inr 1"
    using dlat_full [OF sh] dlong_full [OF sh] v by simp_all
  from test_grid_points [OF sh] obtain tt X where TX:
    "test_tiles tx = Inr tt \<and> ds_test_x tt = Inr X \<and>
           n_test tt = 4 * n_train tx \<and> shape X = [1024 * 8\<^sup>2, 2] \<and>
           (\<forall>i<8. \<forall>r<16. \<forall>a<2. \<forall>j<8. \<forall>c<16. \<forall>b<2.
              elem X [((i * 32 + (2 * r + a)) * 8 + j) * 32 + (2 * c + b), 0] =
                elem tx [i, r, j, c, 0] +
                (if a = 0 then (elem tx [0,0,0,0,0] - elem tx [0,0,1,0,0]) / 4
                 else (- (elem tx [0,0,0,0,0] - elem tx [0,0,1,0,0])) / 4) \<and>
              elem X [((i * 32 + (2 * r + a)) * 8 + j) * 32 + (2 * c + b), 1] =
                elem tx [i, r, j, c, 1] +
                (if b = 0 then (- (elem tx [0,0,0,1,1] - elem tx [0,0,0,0,1])) / 4
                 else (elem tx [0,0,0,1,1] - elem tx [0,0,0,0,1]) / 4))"
    by auto
  note pts = TX [THEN conjunct2, THEN conjunct2, THEN conjunct2, THEN conjunct2, rule_format]
  have p: "elem X [0, 0] = - 64" "elem X [256, 0] = - 64"
    "elem X [0, 1] = 224 - 1 / 4" "elem X [1, 1] = 224 + 1 / 4"
    using pts [of 0 0 0 0 0 0] pts [of 0 0 1 0 0 0] pts [of 0 0 0 0 0 1] v
    by simp_all
  show ?thesis
    using tx TX [THEN conjunct1] TX [THEN conjunct2, THEN conjunct1] v(1,2) dl p by blast
qed


lemma arange_col:
  "reshape [int n, 1] (arange lo (lo + n)) =
     Inr \<lparr>shape = [n, 1],
          elem = (\<lambda>js. elem (arange lo (lo + n)) (unravel [n] (ravel [n, 1] js)))\<rparr>"
  using infer_shape_2 [of n 1 n]
  by (simp add: reshape_def asize_def arange_def ebind_def del: unravel.simps ravel.simps)

lemma arange_col_elem:
  assumes "reshape [int n, 1] (arange lo (lo + n)) = Inr a"
  shows "shape a = [n, 1]" and "elem a [k, 0] = real (lo + k)"
  using assms unfolding arange_col by (auto simp add: arange_def)

lemma ts_y_full:
  assumes "shape a = [nd, nlat, nlong, nr, nc]" "long < nlat" "lat < nlong"
    and "fst point < nr" "snd point < nc"
  shows "getitem [Slice s (s + n), Idx (int long), Idx (int lat), Idx (int (fst point)),
                  Idx (int (snd point))] a =
           Inr \<lparr>shape = [min (s + n) nd - min s nd],
                elem = (\<lambda>js. elem a (ix_map [Slice s (s + n), Idx (int long), Idx (int lat),
                           Idx (int (fst point)), Idx (int (snd point))] (shape a) js))\<rparr>"
  using assms by (simp add: getitem_def)

section \<open>Time series: the test set extends the training set\<close>

text \<open>
  Claim C9.  With \<open>Start_Test = Start_Day = 10\<close> and \<open>Test_Days = N_Train + 30\<close>, on
  data that contain the training window and the chosen point: for every
  \<open>k < N_Train = 120\<close>, \<open>test_x[k] = train_x[k]\<close> and \<open>test_y[k] = train_y[k]\<close>, and
  \<open>test_x\<close> has exactly 30 more rows, the consecutive days after the training window.
\<close>

theorem test_extends_train:
  assumes "shape output_data_all = [nd, nlat, nlong, nr, nc]"
    and "Start_Day + N_Train \<le> nd" and "long < nlat" and "lat < nlong"
    and "fst point < nr" and "snd point < nc"
  shows "\<exists>train_x train_y test_x test_y.
           ts_train_x = Inr train_x \<and> ts_train_y output_data_all = Inr train_y \<and>
           ts_test_x = Inr test_x \<and> ts_test_y output_data_all = Inr test_y \<and>
           Start_Test = Start_Day \<and> Start_Day = 10 \<and> N_Train = 120 \<and> Test_Days = N_Train + 30 \<and>
           shape train_x = [N_Train, 1] \<and> shape train_y = [N_Train] \<and>
           shape test_x = [N_Train + 30, 1] \<and>
           (\<forall>k<N_Train. elem test_x [k, 0] = elem train_x [k, 0] \<and>
                         elem test_y [k] = elem train_y [k]) \<and>
           (\<forall>k<N_Train. elem train_x [k, 0] = real (Start_Day + k)) \<and>
           (\<forall>k<30. elem test_x [N_Train + k, 0] = real (Start_Day + N_Train + k))"
proof -
  obtain trainx where trainx: "ts_train_x = Inr trainx"
    unfolding ts_train_x_def arange_col by simp
  obtain testx where testx: "ts_test_x = Inr testx"
    unfolding ts_test_x_def arange_col by simp
  note a1 = arange_col_elem [OF trainx [unfolded ts_train_x_def]]
  note a2 = arange_col_elem [OF testx [unfolded ts_test_x_def]]
  define trainy where "trainy = \<lparr>shape = [min (Start_Day + N_Train) nd - min Start_Day nd],
      elem = (\<lambda>js. elem output_data_all (ix_map ts_train_y_ix (shape output_data_all) js))\<rparr>"
  define testy where "testy = \<lparr>shape = [min (Start_Test + Test_Days) nd - min Start_Test nd],
      elem = (\<lambda>js. elem output_data_all (ix_map ts_test_y_ix (shape output_data_all) js))\<rparr>"
  have trainy: "ts_train_y output_data_all = Inr trainy"
    unfolding ts_train_y_def ts_train_y_ix_def ts_y_full [OF assms(1,3,4,5,6)]
    by (simp add: trainy_def ts_train_y_ix_def)
  have testy: "ts_test_y output_data_all = Inr testy"
    unfolding ts_test_y_def ts_test_y_ix_def ts_y_full [OF assms(1,3,4,5,6)]
    by (simp add: testy_def ts_test_y_ix_def)
  have c: "Start_Test = Start_Day" "Start_Day = 10" "N_Train = 120" "Test_Days = N_Train + 30"
    by (simp_all add: Start_Test_def Start_Day_def N_Train_def Test_Days_def)
  have s1: "shape trainx = [N_Train, 1]" by (rule a1(1))
  have s2: "shape trainy = [N_Train]" using assms(2) by (simp add: trainy_def min_def)
  have s3: "shape testx = [N_Train + 30, 1]" using a2(1) by (simp add: Test_Days_def)
  have e1: "elem testx [k, 0] = elem trainx [k, 0] \<and> elem testy [k] = elem trainy [k]" for k
    using a1(2) [of k] a2(2) [of k]
    by (simp add: trainy_def testy_def assms(1) ts_train_y_ix_def ts_test_y_ix_def Start_Test_def)
  have e2: "elem trainx [k, 0] = real (Start_Day + k)" for k by (rule a1(2))
  have e3: "elem testx [N_Train + k, 0] = real (Start_Day + N_Train + k)" for k
    using a2(2) [of "N_Train + k"] by (simp add: Start_Test_def add.assoc)
  show ?thesis
    apply (rule exI [of _ trainx], rule exI [of _ trainy], rule exI [of _ testx], rule exI [of _ testy])
    using trainx trainy testx testy c s1 s2 s3 e1 e2 e3 by simp
qed

theorem test_extends_train_witness:
  "\<exists>train_x train_y test_x test_y.
     ts_train_x = Inr train_x \<and> ts_train_y grid_output = Inr train_y \<and>
     ts_test_x = Inr test_x \<and> ts_test_y grid_output = Inr test_y \<and>
     shape train_x = [120, 1] \<and> shape test_x = [150, 1] \<and>
     elem test_x [119, 0] = elem train_x [119, 0] \<and> elem test_y [119] = elem train_y [119] \<and>
     elem train_x [119, 0] = 129 \<and> elem test_x [149, 0] = 159"
proof -
  have h: "shape grid_output = [365, 18, 39, 16, 16]" "Start_Day + N_Train \<le> 365"
    "long < 18" "lat < 39" "fst point < 16" "snd point < 16"
    by (simp_all add: grid_output_def Start_Day_def N_Train_def long_def lat_def point_def)
  from test_extends_train [OF h] obtain trainx trainy testx testy where
    r: "ts_train_x = Inr trainx" "ts_train_y grid_output = Inr trainy"
       "ts_test_x = Inr testx" "ts_test_y grid_output = Inr testy"
       "shape trainx = [N_Train, 1]" "shape testx = [N_Train + 30, 1]"
    and e1: "\<forall>k<N_Train. elem testx [k, 0] = elem trainx [k, 0] \<and> elem testy [k] = elem trainy [k]"
    and e2: "\<forall>k<N_Train. elem trainx [k, 0] = real (Start_Day + k)"
    and e3: "\<forall>k<30. elem testx [N_Train + k, 0] = real (Start_Day + N_Train + k)"
    by blast
  have "elem testx [119, 0] = elem trainx [119, 0]" "elem testy [119] = elem trainy [119]"
    "elem trainx [119, 0] = 129"
    using e1 [rule_format, of 119] e2 [rule_format, of 119]
    by (simp_all add: N_Train_def Start_Day_def)
  moreover have "elem testx [149, 0] = 159"
    using e3 [rule_format, of 29] by (simp add: N_Train_def Start_Day_def)
  moreover have "shape trainx = [120, 1]" "shape testx = [150, 1]"
    using r(5,6) by (simp_all add: N_Train_def)
  ultimately show ?thesis using r(1-4) by blast
qed


lemma test_tiles_shape_of:
  assumes "shape tx = [nt, 16, nt, 16, 2]" "test_tiles tx = Inr tt"
  shows "shape tt = [nt, 32, nt, 32, 2]"
proof (cases "2 \<le> nt")
  case True
  from test_tiles_elem [OF assms(1) True] assms(2) show ?thesis by auto
next
  case False
  then have "dlat tx = Inl IndexError" using dlat_fails [OF assms(1)] by simp
  then have "test_tiles tx = Inl IndexError" by (simp add: test_tiles_def ebind_def)
  with assms(2) show ?thesis by simp
qed

lemma orig_SVDI_full:
  assumes "shape y = [256 * nt\<^sup>2]"
  shows "\<exists>img. orig_SVDI nt y = Inr img \<and> shape img = [odim nt, odim nt]"
  using assms infer_shape_2 [of "odim nt" "odim nt" "256 * nt\<^sup>2"]
  by (simp add: orig_SVDI_def reshape_def asize_def ebind_def transpose_nd_def odim_def
        power2_eq_square del: unravel.simps ravel.simps)

lemma downscaled_SVDI_full:
  assumes "shape p = [1024 * nt\<^sup>2]"
  shows "\<exists>img. downscaled_SVDI nt p = Inr img \<and> shape img = [ddim nt, ddim nt]"
  using assms infer_shape_2 [of "ddim nt" "ddim nt" "1024 * nt\<^sup>2"]
  by (simp add: downscaled_SVDI_def reshape_def asize_def ebind_def transpose_nd_def odim_def
        ddim_def power2_eq_square del: unravel.simps ravel.simps)

section \<open>The reshapes of the last cell\<close>

text \<open>
  Claim C10, amended.  For every positive \<open>Num_Tiles\<close> whose window of tiles lies inside
  the data, the flattened training targets have exactly \<open>odim^2 = n_train\<close> elements and
  \<open>reshape((odim, odim))\<close> succeeds; and whenever the test grid is built, \<open>n_test\<close> is
  \<open>ddim^2\<close>, so an array of \<open>n_test\<close> predictive means reshapes to \<open>(ddim, ddim)\<close>.
\<close>

theorem image_reshapes:
  fixes input_data_all :: "real ndarray" and output_data_all :: "real ndarray"
  assumes "shape input_data_all = [nd, nlat, nlong, 16, 16, 2]"
    and "shape output_data_all = [nd, nlat, nlong, 16, 16]"
    and "day < nd" and "slat + nt \<le> nlat" and "slong + nt \<le> nlong" and "0 < nt"
  shows "\<exists>tx ty train_y.
           tiles_x nt slat slong day input_data_all = Inr tx \<and>
           tiles_y nt slat slong day output_data_all = Inr ty \<and>
           ds_train_y tx ty = Inr train_y \<and>
           n_train tx = (odim nt)\<^sup>2 \<and> asize train_y = (odim nt)\<^sup>2 \<and>
           (\<exists>img. orig_SVDI nt train_y = Inr img \<and> shape img = [odim nt, odim nt]) \<and>
           (\<forall>tt preds_mean :: real ndarray.
              test_tiles tx = Inr tt \<and> shape preds_mean = [n_test tt] \<longrightarrow>
              n_test tt = (ddim nt)\<^sup>2 \<and>
              (\<exists>img. downscaled_SVDI nt preds_mean = Inr img \<and> shape img = [ddim nt, ddim nt]))"
proof -
  obtain tx where tx: "tiles_x nt slat slong day input_data_all = Inr tx"
    using tiles_x_full [OF assms(1,3,4,5)] by simp
  obtain ty where ty: "tiles_y nt slat slong day output_data_all = Inr ty"
    using tiles_y_full [OF assms(2,3,4,5)] by simp
  note sx = tiles_x_elem(1) [OF assms(1,3,4,5) tx]
  note sy = tiles_y_elem(1) [OF assms(2,3,4,5) ty]
  obtain Y where Y: "ds_train_y tx ty = Inr Y" and shY: "shape Y = [256 * nt\<^sup>2]"
    using ds_train_y_full [OF sx sy] by simp
  have n: "n_train tx = (odim nt)\<^sup>2"
    using sx by (simp add: n_train_def odim_def power2_eq_square)
  have sz: "asize Y = (odim nt)\<^sup>2"
    using shY by (simp add: asize_def odim_def power2_eq_square)
  note o = orig_SVDI_full [OF shY]
  have d: "n_test tt = (ddim nt)\<^sup>2 \<and>
              (\<exists>img. downscaled_SVDI nt p = Inr img \<and> shape img = [ddim nt, ddim nt])"
    if "test_tiles tx = Inr tt \<and> shape p = [n_test tt]" for tt and p :: "real ndarray"
  proof -
    from that have a: "test_tiles tx = Inr tt" and b: "shape p = [n_test tt]" by simp_all
    have st: "shape tt = [nt, 32, nt, 32, 2]" by (rule test_tiles_shape_of [OF sx a])
    then have nte: "n_test tt = 1024 * nt\<^sup>2" by (simp add: n_test_def power2_eq_square)
    then have "n_test tt = (ddim nt)\<^sup>2" by (simp add: ddim_def odim_def power2_eq_square)
    moreover have "shape p = [1024 * nt\<^sup>2]" using b nte by simp
    ultimately show ?thesis using downscaled_SVDI_full by blast
  qed
  show ?thesis
    apply (rule exI [of _ tx], rule exI [of _ ty], rule exI [of _ Y])
    using tx ty Y n sz o d by blast
qed

theorem image_reshapes_witness:
  "\<exists>tx ty train_y tt.
     tiles_x Num_Tiles Start_Lat Start_Long Day_Number grid_input = Inr tx \<and>
     tiles_y Num_Tiles Start_Lat Start_Long Day_Number grid_output = Inr ty \<and>
     ds_train_y tx ty = Inr train_y \<and> asize train_y = 16384 \<and>
     (\<exists>img. orig_SVDI Num_Tiles train_y = Inr img \<and> shape img = [128, 128]) \<and>
     test_tiles tx = Inr tt \<and> n_test tt = 65536 \<and>
     (\<exists>img. downscaled_SVDI Num_Tiles (zeros [n_test tt]) = Inr img \<and> shape img = [256, 256])"
proof -
  have h: "shape grid_input = [365, 18, 39, 16, 16, 2]" "shape grid_output = [365, 18, 39, 16, 16]"
    "Day_Number < 365" "Start_Lat + Num_Tiles \<le> 18" "Start_Long + Num_Tiles \<le> 39" "0 < Num_Tiles"
    by (simp_all add: grid_input_def grid_output_def Day_Number_def Start_Lat_def Start_Long_def
          Num_Tiles_def)
  from image_reshapes [OF h] obtain tx ty Y where
    r: "tiles_x Num_Tiles Start_Lat Start_Long Day_Number grid_input = Inr tx"
       "tiles_y Num_Tiles Start_Lat Start_Long Day_Number grid_output = Inr ty"
       "ds_train_y tx ty = Inr Y" "asize Y = (odim Num_Tiles)\<^sup>2"
       "\<exists>img. orig_SVDI Num_Tiles Y = Inr img \<and> shape img = [odim Num_Tiles, odim Num_Tiles]"
    and d: "\<And>tt preds_mean :: real ndarray.
              test_tiles tx = Inr tt \<and> shape preds_mean = [n_test tt] \<Longrightarrow>
              n_test tt = (ddim Num_Tiles)\<^sup>2 \<and>
              (\<exists>img. downscaled_SVDI Num_Tiles preds_mean = Inr img \<and>
                     shape img = [ddim Num_Tiles, ddim Num_Tiles])"
    by blast
  have sx: "shape tx = [Num_Tiles, 16, Num_Tiles, 16, 2]"
    by (rule tiles_x_elem(1) [OF h(1,3,4,5) r(1)])
  have "2 \<le> Num_Tiles" by (simp add: Num_Tiles_def)
  from test_tiles_elem [OF sx this] obtain tt where tt: "test_tiles tx = Inr tt" by blast
  have zs: "shape (zeros [n_test tt]) = [n_test tt]" by (simp add: zeros_def)
  have dd0: "n_test tt = (ddim Num_Tiles)\<^sup>2 \<and>
    (\<exists>img. downscaled_SVDI Num_Tiles (zeros [n_test tt]) = Inr img \<and>
           shape img = [ddim Num_Tiles, ddim Num_Tiles])"
    by (rule d [of tt "zeros [n_test tt]"]) (simp add: tt zs)
  note dd = dd0 [THEN conjunct1] dd0 [THEN conjunct2]
  have c: "(odim Num_Tiles)\<^sup>2 = 16384" "odim Num_Tiles = 128" "ddim Num_Tiles = 256"
    "(ddim Num_Tiles)\<^sup>2 = 65536"
    by (simp_all add: odim_def ddim_def Num_Tiles_def)
  show ?thesis
    apply (rule exI [of _ tx], rule exI [of _ ty], rule exI [of _ Y], rule exI [of _ tt])
    using r tt dd unfolding c by simp
qed

subsection \<open>A window of tiles that leaves the data\<close>

lemma expand_dims_5:
  assumes "shape tx = [n1, n2, n3, n4, n5]"
  shows "expand_dims [2, 5] tx =
           Inr \<lparr>shape = [n1, n2, 1, n3, n4, 1, n5], elem = (\<lambda>js. elem tx (squeeze_ix [2, 5] 0 js))\<rparr>"
  using assms by (simp add: expand_dims_def eval_nat_numeral)

lemma c15_tx:
  "\<exists>tx. tiles_x 15 Start_Lat Start_Long Day_Number grid_input = Inr tx \<and> shape tx = [14, 16, 15, 16, 2]"
  by (simp add: tiles_x_def tiles_x_ix_def getitem_def swapaxes_def swap_def ebind_def
        grid_input_def Start_Lat_def Start_Long_def Day_Number_def)

lemma c15_ty:
  "\<exists>ty. tiles_y 15 Start_Lat Start_Long Day_Number grid_output = Inr ty \<and> shape ty = [14, 16, 15, 16]"
  by (simp add: tiles_y_def tiles_y_ix_def getitem_def swapaxes_def swap_def ebind_def
        grid_output_def Start_Lat_def Start_Long_def Day_Number_def)

lemma c15_train_y:
  assumes "shape tx = [14, 16, 15, 16, 2]" "shape ty = [14, 16, 15, 16]"
  shows "\<exists>y. ds_train_y tx ty = Inr y \<and> shape y = [53760]"
  using assms infer_shape_1 [of 53760 53760]
  by (simp add: ds_train_y_def n_train_def reshape_def asize_def ebind_def
      del: unravel.simps ravel.simps)

lemma c15_orig:
  assumes "shape y = [53760]"
  shows "orig_SVDI 15 y = Inl ValueError"
  using assms infer_shape_2 [of 240 240 53760]
  by (simp add: orig_SVDI_def odim_def reshape_def asize_def ebind_def)

lemma c15_tt:
  assumes sh: "shape tx = [14, 16, 15, 16, 2]"
  shows "\<exists>tt. test_tiles tx = Inr tt \<and> shape tt = [14, 32, 15, 32, 2]"
proof -
  have a: "dlat tx = Inr (elem tx [0,0,0,0,0] - elem tx [0,0,1,0,0])"
    using sh by (simp add: dlat_def item_def getitem_def ebind_def)
  have b: "dlong tx = Inr (elem tx [0,0,0,1,1] - elem tx [0,0,0,0,1])"
    using sh by (simp add: dlong_def item_def getitem_def ebind_def)
  obtain dv where dv: "delta_vecs (elem tx [0,0,0,0,0] - elem tx [0,0,1,0,0])
       (elem tx [0,0,0,1,1] - elem tx [0,0,0,0,1]) = Inr dv" and shdv: "shape dv = [1,1,2,1,1,2,2]"
    using delta_vecs_full by blast
  define t where "t = \<lparr>shape = [14, 16, 1, 15, 16, 1, 2], elem = (\<lambda>js. elem tx (squeeze_ix [2, 5] 0 js))\<rparr>"
  have sht: "shape t = [14, 16, 1, 15, 16, 1, 2]" by (simp add: t_def)
  obtain t' where t': "add t dv = Inr t'" and sht': "shape t' = [14, 16, 2, 15, 16, 2, 2]"
    using sht shdv by (simp add: add_def bshape_def)
  have tts: "test_tiles_shape (shape t') = Inr [int 14, int 32, int 15, int 32, int 2]"
    by (simp add: sht' test_tiles_shape_def)
  obtain tt where rs: "reshape [int 14, int 32, int 15, int 32, int 2] t' = Inr tt"
     and shtt: "shape tt = [14, 32, 15, 32, 2]"
    unfolding reshape_def infer_shape_5
    by (simp add: asize_def sht' ebind_def del: unravel.simps ravel.simps)
  have "test_tiles tx = Inr tt"
    unfolding test_tiles_def a b expand_dims_5 [OF sh]
    using dv t' tts rs
    by (simp add: ebind_def t_def del: unravel.simps ravel.simps)
  then show ?thesis using shtt by blast
qed

lemma c15_down:
  "downscaled_SVDI 15 (zeros [215040]) = Inl ValueError"
  using infer_shape_2 [of 480 480 215040]
  by (simp add: downscaled_SVDI_def odim_def ddim_def reshape_def asize_def ebind_def zeros_def)


text \<open>
  Claim C10 as stated fails: \<open>Num_Tiles = 15\<close> is positive, but on data with 18 tiles
  from north to south the slice \<open>Start_Lat:Start_Lat+15\<close> is cut to 14 tiles, so
  \<open>train_y\<close> has 53760 elements and not \<open>odim^2 = 57600\<close>, the test grid has 215040
  points and not \<open>ddim^2 = 230400\<close>, and both reshapes raise.
\<close>

theorem image_reshape_fails_15:
  "ebind (tiles_x 15 Start_Lat Start_Long Day_Number grid_input) (\<lambda>tx.
   ebind (tiles_y 15 Start_Lat Start_Long Day_Number grid_output) (\<lambda>ty.
   ebind (ds_train_y tx ty) (\<lambda>train_y.
   ebind (test_tiles tx) (\<lambda>tt.
     Inr (asize train_y, (odim 15)\<^sup>2, map_sum id shape (orig_SVDI 15 train_y),
          n_test tt, (ddim 15)\<^sup>2,
          map_sum id shape (downscaled_SVDI 15 (zeros [n_test tt])))))))
   = Inr (53760, 57600, Inl ValueError, 215040, 230400, Inl ValueError)"
proof -
  from c15_tx obtain tx where tx: "tiles_x 15 Start_Lat Start_Long Day_Number grid_input = Inr tx"
    and sx: "shape tx = [14, 16, 15, 16, 2]" by blast
  from c15_ty obtain ty where ty: "tiles_y 15 Start_Lat Start_Long Day_Number grid_output = Inr ty"
    and sy: "shape ty = [14, 16, 15, 16]" by blast
  from c15_train_y [OF sx sy] obtain y where y: "ds_train_y tx ty = Inr y"
    and shy: "shape y = [53760]" by blast
  from c15_tt [OF sx] obtain tt where tt: "test_tiles tx = Inr tt"
    and shtt: "shape tt = [14, 32, 15, 32, 2]" by blast
  have n: "n_test tt = 215040" using shtt by (simp add: n_test_def)
  have a: "asize y = 53760" using shy by (simp add: asize_def)
  have c: "(odim 15)\<^sup>2 = 57600" "(ddim 15)\<^sup>2 = 230400" by (simp_all add: odim_def ddim_def)
  show ?thesis
    by (simp add: tx ty y tt ebind_def n a c c15_orig [OF shy] c15_down)
qed

section \<open>Running statements one after the other\<close>

lemma exec_append:
  "exec (xs @ ys) s =
     (case exec xs s of (None, s1) \<Rightarrow> exec ys s1 | (Some e, s1) \<Rightarrow> (Some e, s1))"
  by (induction xs arbitrary: s) (auto split: sum.splits)

lemma exec_append_None:
  "exec (xs @ ys) s = (None, s') \<longleftrightarrow> (\<exists>s1. exec xs s = (None, s1) \<and> exec ys s1 = (None, s'))"
  by (auto simp add: exec_append split: prod.splits option.splits)

lemma exec_fails_at:
  assumes "exec before s = (None, s1)" "stmt s1 = Inl e"
  shows "exec (before @ stmt # rest) s = (Some e, s1)"
  using assms by (simp add: exec_append)

lemma exec_Some_split:
  "exec cs s = (Some e, s1) \<Longrightarrow>
     \<exists>before stmt rest. cs = before @ stmt # rest \<and> exec before s = (None, s1) \<and> stmt s1 = Inl e"
proof (induction cs arbitrary: s)
  case Nil
  then show ?case by simp
next
  case (Cons c cs)
  show ?case
  proof (cases "c s")
    case (Inl e')
    with Cons.prems have "e' = e" "s1 = s" by simp_all
    with Inl have "c # cs = [] @ c # cs \<and> exec [] s = (None, s1) \<and> c s1 = Inl e" by simp
    then show ?thesis by blast
  next
    case (Inr s')
    with Cons.prems have "exec cs s' = (Some e, s1)" by simp
    from Cons.IH [OF this] obtain before stmt rest where
      b: "cs = before @ stmt # rest" "exec before s' = (None, s1)" "stmt s1 = Inl e" by blast
    then have "c # cs = (c # before) @ stmt # rest \<and> exec (c # before) s = (None, s1) \<and> stmt s1 = Inl e"
      using Inr by simp
    then show ?thesis by blast
  qed
qed

lemma exec_append_Some:
  assumes "exec xs s = (Some e, s1)"
  shows "exec (xs @ ys) s = (Some e, s1)"
  using assms by (simp add: exec_append)

section \<open>The training loop\<close>

lemma train_body_log:
  assumes "exec (train_body L i) s = (None, s')"
  shows "v_train_x s' = v_train_x s \<and> v_train_y s' = v_train_y s \<and>
         (\<exists>v. log s' = log s @
            [Call ZeroGrad, Call (ModelCall (v_train_x s)), Call (NegMll (v_train_y s)),
             Call Backward] @
            (if i mod 10 = 0 then [Print (IterationNumber i), Print (Loss v)] else []) @
            [Call OptimizerStep])"
  using assms
  by (auto simp add: train_body_def lib_call_def py_print_def emit_def split: sum.splits if_splits)


lemma train_log:
  assumes "exec (concat (map (train_body L) [0..<n])) s = (None, s')"
  shows "v_train_x s' = v_train_x s \<and> v_train_y s' = v_train_y s \<and>
         (\<exists>loss. log s' = log s @ concat (map (\<lambda>i.
            [Call ZeroGrad, Call (ModelCall (v_train_x s)), Call (NegMll (v_train_y s)),
             Call Backward] @
            (if i mod 10 = 0 then [Print (IterationNumber i), Print (Loss (loss i))] else []) @
            [Call OptimizerStep]) [0..<n]))"
  using assms
proof (induction n arbitrary: s')
  case 0
  then show ?case by simp
next
  case (Suc n)
  from Suc.prems obtain s1 where
    a: "exec (concat (map (train_body L) [0..<n])) s = (None, s1)"
    and b: "exec (train_body L n) s1 = (None, s')"
    by (auto simp add: exec_append_None)
  from Suc.IH [OF a] obtain loss where
    x: "v_train_x s1 = v_train_x s" and y: "v_train_y s1 = v_train_y s"
    and l: "log s1 = log s @ concat (map (\<lambda>i.
            [Call ZeroGrad, Call (ModelCall (v_train_x s)), Call (NegMll (v_train_y s)),
             Call Backward] @
            (if i mod 10 = 0 then [Print (IterationNumber i), Print (Loss (loss i))] else []) @
            [Call OptimizerStep]) [0..<n])"
    by blast
  from train_body_log [OF b] obtain v where
    x': "v_train_x s' = v_train_x s1" and y': "v_train_y s' = v_train_y s1"
    and l': "log s' = log s1 @
            [Call ZeroGrad, Call (ModelCall (v_train_x s1)), Call (NegMll (v_train_y s1)),
             Call Backward] @
            (if n mod 10 = 0 then [Print (IterationNumber n), Print (Loss v)] else []) @
            [Call OptimizerStep]"
    by blast
  define loss' where "loss' = loss(n := v)"
  have same: "map (\<lambda>i.
            [Call ZeroGrad, Call (ModelCall (v_train_x s)), Call (NegMll (v_train_y s)),
             Call Backward] @
            (if i mod 10 = 0 then [Print (IterationNumber i), Print (Loss (loss' i))] else []) @
            [Call OptimizerStep]) [0..<n] =
        map (\<lambda>i.
            [Call ZeroGrad, Call (ModelCall (v_train_x s)), Call (NegMll (v_train_y s)),
             Call Backward] @
            (if i mod 10 = 0 then [Print (IterationNumber i), Print (Loss (loss i))] else []) @
            [Call OptimizerStep]) [0..<n]"
    by (rule map_cong) (simp_all add: loss'_def)
  have "log s' = log s @ concat (map (\<lambda>i.
            [Call ZeroGrad, Call (ModelCall (v_train_x s)), Call (NegMll (v_train_y s)),
             Call Backward] @
            (if i mod 10 = 0 then [Print (IterationNumber i), Print (Loss (loss' i))] else []) @
            [Call OptimizerStep]) [0..<Suc n])"
    unfolding upt_Suc_append [OF le0] map_append concat_append same
    using l l' x y by (simp add: loss'_def)
  then show ?case using x x' y y' by auto
qed

text \<open>
  Claim C1.  A training loop that runs to its end has made exactly \<open>N_iterations\<close>
  iterations (500 for the time series, 81 for the downscaling); each iteration zeroes the
  gradients, evaluates the model on \<open>train_x\<close>, takes the negated marginal log
  likelihood of the output against \<open>train_y\<close>, backpropagates and takes one optimizer
  step, in this order; and the iteration number and the loss are printed, between the
  backward pass and the step, in exactly the iterations \<open>i\<close> with \<open>i mod 10 = 0\<close>.
\<close>

theorem training_loop:
  assumes "exec (train L sec) s = (None, s')"
  shows "(\<exists>loss. log s' = log s @ concat (map (\<lambda>i.
            [Call ZeroGrad, Call (ModelCall (v_train_x s)), Call (NegMll (v_train_y s)),
             Call Backward] @
            (if i mod 10 = 0 then [Print (IterationNumber i), Print (Loss (loss i))] else []) @
            [Call OptimizerStep]) [0..<N_iterations sec])) \<and>
         N_iterations TimeSeries = 500 \<and> N_iterations Downscaling = 81"
  using train_log [OF assms [unfolded train_def]] by simp


section \<open>The events of a run\<close>

lemma tracks_Nil: "tracks [] []"
  by (simp add: tracks_def)

lemma tracks_append:
  assumes "tracks xs ta" "tracks ys tb"
  shows "tracks (xs @ ys) (ta @ tb)"
  unfolding tracks_def
proof (intro allI impI)
  fix s r s'
  assume e: "exec (xs @ ys) s = (r, s')"
  obtain r1 s1 where x: "exec xs s = (r1, s1)" by (cases "exec xs s")
  from assms(1) x obtain ev1 where
    f1: "files s1 = files s" and l1: "log s1 = log s @ ev1"
    and p1: "prefix (map erase ev1) ta" and c1: "r1 = None \<longrightarrow> map erase ev1 = ta"
    unfolding tracks_def by blast
  show "files s' = files s \<and>
        (\<exists>ev. log s' = log s @ ev \<and> prefix (map erase ev) (ta @ tb) \<and>
              (r = None \<longrightarrow> map erase ev = ta @ tb))"
  proof (cases r1)
    case (Some err)
    with e x have "r = Some err" "s' = s1" by (simp_all add: exec_append)
    then show ?thesis using f1 l1 p1 by (auto intro: prefix_prefix)
  next
    case None
    with e x have y: "exec ys s1 = (r, s')" by (simp add: exec_append)
    from assms(2) y obtain ev2 where
      f2: "files s' = files s1" and l2: "log s' = log s1 @ ev2"
      and p2: "prefix (map erase ev2) tb" and c2: "r = None \<longrightarrow> map erase ev2 = tb"
      unfolding tracks_def by blast
    have m: "map erase ev1 = ta" using c1 None by simp
    have "log s' = log s @ (ev1 @ ev2)" using l1 l2 by simp
    moreover have "prefix (map erase (ev1 @ ev2)) (ta @ tb)" using m p2 by simp
    moreover have "r = None \<longrightarrow> map erase (ev1 @ ev2) = ta @ tb" using m c2 by simp
    ultimately show ?thesis using f1 f2 by metis
  qed
qed

lemma tracks_Cons:
  assumes "tracks [c] ta" "tracks cs tb"
  shows "tracks (c # cs) (ta @ tb)"
  using tracks_append [OF assms] by simp

lemma tracks_concat_map:
  assumes "\<And>i. tracks (f i) (g i)"
  shows "tracks (concat (map f xs)) (concat (map g xs))"
  by (induction xs) (simp_all add: tracks_Nil tracks_append assms)

lemma tracks_lib_call:
  assumes "\<And>s. erase_call (c s) = k"
  shows "tracks [lib_call L c] [Call k]"
  using assms
  by (auto simp add: tracks_def lib_call_def emit_def split: sum.splits)

lemma tracks_py_print:
  assumes "\<And>s. erase_line (f s) = l"
  shows "tracks [py_print f] [Print l]"
  using assms by (auto simp add: tracks_def py_print_def emit_def)

lemma tracks_assign:
  assumes "\<And>v s. log (store v s) = log s" "\<And>v s. files (store v s) = files s"
  shows "tracks [assign cell name rhs store] [Assign cell name]"
  using assms by (auto simp add: tracks_def assign_def emit_def split: sum.splits)

lemma tracks_np_load:
  assumes "\<And>v s. log (store v s) = log s" "\<And>v s. files (store v s) = files s"
  shows "tracks [np_load path store] [Load path]"
  using assms by (auto simp add: tracks_def np_load_def emit_def split: option.splits)

lemma tracks_index_data:
  assumes "\<And>v s. log (store v s) = log s" "\<And>v s. files (store v s) = files s"
  shows "tracks [index_data name arr ixs store] [Read name ixs]"
  using assms by (auto simp add: tracks_def index_data_def emit_def split: sum.splits)

lemma tracks_train_body:
  "tracks (train_body L i)
     ([Call ZeroGrad, Call (ModelCall blank), Call (NegMll blank), Call Backward] @
       (if i mod 10 = 0 then [Print (IterationNumber i), Print (Loss 0)] else []) @
       [Call OptimizerStep])"
proof -
  have a: "tracks [lib_call L (\<lambda>s. ZeroGrad), lib_call L (\<lambda>s. ModelCall (v_train_x s)),
      lib_call L (\<lambda>s. NegMll (v_train_y s)), lib_call L (\<lambda>s. Backward)]
     ([Call ZeroGrad] @ [Call (ModelCall blank)] @ [Call (NegMll blank)] @ [Call Backward] @ [])"
    by (intro tracks_Cons tracks_lib_call tracks_Nil) simp_all
  have b: "tracks (if i mod 10 = 0
      then [py_print (\<lambda>s. IterationNumber i), py_print (\<lambda>s. Loss (loss_of L (gp s)))]
      else [])
      (if i mod 10 = 0 then [Print (IterationNumber i), Print (Loss 0)] else [])"
  proof -
    have "tracks [py_print (\<lambda>s. IterationNumber i), py_print (\<lambda>s. Loss (loss_of L (gp s)))]
      ([Print (IterationNumber i)] @ [Print (Loss 0)] @ [])"
      by (intro tracks_Cons tracks_py_print tracks_Nil) simp_all
    then show ?thesis by (simp add: tracks_Nil)
  qed
  have c: "tracks [lib_call L (\<lambda>s. OptimizerStep)] [Call OptimizerStep]"
    by (intro tracks_lib_call) simp
  show ?thesis
    unfolding train_body_def
    using tracks_append [OF a tracks_append [OF b c]] by simp
qed

lemma tracks_train: "tracks (train L sec) (train_events (N_iterations sec))"
  unfolding train_def train_events_def
  by (rule tracks_concat_map) (rule tracks_train_body)

lemma tracks_print_params: "tracks (print_params L) param_events"
proof -
  have "tracks (print_params L)
     ([Print (Param Noise 0)] @ [Print (Param LengthScale 0)] @ [Print (Param OutputScale 0)] @
      [Print (Param Mean 0)] @ [])"
    unfolding print_params_def
    by (intro tracks_Cons tracks_py_print tracks_Nil) simp_all
  then show ?thesis by (simp add: param_events_def)
qed


lemmas tracks_intros =
  tracks_Cons tracks_lib_call tracks_py_print tracks_assign tracks_np_load tracks_index_data
  tracks_Nil

lemma tracks_cell_load:
  "tracks cell_load [Load input_path, Load output_path, Print (Shapes [[], []])]"
proof -
  have "tracks (cell_load :: 'a step list)
     ([Load input_path] @ [Load output_path] @ [Print (Shapes [[], []])] @ [])"
    unfolding cell_load_def by (intro tracks_intros) simp_all
  then show ?thesis by simp
qed

lemma tracks_cell_ts_data:
  "tracks cell_ts_data [Assign 4 ''train_x'', Read ''output_data_all'' ts_train_y_ix]"
proof -
  have "tracks (cell_ts_data :: 'a step list)
     ([Assign 4 ''train_x''] @ [Read ''output_data_all'' ts_train_y_ix] @ [])"
    unfolding cell_ts_data_def by (intro tracks_intros) simp_all
  then show ?thesis by simp
qed

lemma tracks_cell_model:
  "tracks (cell_model L sec) [Call GaussianLikelihood, Call (GPRegressionModel sec blank blank)]"
proof -
  have "tracks (cell_model L sec)
     ([Call GaussianLikelihood] @ [Call (GPRegressionModel sec blank blank)] @ [])"
    unfolding cell_model_def by (intro tracks_intros) simp_all
  then show ?thesis by simp
qed

lemma tracks_cell_ts_train:
  "tracks (cell_ts_train L)
     ([Call ModelTrain, Call LikelihoodTrain, Call Adam, Call ExactMarginalLogLikelihood] @
      train_events (N_iterations TimeSeries) @ param_events)"
proof -
  have "tracks [lib_call L (\<lambda>s. ModelTrain), lib_call L (\<lambda>s. LikelihoodTrain),
      lib_call L (\<lambda>s. Adam), lib_call L (\<lambda>s. ExactMarginalLogLikelihood)]
     ([Call ModelTrain] @ [Call LikelihoodTrain] @ [Call Adam] @
      [Call ExactMarginalLogLikelihood] @ [])"
    by (intro tracks_intros) simp_all
  then have a: "tracks [lib_call L (\<lambda>s. ModelTrain), lib_call L (\<lambda>s. LikelihoodTrain),
      lib_call L (\<lambda>s. Adam), lib_call L (\<lambda>s. ExactMarginalLogLikelihood)]
     [Call ModelTrain, Call LikelihoodTrain, Call Adam, Call ExactMarginalLogLikelihood]"
    by simp
  show ?thesis
    unfolding cell_ts_train_def
    by (rule tracks_append [OF a tracks_append [OF tracks_train tracks_print_params]])
qed

lemma tracks_cell_ts_predict:
  "tracks (cell_ts_predict L)
     [Assign 10 ''test_x'', Read ''output_data_all'' ts_test_y_ix,
      Call ModelEval, Call LikelihoodEval, Call (Predict False blank), Call ConfidenceRegion,
      Call (PltShow (TimeSeriesFigure blank blank blank blank blank (Start_Day + N_Train)))]"
proof -
  have "tracks (cell_ts_predict L)
     ([Assign 10 ''test_x''] @ [Read ''output_data_all'' ts_test_y_ix] @
      [Call ModelEval] @ [Call LikelihoodEval] @ [Call (Predict False blank)] @
      [Call ConfidenceRegion] @
      [Call (PltShow (TimeSeriesFigure blank blank blank blank blank (Start_Day + N_Train)))] @ [])"
    unfolding cell_ts_predict_def by (intro tracks_intros) simp_all
  then show ?thesis by simp
qed

lemma tracks_cell_ds_data:
  "tracks cell_ds_data
     [Read ''input_data_all'' (tiles_x_ix Num_Tiles Start_Lat Start_Long Day_Number),
      Assign 13 ''tiles_x'', Print (LabelledShape ''tiles_x shape:'' []),
      Assign 13 ''train_x'', Print (LabelledShape ''train_x shape: '' []),
      Read ''output_data_all'' (tiles_y_ix Num_Tiles Start_Lat Start_Long Day_Number),
      Assign 13 ''tiles_y'', Print (LabelledShape ''tiles_y shape'' []),
      Assign 13 ''train_y'', Print (LabelledShape ''train_y shape:'' [])]"
proof -
  have "tracks (cell_ds_data :: 'a step list)
     ([Read ''input_data_all'' (tiles_x_ix Num_Tiles Start_Lat Start_Long Day_Number)] @
      [Assign 13 ''tiles_x''] @ [Print (LabelledShape ''tiles_x shape:'' [])] @
      [Assign 13 ''train_x''] @ [Print (LabelledShape ''train_x shape: '' [])] @
      [Read ''output_data_all'' (tiles_y_ix Num_Tiles Start_Lat Start_Long Day_Number)] @
      [Assign 13 ''tiles_y''] @ [Print (LabelledShape ''tiles_y shape'' [])] @
      [Assign 13 ''train_y''] @ [Print (LabelledShape ''train_y shape:'' [])] @ [])"
    unfolding cell_ds_data_def by (intro tracks_intros) simp_all
  then show ?thesis by simp
qed

lemma tracks_cell_ds_train:
  "tracks (cell_ds_train L)
     ((if cuda_is_available L then [Call ModelCuda, Call LikelihoodCuda] else []) @
      [Call Adam, Call ExactMarginalLogLikelihood] @
      train_events (N_iterations Downscaling) @ param_events)"
proof -
  have a: "tracks (if cuda_is_available L
      then [lib_call L (\<lambda>s. ModelCuda), lib_call L (\<lambda>s. LikelihoodCuda)] else [])
      (if cuda_is_available L then [Call ModelCuda, Call LikelihoodCuda] else [])"
  proof -
    have "tracks [lib_call L (\<lambda>s. ModelCuda), lib_call L (\<lambda>s. LikelihoodCuda)]
       ([Call ModelCuda] @ [Call LikelihoodCuda] @ [])"
      by (intro tracks_intros) simp_all
    then show ?thesis by (simp add: tracks_Nil)
  qed
  have "tracks [lib_call L (\<lambda>s. Adam), lib_call L (\<lambda>s. ExactMarginalLogLikelihood)]
     ([Call Adam] @ [Call ExactMarginalLogLikelihood] @ [])"
    by (intro tracks_intros) simp_all
  then have b: "tracks [lib_call L (\<lambda>s. Adam), lib_call L (\<lambda>s. ExactMarginalLogLikelihood)]
     [Call Adam, Call ExactMarginalLogLikelihood]"
    by simp
  show ?thesis
    unfolding cell_ds_train_def
    by (rule tracks_append [OF a tracks_append [OF b
          tracks_append [OF tracks_train tracks_print_params]]])
qed

lemma tracks_cell_ds_grid: "tracks cell_ds_grid [Assign 19 ''test_x'']"
proof -
  have "tracks (cell_ds_grid :: 'a step list) ([Assign 19 ''test_x''] @ [])"
    unfolding cell_ds_grid_def by (intro tracks_intros) simp_all
  then show ?thesis by simp
qed

lemma tracks_cell_ds_predict:
  "tracks (cell_ds_predict L)
     [Call ModelEval, Call LikelihoodEval, Call (Predict True blank), Assign 21 ''preds_mean'',
      Call Variance]"
proof -
  have "tracks (cell_ds_predict L)
     ([Call ModelEval] @ [Call LikelihoodEval] @ [Call (Predict True blank)] @
      [Assign 21 ''preds_mean''] @ [Call Variance] @ [])"
    unfolding cell_ds_predict_def by (intro tracks_intros) simp_all
  then show ?thesis by simp
qed

lemma tracks_cell_ds_plot:
  "tracks (cell_ds_plot L)
     [Assign 23 ''downscaled_SVDI'', Assign 23 ''orig_SVDI'', Assign 23 ''extent'',
      Call (PltShow (ImagesFigure blank blank (0, 0, 0, 0)))]"
proof -
  have "tracks (cell_ds_plot L)
     ([Assign 23 ''downscaled_SVDI''] @ [Assign 23 ''orig_SVDI''] @ [Assign 23 ''extent''] @
      [Call (PltShow (ImagesFigure blank blank (0, 0, 0, 0)))] @ [])"
    unfolding cell_ds_plot_def by (intro tracks_intros) simp_all
  then show ?thesis by simp
qed

lemma tracks_notebook: "tracks (notebook L) (schedule (cuda_is_available L))"
  unfolding notebook_def cells_def schedule_def concat.simps append_Nil2
  by (intro tracks_append tracks_cell_load tracks_cell_ts_data tracks_cell_model
        tracks_cell_ts_train tracks_cell_ts_predict tracks_cell_ds_data tracks_cell_ds_train
        tracks_cell_ds_grid
        tracks_cell_ds_predict tracks_cell_ds_plot)


subsection \<open>Properties of the order of events\<close>

lemma erase_is_data: "is_data e \<Longrightarrow> erase e = e"
  by (cases e) simp_all

lemma is_data_erase: "is_data (erase e) = is_data e"
  by (cases e) simp_all

lemma filter_is_data_erase: "filter is_data (map erase ev) = filter is_data ev"
  by (induction ev) (simp_all add: is_data_erase erase_is_data)

lemma allowed_erase: "allowed (erase e) = allowed e"
  by (cases e) simp_all



lemma scalar_output_erase: "scalar_output (erase e) = scalar_output e"
proof (cases e)
  case (Print l)
  then show ?thesis by (cases l) simp_all
qed simp_all




lemma train_events_Suc:
  "train_events (Suc n) = train_events n @
       [Call ZeroGrad, Call (ModelCall blank), Call (NegMll blank), Call Backward] @
       (if n mod 10 = 0 then [Print (IterationNumber n), Print (Loss 0)] else []) @
       [Call OptimizerStep]"
  by (simp add: train_events_def)

lemma train_events_0: "train_events 0 = []"
  by (simp add: train_events_def)

lemma filter_is_data_train: "filter is_data (train_events n) = []"
  by (induction n) (simp_all add: train_events_0 train_events_Suc)

lemma list_all_allowed_train: "list_all allowed (train_events n)"
  by (induction n) (simp_all add: train_events_0 train_events_Suc)


lemma filter_is_data_schedule:
  "filter is_data (schedule cuda) =
     [Load input_path, Load output_path,
      Read ''output_data_all'' ts_train_y_ix,
      Read ''output_data_all'' ts_test_y_ix,
      Read ''input_data_all'' (tiles_x_ix Num_Tiles Start_Lat Start_Long Day_Number),
      Read ''output_data_all'' (tiles_y_ix Num_Tiles Start_Lat Start_Long Day_Number)]"
  by (simp add: schedule_def filter_is_data_train param_events_def del: N_iterations.simps)

lemma list_all_allowed_schedule: "list_all allowed (schedule cuda)"
  by (simp add: schedule_def list_all_allowed_train param_events_def del: N_iterations.simps)






lemma not_scalar_schedule: "\<not> list_all scalar_output (schedule cuda)"
  by (simp add: schedule_def)

lemma is_output_erase: "is_output (erase e) = is_output e"
proof (cases e)
  case (Call c)
  then show ?thesis by (induction c rule: erase_call.induct) simp_all
qed simp_all

lemma filter_is_output_erase:
  "filter is_output (map erase ev) = map erase (filter is_output ev)"
  by (induction ev) (simp_all add: is_output_erase)

lemma filter_is_output_train: "filter is_output (train_events n) = loop_lines n"
  by (induction n) (simp_all add: train_events_0 train_events_Suc loop_lines_def)

lemma filter_is_output_schedule: "filter is_output (schedule cuda) = outputs"
  by (simp add: schedule_def outputs_def filter_is_output_train param_events_def
        del: N_iterations.simps)


subsection \<open>Statements that only call the library or print\<close>

lemma exec_append_ok:
  assumes "exec xs s = (None, s1)" "exec ys s1 = (None, s2)"
  shows "exec (xs @ ys) s = (None, s2)"
  using assms by (simp add: exec_append)

lemma lib_steps_ok:
  assumes total: "\<And>c g. \<exists>g'. call L c g = Inr g'"
    and steps: "set cs \<subseteq> range (lib_call L) \<union> range py_print"
  shows "\<exists>g l. exec cs s = (None, s\<lparr>gp := g, log := l\<rparr>)"
  using steps
proof (induction cs arbitrary: s)
  case Nil
  have "s = s\<lparr>gp := gp s, log := log s\<rparr>" by simp
  then show ?case by (metis exec.simps(1))
next
  case (Cons c cs)
  from Cons.prems have c: "c \<in> range (lib_call L) \<union> range py_print"
    and cs: "set cs \<subseteq> range (lib_call L) \<union> range py_print" by simp_all
  have "\<exists>g l. c s = Inr (s\<lparr>gp := g, log := l\<rparr>)"
  proof -
    from c consider f where "c = lib_call L f" | f where "c = py_print f" by auto
    then show ?thesis
    proof cases
      case 1
      from total obtain g' where "call L (f s) (gp s) = Inr g'" by blast
      with 1 have "c s = Inr (s\<lparr>gp := g', log := log s @ [Call (f s)]\<rparr>)"
        by (simp add: lib_call_def emit_def)
      then show ?thesis by blast
    next
      case 2
      then have "c s = Inr (s\<lparr>gp := gp s, log := log s @ [Print (f s)]\<rparr>)"
        by (simp add: py_print_def emit_def)
      then show ?thesis by blast
    qed
  qed
  then obtain g l where a: "c s = Inr (s\<lparr>gp := g, log := l\<rparr>)" by blast
  from Cons.IH [OF cs, of "s\<lparr>gp := g, log := l\<rparr>"] obtain g' l' where
    "exec cs (s\<lparr>gp := g, log := l\<rparr>) = (None, s\<lparr>gp := g, log := l\<rparr>\<lparr>gp := g', log := l'\<rparr>)"
    by blast
  then have "exec (c # cs) s = (None, s\<lparr>gp := g', log := l'\<rparr>)" using a by simp
  then show ?case by blast
qed

lemma train_body_lib: "set (train_body L i) \<subseteq> range (lib_call L) \<union> range py_print"
  by (auto simp add: train_body_def)

lemma train_lib: "set (train L sec) \<subseteq> range (lib_call L) \<union> range py_print"
  using train_body_lib by (fastforce simp add: train_def)

lemma print_params_lib: "set (print_params L) \<subseteq> range (lib_call L) \<union> range py_print"
  by (auto simp add: print_params_def)

lemma cell_model_lib: "set (cell_model L sec) \<subseteq> range (lib_call L) \<union> range py_print"
  by (auto simp add: cell_model_def)

lemma cell_ts_train_lib: "set (cell_ts_train L) \<subseteq> range (lib_call L) \<union> range py_print"
  using train_lib [of L TimeSeries] print_params_lib [of L]
  by (auto simp add: cell_ts_train_def)

lemma cell_ds_train_lib: "set (cell_ds_train L) \<subseteq> range (lib_call L) \<union> range py_print"
  using train_lib [of L Downscaling] print_params_lib [of L]
  by (auto simp add: cell_ds_train_def)

section \<open>Runs that reach the end\<close>

lemma ebind_Inr: "ebind m f = Inr y \<Longrightarrow> \<exists>x. m = Inr x \<and> f x = Inr y"
  by (cases m) (simp_all add: ebind_def)

lemma extent_ok:
  assumes "shape tx = [nt, 16, nt, 16, 2]" "0 < nt"
  shows "\<exists>e. extent tx = Inr e"
  using assms by (simp add: extent_def item_def getitem_def ebind_def)

lemma cell_ts_predict_split:
  "cell_ts_predict L =
     [assign 10 ''test_x'' (\<lambda>s. ts_test_x) (\<lambda>a s. s\<lparr>v_test_x := a\<rparr>),
      index_data ''output_data_all'' v_output_data_all ts_test_y_ix (\<lambda>a s. s\<lparr>v_test_y := a\<rparr>)] @
     drop 2 (cell_ts_predict L)"
  by (simp add: cell_ts_predict_def)

lemma cell_ts_predict_lib:
  "set (drop 2 (cell_ts_predict L)) \<subseteq> range (lib_call L) \<union> range py_print"
  by (auto simp add: cell_ts_predict_def)

lemma ts_part_ok:
  assumes total: "\<And>c g. \<exists>g'. call L c g = Inr g'"
    and fi: "files s input_path = Some inp" and fo: "files s output_path = Some out"
    and sh: "shape out = [nd, nlat, nlong, nr, nc]"
    and ix: "long < nlat" "lat < nlong" "fst point < nr" "snd point < nc"
  shows "\<exists>s1 trainx. exec (concat (take 5 (cells L))) s = (None, s1) \<and>
           files s1 = files s \<and>
           v_input_data_all s1 = inp \<and> v_output_data_all s1 = out \<and>
           ts_train_x = Inr trainx \<and> v_train_x s1 = trainx"
proof -
  obtain trainx where trainx: "ts_train_x = Inr trainx"
    unfolding ts_train_x_def arange_col by simp
  obtain testx where testx: "ts_test_x = Inr testx"
    unfolding ts_test_x_def arange_col by simp
  obtain trainy where trainy: "getitem ts_train_y_ix out = Inr trainy"
    unfolding ts_train_y_ix_def ts_y_full [OF sh ix] by simp
  obtain testy where testy: "getitem ts_test_y_ix out = Inr testy"
    unfolding ts_test_y_ix_def ts_y_full [OF sh ix] by simp
  define s1 where "s1 = s\<lparr>v_input_data_all := inp, v_output_data_all := out,
     log := log s @ [Load input_path, Load output_path, Print (Shapes [shape inp, shape out])]\<rparr>"
  have s1: "exec cell_load s = (None, s1)"
    by (simp add: cell_load_def np_load_def py_print_def emit_def fi fo s1_def)
  define s2 where "s2 = s1\<lparr>v_train_x := trainx, v_train_y := trainy,
     log := log s1 @ [Assign 4 ''train_x'', Read ''output_data_all'' ts_train_y_ix]\<rparr>"
  have s2: "exec cell_ts_data s1 = (None, s2)"
    by (simp add: cell_ts_data_def assign_def index_data_def emit_def trainx trainy s1_def s2_def)
  have v2: "files s2 = files s" "v_input_data_all s2 = inp" "v_output_data_all s2 = out"
    "v_train_x s2 = trainx"
    by (simp_all add: s1_def s2_def)
  from lib_steps_ok [OF total cell_model_lib, of TimeSeries s2] obtain g3 l3 where
    s3: "exec (cell_model L TimeSeries) s2 = (None, s2\<lparr>gp := g3, log := l3\<rparr>)" by blast
  from lib_steps_ok [OF total cell_ts_train_lib, of "s2\<lparr>gp := g3, log := l3\<rparr>"] obtain g4 l4 where
    s4: "exec (cell_ts_train L) (s2\<lparr>gp := g3, log := l3\<rparr>) = (None, s2\<lparr>gp := g4, log := l4\<rparr>)"
    by auto
  have s5: "exec [assign 10 ''test_x'' (\<lambda>s. ts_test_x) (\<lambda>a s. s\<lparr>v_test_x := a\<rparr>),
      index_data ''output_data_all'' v_output_data_all ts_test_y_ix (\<lambda>a s. s\<lparr>v_test_y := a\<rparr>)]
      (s2\<lparr>gp := g4, log := l4\<rparr>) =
      (None, s2\<lparr>gp := g4, v_test_x := testx, v_test_y := testy,
                log := l4 @ [Assign 10 ''test_x'', Read ''output_data_all'' ts_test_y_ix]\<rparr>)"
    by (simp add: assign_def index_data_def emit_def testx testy v2(3))
  from lib_steps_ok [OF total cell_ts_predict_lib,
      of "s2\<lparr>gp := g4, v_test_x := testx, v_test_y := testy,
                log := l4 @ [Assign 10 ''test_x'', Read ''output_data_all'' ts_test_y_ix]\<rparr>"]
  obtain g6 l6 where
    s6: "exec (drop 2 (cell_ts_predict L))
          (s2\<lparr>gp := g4, v_test_x := testx, v_test_y := testy,
                log := l4 @ [Assign 10 ''test_x'', Read ''output_data_all'' ts_test_y_ix]\<rparr>) =
         (None, s2\<lparr>v_test_x := testx, v_test_y := testy, gp := g6, log := l6\<rparr>)"
    by auto
  have p: "exec (cell_ts_predict L) (s2\<lparr>gp := g4, log := l4\<rparr>) =
         (None, s2\<lparr>v_test_x := testx, v_test_y := testy, gp := g6, log := l6\<rparr>)"
    by (subst cell_ts_predict_split) (rule exec_append_ok [OF s5 s6])
  have "exec (cell_load @ cell_ts_data @ cell_model L TimeSeries @ cell_ts_train L @
              cell_ts_predict L) s =
         (None, s2\<lparr>v_test_x := testx, v_test_y := testy, gp := g6, log := l6\<rparr>)"
    by (intro exec_append_ok [OF s1] exec_append_ok [OF s2] exec_append_ok [OF s3]
          exec_append_ok [OF s4] p)
  then have "exec (concat (take 5 (cells L))) s =
         (None, s2\<lparr>v_test_x := testx, v_test_y := testy, gp := g6, log := l6\<rparr>)"
    by (simp add: cells_def)
  then show ?thesis using v2 trainx by auto
qed


lemma ds_part_ok:
  assumes total: "\<And>c g. \<exists>g'. call L c g = Inr g'"
    and pm: "\<forall>f x g g'. call L (Predict f x) g = Inr g' \<longrightarrow>
               shape (preds_mean_of L g') = take 1 (shape x)"
    and vi: "v_input_data_all s = inp" and vo: "v_output_data_all s = out"
    and shi: "shape inp = [nd, nlat, nlong, 16, 16, 2]"
    and sho: "shape out = [nd, nlat, nlong, 16, 16]"
    and bd: "Day_Number < nd" "Start_Lat + Num_Tiles \<le> nlat" "Start_Long + Num_Tiles \<le> nlong"
  shows "\<exists>s2 tx tt testx. exec (concat (drop 5 (cells L))) s = (None, s2) \<and>
           files s2 = files s \<and>
           tiles_x Num_Tiles Start_Lat Start_Long Day_Number inp = Inr tx \<and>
           test_tiles tx = Inr tt \<and> ds_test_x tt = Inr testx \<and>
           v_tiles_x s2 = tx \<and> v_test_x s2 = testx"
proof -
  have nt: "0 < Num_Tiles" "2 \<le> Num_Tiles" by (simp_all add: Num_Tiles_def)
  from total obtain F where F: "\<And>c g. call L c g = Inr (F c g)" by metis
  obtain tx where tx: "tiles_x Num_Tiles Start_Lat Start_Long Day_Number inp = Inr tx"
    using tiles_x_full [OF shi bd] by simp
  obtain ty where ty: "tiles_y Num_Tiles Start_Lat Start_Long Day_Number out = Inr ty"
    using tiles_y_full [OF sho bd] by simp
  note sx = tiles_x_elem(1) [OF shi bd tx]
  note sy = tiles_y_elem(1) [OF sho bd ty]
  from ebind_Inr [OF tx [unfolded tiles_x_def]] obtain gx where
    gx: "getitem (tiles_x_ix Num_Tiles Start_Lat Start_Long Day_Number) inp = Inr gx"
        "swapaxes 1 2 gx = Inr tx" by blast
  from ebind_Inr [OF ty [unfolded tiles_y_def]] obtain gy where
    gy: "getitem (tiles_y_ix Num_Tiles Start_Lat Start_Long Day_Number) out = Inr gy"
        "swapaxes 1 2 gy = Inr ty" by blast
  obtain X where X: "ds_train_x tx = Inr X"
    using ds_train_x_full [OF sx nt(1)] by simp
  obtain Y where Y: "ds_train_y tx ty = Inr Y" and shY: "shape Y = [256 * Num_Tiles\<^sup>2]"
    using ds_train_y_full [OF sx sy] by simp
  from test_grid_points [OF sx nt(2)] obtain tt testx where
    tt: "test_tiles tx = Inr tt" and testx: "ds_test_x tt = Inr testx"
    and shtx: "shape testx = [1024 * Num_Tiles\<^sup>2, 2]" by blast
  have grid: "ebind (test_tiles tx) ds_test_x = Inr testx" by (simp add: ebind_def tt testx)
  define l1 where "l1 = log s @
     [Read ''input_data_all'' (tiles_x_ix Num_Tiles Start_Lat Start_Long Day_Number),
      Assign 13 ''tiles_x'', Print (LabelledShape ''tiles_x shape:'' (shape tx)),
      Assign 13 ''train_x'', Print (LabelledShape ''train_x shape: '' (shape X)),
      Read ''output_data_all'' (tiles_y_ix Num_Tiles Start_Lat Start_Long Day_Number),
      Assign 13 ''tiles_y'', Print (LabelledShape ''tiles_y shape'' (shape ty)),
      Assign 13 ''train_y'', Print (LabelledShape ''train_y shape:'' (shape Y))]"
  define s1 where "s1 = s\<lparr>v_tiles_x := tx, v_train_x := X, v_tiles_y := ty, v_train_y := Y,
     log := l1\<rparr>"
  have e1: "exec cell_ds_data s = (None, s1)"
    by (simp add: cell_ds_data_def assign_def index_data_def py_print_def emit_def vi vo gx gy X Y
          s1_def l1_def del: One_nat_def)
  from lib_steps_ok [OF total cell_model_lib, of Downscaling s1] obtain g2 l2 where
    e2: "exec (cell_model L Downscaling) s1 = (None, s1\<lparr>gp := g2, log := l2\<rparr>)" by blast
  from lib_steps_ok [OF total cell_ds_train_lib, of "s1\<lparr>gp := g2, log := l2\<rparr>"] obtain g3 l3 where
    e3: "exec (cell_ds_train L) (s1\<lparr>gp := g2, log := l2\<rparr>) = (None, s1\<lparr>gp := g3, log := l3\<rparr>)"
    by auto
  have e4: "exec cell_ds_grid (s1\<lparr>gp := g3, log := l3\<rparr>) =
      (None, s1\<lparr>gp := g3, log := l3 @ [Assign 19 ''test_x''], v_test_x := testx\<rparr>)"
    by (simp add: cell_ds_grid_def assign_def emit_def grid s1_def)
  define g5 where "g5 = F (Predict True testx) (F LikelihoodEval (F ModelEval g3))"
  define g5' where "g5' = F Variance g5"
  define l5 where "l5 = l3 @ [Assign 19 ''test_x'', Call ModelEval, Call LikelihoodEval,
     Call (Predict True testx), Assign 21 ''preds_mean'', Call Variance]"
  have e5: "exec (cell_ds_predict L)
      (s1\<lparr>gp := g3, log := l3 @ [Assign 19 ''test_x''], v_test_x := testx\<rparr>) =
      (None, s1\<lparr>gp := g5', log := l5, v_test_x := testx, v_preds_mean := preds_mean_of L g5\<rparr>)"
    by (simp add: cell_ds_predict_def lib_call_def assign_def emit_def F g5_def g5'_def l5_def)
  have shp: "shape (preds_mean_of L g5) = [1024 * Num_Tiles\<^sup>2]"
    using pm [rule_format, of True testx "F LikelihoodEval (F ModelEval g3)" g5] F shtx
    by (simp add: g5_def)
  from downscaled_SVDI_full [OF shp] obtain d where
    d: "downscaled_SVDI Num_Tiles (preds_mean_of L g5) = Inr d" by blast
  from orig_SVDI_full [OF shY] obtain ori where ori: "orig_SVDI Num_Tiles Y = Inr ori" by blast
  from extent_ok [OF sx nt(1)] obtain ex where ex: "extent tx = Inr ex" by blast
  define s6 where "s6 = s1\<lparr>gp := F (PltShow (ImagesFigure ori d ex)) g5',
      log := l5 @ [Assign 23 ''downscaled_SVDI'', Assign 23 ''orig_SVDI'', Assign 23 ''extent'',
        Call (PltShow (ImagesFigure ori d ex))], v_test_x := testx,
      v_preds_mean := preds_mean_of L g5, v_downscaled_SVDI := d, v_orig_SVDI := ori,
      v_extent := ex\<rparr>"
  have e6: "exec (cell_ds_plot L)
      (s1\<lparr>gp := g5', log := l5, v_test_x := testx, v_preds_mean := preds_mean_of L g5\<rparr>) =
      (None, s6)"
    by (simp add: cell_ds_plot_def lib_call_def assign_def emit_def F d ori ex s1_def s6_def)
  have "exec (cell_ds_data @ cell_model L Downscaling @ cell_ds_train L @ cell_ds_grid @
              cell_ds_predict L @ cell_ds_plot L) s = (None, s6)"
    by (intro exec_append_ok [OF e1] exec_append_ok [OF e2] exec_append_ok [OF e3]
          exec_append_ok [OF e4] exec_append_ok [OF e5] e6)
  then have "exec (concat (drop 5 (cells L))) s = (None, s6)"
    by (simp add: cells_def)
  moreover have "files s6 = files s" "v_tiles_x s6 = tx" "v_test_x s6 = testx"
    by (simp_all add: s6_def s1_def)
  ultimately show ?thesis using tx tt testx by blast
qed

lemma notebook_split: "notebook L = concat (take 5 (cells L)) @ concat (drop 5 (cells L))"
  unfolding notebook_def by (metis append_take_drop_id concat_append)

lemma run_ok:
  assumes total: "\<And>c g. \<exists>g'. call L c g = Inr g'"
    and pm: "\<forall>f x g g'. call L (Predict f x) g = Inr g' \<longrightarrow>
               shape (preds_mean_of L g') = take 1 (shape x)"
    and fi: "files s input_path = Some inp" and fo: "files s output_path = Some out"
    and shi: "shape inp = [nd, nlat, nlong, 16, 16, 2]"
    and sho: "shape out = [nd, nlat, nlong, 16, 16]"
    and bd: "Day_Number < nd" "Start_Lat + Num_Tiles \<le> nlat" "Start_Long + Num_Tiles \<le> nlong"
    and ix: "long < nlat" "lat < nlong"
  shows "\<exists>s1 s2 trainx tx tt testx.
           exec (concat (take 5 (cells L))) s = (None, s1) \<and>
           exec (notebook L) s = (None, s2) \<and> files s2 = files s \<and>
           ts_train_x = Inr trainx \<and> v_train_x s1 = trainx \<and>
           tiles_x Num_Tiles Start_Lat Start_Long Day_Number inp = Inr tx \<and>
           test_tiles tx = Inr tt \<and> ds_test_x tt = Inr testx \<and>
           v_tiles_x s2 = tx \<and> v_test_x s2 = testx"
proof -
  have pt: "fst point < 16" "snd point < 16" by (simp_all add: point_def)
  from ts_part_ok [OF total fi fo sho ix pt] obtain s1 trainx where
    a: "exec (concat (take 5 (cells L))) s = (None, s1)" "files s1 = files s"
       "v_input_data_all s1 = inp" "v_output_data_all s1 = out"
       "ts_train_x = Inr trainx" "v_train_x s1 = trainx" by blast
  have "\<exists>s2 tx tt testx. exec (concat (drop 5 (cells L))) s1 = (None, s2) \<and>
           files s2 = files s1 \<and>
           tiles_x Num_Tiles Start_Lat Start_Long Day_Number inp = Inr tx \<and>
           test_tiles tx = Inr tt \<and> ds_test_x tt = Inr testx \<and>
           v_tiles_x s2 = tx \<and> v_test_x s2 = testx"
    by (rule ds_part_ok [OF total pm a(3,4) shi sho bd])
  then obtain s2 tx tt testx where
    b: "exec (concat (drop 5 (cells L))) s1 = (None, s2)" "files s2 = files s1"
       "tiles_x Num_Tiles Start_Lat Start_Long Day_Number inp = Inr tx"
       "test_tiles tx = Inr tt" "ds_test_x tt = Inr testx" "v_tiles_x s2 = tx" "v_test_x s2 = testx"
    by blast
  have "exec (notebook L) s = (None, s2)"
    by (subst notebook_split) (rule exec_append_ok [OF a(1) b(1)])
  then show ?thesis using a b by auto
qed

section \<open>The sample run\<close>

lemma sample_libraries:
  "\<And>c g. \<exists>g'. call cpu_library c g = Inr g'"
  "\<forall>f x g g'. call cpu_library (Predict f x) g = Inr g' \<longrightarrow>
               shape (preds_mean_of cpu_library g') = take 1 (shape x)"
  "\<And>c g. \<exists>g'. call gpu_library c g = Inr g'"
  "\<forall>f x g g'. call gpu_library (Predict f x) g = Inr g' \<longrightarrow>
               shape (preds_mean_of gpu_library g') = take 1 (shape x)"
  by (auto simp add: cpu_library_def gpu_library_def zeros_def)

lemma sample_data:
  "files (fresh grid_files (0 :: nat, [] :: nat list)) input_path = Some grid_input"
  "files (fresh grid_files (0 :: nat, [] :: nat list)) output_path = Some grid_output"
  "shape grid_input = [365, 18, 39, 16, 16, 2]"
  "shape grid_output = [365, 18, 39, 16, 16]"
  "Day_Number < 365" "Start_Lat + Num_Tiles \<le> 18" "Start_Long + Num_Tiles \<le> 39"
  "long < 18" "lat < 39"
  by (simp_all add: fresh_def grid_files_def input_path_def output_path_def grid_input_def
        grid_output_def Day_Number_def Start_Lat_def Start_Long_def Num_Tiles_def long_def lat_def)

lemmas cpu_run = run_ok [OF sample_libraries(1,2) sample_data]
lemmas gpu_run = run_ok [OF sample_libraries(3,4) sample_data]

lemma list_all_prefix:
  assumes "prefix xs ys" "list_all P ys"
  shows "list_all P xs"
  using assms by (auto simp add: prefix_def)

lemma access_ok_erase: "access_ok (erase e) = access_ok e"
  by (cases e) simp_all

lemma list_all_erase:
  assumes "\<And>e. P (erase e) = P e"
  shows "list_all P (map erase ev) = list_all P ev"
  by (induction ev) (simp_all add: assms)

lemma access_ok_train: "list_all access_ok (train_events n)"
  by (induction n) (simp_all add: train_events_0 train_events_Suc)

lemma access_ok_schedule: "list_all access_ok (schedule cuda)"
  by (simp add: schedule_def access_ok_train param_events_def ts_train_y_ix_def
        ts_test_y_ix_def tiles_x_ix_def tiles_y_ix_def Start_Day_def N_Train_def long_def lat_def
        point_def Start_Test_def Test_Days_def Day_Number_def del: N_iterations.simps)

lemma notebook_events:
  assumes "exec (notebook L) s = (r, s')"
  shows "files s' = files s \<and>
         (\<exists>ev. log s' = log s @ ev \<and> prefix (map erase ev) (schedule (cuda_is_available L)) \<and>
               (r = None \<longrightarrow> map erase ev = schedule (cuda_is_available L)))"
  using tracks_notebook [of L] assms unfolding tracks_def by blast

section \<open>The values along a run\<close>

lemma calls_of_append: "calls_of (a @ b) = calls_of a @ calls_of b"
  by (induction a rule: calls_of.induct) simp_all

lemma lib_run_append:
  "lib_run L (a @ b) g = (case lib_run L a g of Inl e \<Rightarrow> Inl e | Inr g' \<Rightarrow> lib_run L b g')"
  by (induction a arbitrary: g) (simp_all split: sum.splits)

lemma flows_append:
  assumes "flows L fs P xs Q" "flows L fs Q ys R"
  shows "flows L fs P (xs @ ys) R"
  unfolding flows_def
proof (intro allI impI, elim conjE)
  fix s r s'
  assume p: "P s" and e: "exec (xs @ ys) s = (r, s')"
  obtain r1 s1 where x: "exec xs s = (r1, s1)" by (cases "exec xs s")
  from assms(1) p x obtain ev1 where
    a: "log s1 = log s @ ev1" "list_all (prepared fs) ev1"
       "lib_run L (calls_of ev1) (gp s) = Inr (gp s1)"
    and q: "r1 = None \<longrightarrow> Q s1"
    unfolding flows_def by blast
  show "(\<exists>ev. log s' = log s @ ev \<and> list_all (prepared fs) ev \<and>
              lib_run L (calls_of ev) (gp s) = Inr (gp s')) \<and> (r = None \<longrightarrow> R s')"
  proof (cases r1)
    case (Some err)
    with e x have "r = Some err" "s' = s1" by (simp_all add: exec_append)
    then show ?thesis using a by auto
  next
    case None
    with e x have y: "exec ys s1 = (r, s')" by (simp add: exec_append)
    from q None have "Q s1" by simp
    with assms(2) y obtain ev2 where
      b: "log s' = log s1 @ ev2" "list_all (prepared fs) ev2"
         "lib_run L (calls_of ev2) (gp s1) = Inr (gp s')"
      and r: "r = None \<longrightarrow> R s'"
      unfolding flows_def by blast
    have "log s' = log s @ (ev1 @ ev2)" using a(1) b(1) by simp
    moreover have "list_all (prepared fs) (ev1 @ ev2)" using a(2) b(2) by simp
    moreover have "lib_run L (calls_of (ev1 @ ev2)) (gp s) = Inr (gp s')"
      using a(3) b(3) by (simp add: calls_of_append lib_run_append)
    ultimately show ?thesis using r by blast
  qed
qed

lemma flows_Nil: "flows L fs P [] P"
  by (simp add: flows_def)

lemma flows_inv:
  assumes "\<And>c s s'. c \<in> set cs \<Longrightarrow> P s \<Longrightarrow> c s = Inr s' \<Longrightarrow>
             P s' \<and> (\<exists>ev. log s' = log s @ ev \<and> list_all (prepared fs) ev \<and>
                          lib_run L (calls_of ev) (gp s) = Inr (gp s'))"
  shows "flows L fs P cs P"
  using assms
proof (induction cs)
  case Nil
  show ?case by (rule flows_Nil)
next
  case (Cons c cs)
  have one: "flows L fs P [c] P"
    unfolding flows_def
  proof (intro allI impI, elim conjE)
    fix s r s'
    assume p: "P s" and e: "exec [c] s = (r, s')"
    show "(\<exists>ev. log s' = log s @ ev \<and> list_all (prepared fs) ev \<and>
              lib_run L (calls_of ev) (gp s) = Inr (gp s')) \<and> (r = None \<longrightarrow> P s')"
    proof (cases "c s")
      case (Inl err)
      with e have "r = Some err" "s' = s" by simp_all
      then show ?thesis by simp
    next
      case (Inr s1)
      with e have "r = None" "s' = s1" by simp_all
      with Cons.prems [of c s s1] p Inr show ?thesis by simp
    qed
  qed
  have rest: "flows L fs P cs P"
  proof (rule Cons.IH)
    fix ca s s'
    assume "ca \<in> set cs" "P s" "ca s = Inr s'"
    then show "P s' \<and> (\<exists>ev. log s' = log s @ ev \<and> list_all (prepared fs) ev \<and>
                          lib_run L (calls_of ev) (gp s) = Inr (gp s'))"
      using Cons.prems [of ca s s'] by simp
  qed
  from flows_append [OF one rest] show ?case by simp
qed

lemma cell_load_flows: "flows L fs (\<lambda>s. files s = fs) cell_load (loaded fs)"
  unfolding flows_def
  by (auto simp add: cell_load_def np_load_def py_print_def emit_def loaded_def
        split: option.splits)

lemma cell_ts_data_flows: "flows L fs (loaded fs) cell_ts_data (ts_ready fs)"
  unfolding flows_def
  by (auto simp add: cell_ts_data_def assign_def index_data_def emit_def loaded_def ts_ready_def
        ts_train_y_def split: sum.splits)

lemma ts_ready_facts:
  assumes "ts_ready fs s"
  shows "ts_train_x = Inr (v_train_x s)" "is_ts_train_y fs (v_train_y s)"
  using assms
  by (simp_all add: ts_ready_def loaded_def is_ts_train_y_def from_file_def)

lemma ts_ready_frame:
  "ts_ready fs (s\<lparr>log := l\<rparr>) = ts_ready fs s"
  "ts_ready fs (s\<lparr>gp := g\<rparr>) = ts_ready fs s"
  by (simp_all add: ts_ready_def loaded_def)

lemma cell_model_ts_flows: "flows L fs (ts_ready fs) (cell_model L TimeSeries) (ts_ready fs)"
  by (rule flows_inv)
     (auto simp add: cell_model_def lib_call_def emit_def ts_ready_frame ts_ready_facts
        split: sum.splits)

lemma cell_ts_train_flows: "flows L fs (ts_ready fs) (cell_ts_train L) (ts_ready fs)"
  by (rule flows_inv)
     (auto simp add: cell_ts_train_def train_def train_body_def print_params_def
        lib_call_def py_print_def emit_def ts_ready_frame ts_ready_facts
        split: sum.splits if_splits)

lemma cell_ts_predict_flows: "flows L fs (ts_ready fs) (cell_ts_predict L) (ts_done fs)"
  unfolding flows_def
  by (auto simp add: cell_ts_predict_def assign_def index_data_def lib_call_def emit_def
        loaded_def ts_ready_def ts_done_def ts_test_y_def split: sum.splits)

lemma ts_done_frame:
  "ts_done fs (s\<lparr>log := l\<rparr>) = ts_done fs s"
  "ts_done fs (s\<lparr>gp := g\<rparr>) = ts_done fs s"
  by (simp_all add: ts_done_def loaded_def)

lemma cell_ds_data_flows: "flows L fs (ts_done fs) cell_ds_data (ds_ready fs)"
  unfolding flows_def
  by (auto simp add: cell_ds_data_def assign_def index_data_def py_print_def emit_def
        loaded_def ts_done_def ds_ready_def tiles_x_def tiles_y_def ebind_def
        split: sum.splits simp del: One_nat_def)

lemma ds_ready_facts:
  assumes "ds_ready fs s"
  shows "is_ds_train_x fs (v_train_x s)" "is_ds_train_y fs (v_train_y s)"
  using assms
  by (simp_all add: ds_ready_def ts_done_def loaded_def is_ds_train_x_def is_ds_train_y_def
        from_file_def ebind_def)

lemma ds_ready_frame:
  "ds_ready fs (s\<lparr>log := l\<rparr>) = ds_ready fs s"
  "ds_ready fs (s\<lparr>gp := g\<rparr>) = ds_ready fs s"
  by (simp_all add: ds_ready_def ts_done_frame)

lemma cell_model_ds_flows: "flows L fs (ds_ready fs) (cell_model L Downscaling) (ds_ready fs)"
  by (rule flows_inv)
     (auto simp add: cell_model_def lib_call_def emit_def ds_ready_frame ds_ready_facts
        split: sum.splits)

lemma cell_ds_train_flows: "flows L fs (ds_ready fs) (cell_ds_train L) (ds_ready fs)"
  by (rule flows_inv)
     (auto simp add: cell_ds_train_def train_def train_body_def print_params_def
        lib_call_def py_print_def emit_def ds_ready_frame ds_ready_facts
        split: sum.splits if_splits)

lemma cell_ds_grid_flows: "flows L fs (ds_ready fs) cell_ds_grid (ds_grid_ready fs)"
  unfolding flows_def
  by (auto simp add: cell_ds_grid_def assign_def emit_def ds_grid_ready_def
        ds_ready_def ts_done_def loaded_def split: sum.splits)

lemma ds_grid_ready_facts:
  assumes "ds_grid_ready fs s"
  shows "is_ds_test_x fs (v_test_x s)"
  using assms
  by (simp add: ds_grid_ready_def ds_ready_def ts_done_def loaded_def is_ds_test_x_def
        from_file_def ebind_def)

lemma ds_grid_ready_frame:
  "ds_grid_ready fs (s\<lparr>log := l\<rparr>) = ds_grid_ready fs s"
  "ds_grid_ready fs (s\<lparr>gp := g\<rparr>) = ds_grid_ready fs s"
  "ds_grid_ready fs (s\<lparr>v_preds_mean := a\<rparr>) = ds_grid_ready fs s"
  by (simp_all add: ds_grid_ready_def ds_ready_def ts_done_def loaded_def)

lemma cell_ds_predict_flows:
  "flows L fs (ds_grid_ready fs) (cell_ds_predict L) (ds_grid_ready fs)"
  by (rule flows_inv)
     (auto simp add: cell_ds_predict_def lib_call_def assign_def emit_def ds_grid_ready_frame
        ds_grid_ready_facts split: sum.splits)

lemma cell_ds_plot_flows: "flows L fs (ds_grid_ready fs) (cell_ds_plot L) (completed fs)"
  unfolding flows_def
  by (auto simp add: cell_ds_plot_def assign_def lib_call_def emit_def completed_def
        ds_grid_ready_def ds_ready_def ts_done_def loaded_def split: sum.splits)

lemma notebook_flows: "flows L fs (\<lambda>s. files s = fs) (notebook L) (completed fs)"
  unfolding notebook_def cells_def concat.simps append_Nil2
  by (intro flows_append [OF cell_load_flows] flows_append [OF cell_ts_data_flows]
        flows_append [OF cell_model_ts_flows] flows_append [OF cell_ts_train_flows]
        flows_append [OF cell_ts_predict_flows] flows_append [OF cell_ds_data_flows]
        flows_append [OF cell_model_ds_flows] flows_append [OF cell_ds_train_flows]
        flows_append [OF cell_ds_grid_flows] flows_append [OF cell_ds_predict_flows]
        cell_ds_plot_flows)

lemma missing_file:
  assumes "files s input_path = None \<or> files s output_path = None"
  shows "fst (exec (notebook L) s) = Some FileNotFoundError"
proof -
  have n: "notebook L =
      [np_load input_path (\<lambda>a s. s\<lparr>v_input_data_all := a\<rparr>),
       np_load output_path (\<lambda>a s. s\<lparr>v_output_data_all := a\<rparr>)] @
      drop 2 (notebook L)"
    by (simp add: notebook_def cells_def cell_load_def)
  have "\<exists>s1. exec [np_load input_path (\<lambda>a s. s\<lparr>v_input_data_all := a\<rparr>),
       np_load output_path (\<lambda>a s. s\<lparr>v_output_data_all := a\<rparr>)] s =
       (Some FileNotFoundError, s1)"
    using assms by (auto simp add: np_load_def emit_def split: option.splits)
  then obtain s1 where "exec [np_load input_path (\<lambda>a s. s\<lparr>v_input_data_all := a\<rparr>),
       np_load output_path (\<lambda>a s. s\<lparr>v_output_data_all := a\<rparr>)] s =
       (Some FileNotFoundError, s1)" by blast
  from exec_append_Some [OF this, of "drop 2 (notebook L)"]
  have "exec ([np_load input_path (\<lambda>a s. s\<lparr>v_input_data_all := a\<rparr>),
       np_load output_path (\<lambda>a s. s\<lparr>v_output_data_all := a\<rparr>)] @
      drop 2 (notebook L)) s = (Some FileNotFoundError, s1)" .
  then have "exec (notebook L) s = (Some FileNotFoundError, s1)"
    by (simp only: n [symmetric])
  then show ?thesis by simp
qed

lemma notebook_completes:
  assumes "exec (notebook L) s = (None, s')"
  shows "completed (files s) s' \<and>
         (\<exists>ev. log s' = log s @ ev \<and> map erase ev = schedule (cuda_is_available L) \<and>
               lib_run L (calls_of ev) (gp s) = Inr (gp s'))"
proof -
  from notebook_flows [of L "files s"] assms obtain ev where
    a: "log s' = log s @ ev" "lib_run L (calls_of ev) (gp s) = Inr (gp s')"
    and c: "completed (files s) s'"
    unfolding flows_def by blast
  from notebook_events [OF assms] obtain ev' where
    b: "log s' = log s @ ev'" "map erase ev' = schedule (cuda_is_available L)" by blast
  from a(1) b(1) have "ev' = ev" by simp
  with a b c show ?thesis by blast
qed

lemma raises_as_lib_call:
  assumes "\<And>s. call_at L s k = c s"
  shows "raises_as L (lib_call L c) (Call k)"
  using assms by (simp add: raises_as_def lib_call_def split: sum.splits)

lemma raises_as_py_print: "raises_as L (py_print f) (Print l)"
  by (simp add: raises_as_def py_print_def)

lemma raises_as_np_load: "raises_as L (np_load path store) (Load path)"
  by (auto simp add: raises_as_def np_load_def split: option.splits)

lemma raises_as_index_data:
  assumes "\<And>s. arr s = (if name = ''input_data_all'' then v_input_data_all s
                          else v_output_data_all s)"
  shows "raises_as L (index_data name arr ixs store) (Read name ixs)"
  using assms by (simp add: raises_as_def index_data_def split: sum.splits)

lemma raises_as_assign:
  assumes "\<And>s e. rhs s = Inl e \<longleftrightarrow> fails_at L s (Assign cell name) e"
  shows "raises_as L (assign cell name rhs store) (Assign cell name)"
  unfolding raises_as_def
proof (intro allI)
  fix s e
  have "assign cell name rhs store s = Inl e \<longleftrightarrow> rhs s = Inl e"
    by (simp add: assign_def split: sum.splits)
  then show "assign cell name rhs store s = Inl e \<longleftrightarrow> fails_at L s (Assign cell name) e"
    by (simp only: assms)
qed

lemmas raises_as_intros =
  raises_as_lib_call raises_as_py_print raises_as_np_load raises_as_index_data raises_as_assign

lemma list_all2_concat_map:
  assumes "\<And>i. list_all2 P (f i) (g i)"
  shows "list_all2 P (concat (map f xs)) (concat (map g xs))"
  by (induction xs) (simp_all add: list_all2_appendI assms)

lemma raises_train_body:
  "list_all2 (raises_as L) (train_body L i)
     ([Call ZeroGrad, Call (ModelCall blank), Call (NegMll blank), Call Backward] @
       (if i mod 10 = 0 then [Print (IterationNumber i), Print (Loss 0)] else []) @
       [Call OptimizerStep])"
  unfolding train_body_def
  by (intro list_all2_appendI) (simp_all add: raises_as_intros)

lemma raises_train: "list_all2 (raises_as L) (train L sec) (train_events (N_iterations sec))"
  unfolding train_def train_events_def
  by (rule list_all2_concat_map) (rule raises_train_body)

lemma raises_print_params: "list_all2 (raises_as L) (print_params L) param_events"
  by (simp add: print_params_def param_events_def raises_as_intros)

lemma raises_notebook:
  "list_all2 (raises_as L) (notebook L) (schedule (cuda_is_available L))"
  unfolding notebook_def cells_def schedule_def concat.simps append_Nil2
    cell_ts_train_def cell_ds_train_def
  apply (intro list_all2_appendI raises_train raises_print_params)
  apply (simp_all add: cell_load_def cell_ts_data_def cell_model_def cell_ts_predict_def
      cell_ds_data_def cell_ds_grid_def cell_ds_predict_def cell_ds_plot_def raises_as_intros
      del: One_nat_def)
  done

lemma notebook_length: "length (notebook L) = length (schedule (cuda_is_available L))"
  using raises_notebook [of L] by (rule list_all2_lengthD)

lemma notebook_nth_raises:
  assumes "k < length (schedule (cuda_is_available L))"
  shows "(notebook L ! k) s = Inl e \<longleftrightarrow> fails_at L s (schedule (cuda_is_available L) ! k) e"
proof -
  from assms have "k < length (notebook L)" by (simp add: notebook_length)
  from list_all2_nthD [OF raises_notebook this]
  show ?thesis by (simp add: raises_as_def del: fails_at.simps)
qed

lemma run_fails_iff:
  "exec (notebook L) s = (Some e, s1) \<longleftrightarrow>
     (\<exists>k<length (schedule (cuda_is_available L)).
        exec (take k (notebook L)) s = (None, s1) \<and>
        fails_at L s1 (schedule (cuda_is_available L) ! k) e)"
proof
  assume "exec (notebook L) s = (Some e, s1)"
  from exec_Some_split [OF this] obtain before stmt rest where
    n: "notebook L = before @ stmt # rest" and b: "exec before s = (None, s1)"
    and f: "stmt s1 = Inl e" by blast
  define k where "k = length before"
  have k: "k < length (schedule (cuda_is_available L))"
    using n by (simp add: k_def notebook_length [symmetric])
  have t: "take k (notebook L) = before" and m: "notebook L ! k = stmt"
    using n by (simp_all add: k_def)
  from f m have "(notebook L ! k) s1 = Inl e" by simp
  then have "fails_at L s1 (schedule (cuda_is_available L) ! k) e"
    by (simp only: notebook_nth_raises [OF k])
  with k b t show "\<exists>k<length (schedule (cuda_is_available L)).
        exec (take k (notebook L)) s = (None, s1) \<and>
        fails_at L s1 (schedule (cuda_is_available L) ! k) e" by auto
next
  assume "\<exists>k<length (schedule (cuda_is_available L)).
        exec (take k (notebook L)) s = (None, s1) \<and>
        fails_at L s1 (schedule (cuda_is_available L) ! k) e"
  then obtain k where k: "k < length (schedule (cuda_is_available L))"
    and b: "exec (take k (notebook L)) s = (None, s1)"
    and f: "fails_at L s1 (schedule (cuda_is_available L) ! k) e" by blast
  from k have kl: "k < length (notebook L)" by (simp add: notebook_length)
  from f have r: "(notebook L ! k) s1 = Inl e" by (simp only: notebook_nth_raises [OF k])
  have "exec (take k (notebook L) @ (notebook L ! k) # drop (Suc k) (notebook L)) s =
          (Some e, s1)"
    using exec_fails_at [of "take k (notebook L)" s s1 "notebook L ! k" e
        "drop (Suc k) (notebook L)"] b r by simp
  then show "exec (notebook L) s = (Some e, s1)"
    by (simp only: id_take_nth_drop [OF kl, symmetric])
qed

section \<open>The order of a run\<close>




section \<open>The data that are read\<close>

text \<open>
  Claim C3.  A run reads two files, at the two fixed paths, in this order, and nothing
  else; every access to the loaded input array has six indices and every access to the
  loaded output array has five, each integer index inside the axis it is applied to for
  the shape (365, 18, 39, 16, 16[, 2]) of the data: day, tile from north to south, tile
  from west to east, row, column, component.
\<close>

theorem data_reads:
  assumes "exec (notebook L) s = (r, s')"
  shows "\<exists>ev. log s' = log s @ ev \<and>
           prefix (filter is_data ev)
             [Load input_path, Load output_path,
              Read ''output_data_all'' ts_train_y_ix,
              Read ''output_data_all'' ts_test_y_ix,
              Read ''input_data_all'' (tiles_x_ix Num_Tiles Start_Lat Start_Long Day_Number),
              Read ''output_data_all'' (tiles_y_ix Num_Tiles Start_Lat Start_Long Day_Number)] \<and>
           (r = None \<longrightarrow> filter is_data ev =
             [Load input_path, Load output_path,
              Read ''output_data_all'' ts_train_y_ix,
              Read ''output_data_all'' ts_test_y_ix,
              Read ''input_data_all'' (tiles_x_ix Num_Tiles Start_Lat Start_Long Day_Number),
              Read ''output_data_all'' (tiles_y_ix Num_Tiles Start_Lat Start_Long Day_Number)]) \<and>
           list_all access_ok ev \<and>
           length ts_train_y_ix = 5 \<and> length ts_test_y_ix = 5 \<and>
           length (tiles_x_ix Num_Tiles Start_Lat Start_Long Day_Number) = 6 \<and>
           length (tiles_y_ix Num_Tiles Start_Lat Start_Long Day_Number) = 5"
proof -
  from notebook_events [OF assms] obtain ev where
    ev: "log s' = log s @ ev" "prefix (map erase ev) (schedule (cuda_is_available L))"
        "r = None \<longrightarrow> map erase ev = schedule (cuda_is_available L)"
    by blast
  have "prefix (filter is_data (map erase ev)) (filter is_data (schedule (cuda_is_available L)))"
    using ev(2) by (rule filter_mono_prefix)
  then have a: "prefix (filter is_data ev)
             [Load input_path, Load output_path,
              Read ''output_data_all'' ts_train_y_ix,
              Read ''output_data_all'' ts_test_y_ix,
              Read ''input_data_all'' (tiles_x_ix Num_Tiles Start_Lat Start_Long Day_Number),
              Read ''output_data_all'' (tiles_y_ix Num_Tiles Start_Lat Start_Long Day_Number)]"
    by (simp only: filter_is_data_erase filter_is_data_schedule)
  have b: "filter is_data ev =
             [Load input_path, Load output_path,
              Read ''output_data_all'' ts_train_y_ix,
              Read ''output_data_all'' ts_test_y_ix,
              Read ''input_data_all'' (tiles_x_ix Num_Tiles Start_Lat Start_Long Day_Number),
              Read ''output_data_all'' (tiles_y_ix Num_Tiles Start_Lat Start_Long Day_Number)]"
    if "r = None"
  proof -
    from that ev(3) have "filter is_data (map erase ev) =
        filter is_data (schedule (cuda_is_available L))" by simp
    then show ?thesis by (simp only: filter_is_data_erase filter_is_data_schedule)
  qed
  have "list_all access_ok (map erase ev)"
    by (rule list_all_prefix [OF ev(2) access_ok_schedule])
  then have c: "list_all access_ok ev"
    by (simp add: list_all_erase [of access_ok, OF access_ok_erase])
  have d: "length ts_train_y_ix = 5" "length ts_test_y_ix = 5"
    "length (tiles_x_ix Num_Tiles Start_Lat Start_Long Day_Number) = 6"
    "length (tiles_y_ix Num_Tiles Start_Lat Start_Long Day_Number) = 5"
    by (simp_all add: ts_train_y_ix_def ts_test_y_ix_def tiles_x_ix_def tiles_y_ix_def)
  show ?thesis
    apply (rule exI [of _ ev])
    using ev(1) a b c d by simp
qed

theorem data_reads_witness:
  "\<exists>s'. exec (notebook cpu_library) (fresh grid_files (0, [])) = (None, s') \<and>
     filter is_data (log s') =
             [Load input_path, Load output_path,
              Read ''output_data_all'' ts_train_y_ix,
              Read ''output_data_all'' ts_test_y_ix,
              Read ''input_data_all'' (tiles_x_ix Num_Tiles Start_Lat Start_Long Day_Number),
              Read ''output_data_all'' (tiles_y_ix Num_Tiles Start_Lat Start_Long Day_Number)] \<and>
     list_all access_ok (log s')"
proof -
  from cpu_run obtain s2 where
    r: "exec (notebook cpu_library) (fresh grid_files (0, [])) = (None, s2)" by blast
  from data_reads [OF r] show ?thesis
    using r by (simp add: fresh_def)
qed

section \<open>What a run leaves behind\<close>

text \<open>
  Claim C7, amended.  A run changes no file (the two data files are only read) and opens
  no connection; what it does is a prefix of \<open>schedule\<close>, all of it when it succeeds.
  Its outputs are a prefix of \<open>outputs\<close>, and exactly \<open>outputs\<close> when it succeeds:
  the two figures and the printed lines, which are the shapes of six arrays, the iteration
  numbers and losses of every tenth iteration and, after each of the two loops, the noise,
  the length scale, the output scale and the mean.
\<close>

theorem run_frame:
  assumes "exec (notebook L) s = (r, s')"
  shows "files s' = files s \<and>
         (\<exists>ev. log s' = log s @ ev \<and> list_all allowed ev \<and>
               prefix (map erase ev) (schedule (cuda_is_available L)) \<and>
               (r = None \<longrightarrow> map erase ev = schedule (cuda_is_available L)) \<and>
               prefix (map erase (filter is_output ev)) outputs \<and>
               (r = None \<longrightarrow> map erase (filter is_output ev) = outputs))"
proof -
  from notebook_events [OF assms] obtain ev where
    f: "files s' = files s" and
    ev: "log s' = log s @ ev" "prefix (map erase ev) (schedule (cuda_is_available L))"
        "r = None \<longrightarrow> map erase ev = schedule (cuda_is_available L)"
    by blast
  have "list_all allowed (map erase ev)"
    by (rule list_all_prefix [OF ev(2) list_all_allowed_schedule])
  then have a: "list_all allowed ev"
    by (simp add: list_all_erase [of allowed, OF allowed_erase])
  have "prefix (filter is_output (map erase ev))
          (filter is_output (schedule (cuda_is_available L)))"
    using ev(2) by (rule filter_mono_prefix)
  then have b: "prefix (map erase (filter is_output ev)) outputs"
    by (simp only: filter_is_output_erase filter_is_output_schedule)
  have c: "map erase (filter is_output ev) = outputs" if "r = None"
  proof -
    from that ev(3) have "filter is_output (map erase ev) =
        filter is_output (schedule (cuda_is_available L))" by simp
    then show ?thesis by (simp only: filter_is_output_erase filter_is_output_schedule)
  qed
  show ?thesis
    apply (rule conjI [OF f])
    apply (rule exI [of _ ev])
    using ev a b c by simp
qed

theorem run_frame_witness:
  "\<exists>s'. exec (notebook cpu_library) (fresh grid_files (0, [])) = (None, s') \<and>
     files s' = grid_files \<and> list_all allowed (log s') \<and>
     map erase (log s') = schedule False \<and>
     map erase (filter is_output (log s')) = outputs"
proof -
  from cpu_run obtain s2 where
    r: "exec (notebook cpu_library) (fresh grid_files (0, [])) = (None, s2)" by blast
  from run_frame [OF r] show ?thesis
    using r by (simp add: fresh_def cpu_library_def)
qed

text \<open>
  Claim C7 as stated fails: the printed lines are not all scalar values, the notebook
  also prints the shapes of its arrays.
\<close>

theorem shapes_are_printed:
  "\<not> list_all scalar_output (log (snd (exec (notebook cpu_library) (fresh grid_files (0, [])))))"
proof -
  from cpu_run obtain s2 where
    r: "exec (notebook cpu_library) (fresh grid_files (0, [])) = (None, s2)" by blast
  from notebook_events [OF r] have "map erase (log s2) = schedule False"
    by (simp add: fresh_def cpu_library_def)
  then have "list_all scalar_output (map erase (log s2)) = list_all scalar_output (schedule False)"
    by simp
  then have "list_all scalar_output (log s2) = list_all scalar_output (schedule False)"
    by (simp add: list_all_erase [of scalar_output, OF scalar_output_erase])
  then show ?thesis using not_scalar_schedule [of False] r by simp
qed

section \<open>What does not depend on the library\<close>

lemma cell_rel_steps:
  assumes "list_all2 step_rel cs ds"
  shows "cell_rel cs ds"
  using assms
proof (induction rule: list_all2_induct)
  case Nil
  then show ?case by (simp add: cell_rel_def)
next
  case (Cons c cs d ds)
  show ?case
    unfolding cell_rel_def
  proof (intro allI impI)
    fix s t s' t'
    assume sd: "same_data s t" and a: "exec (c # cs) s = (None, s')"
      and b: "exec (d # ds) t = (None, t')"
    from a obtain s1 where s1: "c s = Inr s1" "exec cs s1 = (None, s')"
      by (cases "c s") simp_all
    from b obtain t1 where t1: "d t = Inr t1" "exec ds t1 = (None, t')"
      by (cases "d t") simp_all
    from Cons.hyps(1) sd s1(1) t1(1) have "same_data s1 t1" unfolding step_rel_def by blast
    with Cons.IH s1(2) t1(2) show "same_data s' t'" unfolding cell_rel_def by blast
  qed
qed

lemma cells_rel:
  assumes "list_all2 cell_rel Cs Ds"
    and "same_data s t"
    and "exec (concat (take n Cs)) s = (None, s')"
    and "exec (concat (take n Ds)) t = (None, t')"
  shows "same_data s' t'"
  using assms
proof (induction arbitrary: n s t rule: list_all2_induct)
  case Nil
  then show ?case by simp
next
  case (Cons C Cs D Ds)
  show ?case
  proof (cases n)
    case 0
    with Cons.prems show ?thesis by simp
  next
    case (Suc m)
    from Cons.prems(2) Suc obtain s1 where
      s1: "exec C s = (None, s1)" "exec (concat (take m Cs)) s1 = (None, s')"
      by (auto simp add: exec_append_None)
    from Cons.prems(3) Suc obtain t1 where
      t1: "exec D t = (None, t1)" "exec (concat (take m Ds)) t1 = (None, t')"
      by (auto simp add: exec_append_None)
    from Cons.hyps(1) Cons.prems(1) s1(1) t1(1) have "same_data s1 t1"
      unfolding cell_rel_def by blast
    from Cons.IH [OF this s1(2) t1(2)] show ?thesis .
  qed
qed

lemma lib_steps_frame:
  assumes "set cs \<subseteq> range (lib_call L) \<union> range py_print"
    and "exec cs s = (r, s')"
  shows "\<exists>g l. s' = s\<lparr>gp := g, log := l\<rparr>"
  using assms
proof (induction cs arbitrary: s)
  case Nil
  then have "s' = s\<lparr>gp := gp s, log := log s\<rparr>" by simp
  then show ?case by blast
next
  case (Cons c cs)
  from Cons.prems have c: "c \<in> range (lib_call L) \<union> range py_print"
    and cs: "set cs \<subseteq> range (lib_call L) \<union> range py_print" by simp_all
  show ?case
  proof (cases "c s")
    case (Inl e)
    with Cons.prems(2) have "s' = s\<lparr>gp := gp s, log := log s\<rparr>" by simp
    then show ?thesis by blast
  next
    case (Inr s1)
    have "\<exists>g l. s1 = s\<lparr>gp := g, log := l\<rparr>"
    proof -
      from c consider f where "c = lib_call L f" | f where "c = py_print f" by auto
      then show ?thesis
      proof cases
        case 1
        with Inr show ?thesis
          by (auto simp add: lib_call_def emit_def split: sum.splits)
      next
        case 2
        with Inr have "s1 = s\<lparr>gp := gp s, log := log s @ [Print (f s)]\<rparr>"
          by (auto simp add: py_print_def emit_def)
        then show ?thesis by blast
      qed
    qed
    then obtain g l where s1: "s1 = s\<lparr>gp := g, log := l\<rparr>" by blast
    from Cons.prems(2) Inr have "exec cs s1 = (r, s')" by simp
    from Cons.IH [OF cs this] obtain g' l' where "s' = s1\<lparr>gp := g', log := l'\<rparr>" by blast
    with s1 have "s' = s\<lparr>gp := g', log := l'\<rparr>" by simp
    then show ?thesis by blast
  qed
qed

lemma cell_rel_lib:
  assumes "set cs \<subseteq> range (lib_call L1) \<union> range py_print"
    and "set ds \<subseteq> range (lib_call L2) \<union> range py_print"
  shows "cell_rel cs ds"
  unfolding cell_rel_def
proof (intro allI impI)
  fix s t s' t'
  assume sd: "same_data s t" and a: "exec cs s = (None, s')" and b: "exec ds t = (None, t')"
  from lib_steps_frame [OF assms(1) a] obtain g l where "s' = s\<lparr>gp := g, log := l\<rparr>" by blast
  moreover from lib_steps_frame [OF assms(2) b] obtain g' l' where "t' = t\<lparr>gp := g', log := l'\<rparr>"
    by blast
  ultimately show "same_data s' t'" using sd by (simp add: same_data_def data_vars_def)
qed

lemma step_rel_lib_call: "step_rel (lib_call L1 c) (lib_call L2 d)"
  by (auto simp add: step_rel_def same_data_def data_vars_def lib_call_def emit_def
        split: sum.splits)

lemma same_data_emit: "same_data (emit e s) (emit e' t) = same_data s t"
  by (simp add: same_data_def data_vars_def emit_def)

lemma step_rel_assign:
  assumes "\<And>s t. same_data s t \<Longrightarrow> rhs1 s = rhs2 t"
    and "\<And>v s t. same_data s t \<Longrightarrow> same_data (store1 v s) (store2 v t)"
  shows "step_rel (assign cell1 name1 rhs1 store1) (assign cell2 name2 rhs2 store2)"
  unfolding step_rel_def
proof (intro allI impI)
  fix s t s' t'
  assume sd: "same_data s t" and a: "assign cell1 name1 rhs1 store1 s = Inr s'"
    and b: "assign cell2 name2 rhs2 store2 t = Inr t'"
  from a obtain v where v: "rhs1 s = Inr v" "s' = emit (Assign cell1 name1) (store1 v s)"
    by (auto simp add: assign_def split: sum.splits)
  from b obtain w where w: "rhs2 t = Inr w" "t' = emit (Assign cell2 name2) (store2 w t)"
    by (auto simp add: assign_def split: sum.splits)
  from assms(1) [OF sd] v(1) w(1) have "v = w" by simp
  with assms(2) [OF sd] v(2) w(2) show "same_data s' t'" by (simp add: same_data_emit)
qed

lemma step_rel_assign_other:
  assumes "\<And>v w s t. same_data s t \<Longrightarrow> same_data (store1 v s) (store2 w t)"
  shows "step_rel (assign cell1 name1 rhs1 store1) (assign cell2 name2 rhs2 store2)"
  using assms
  by (auto simp add: step_rel_def assign_def same_data_emit split: sum.splits)

lemma step_rel_py_print: "step_rel (py_print f) (py_print g)"
  by (auto simp add: step_rel_def same_data_def data_vars_def py_print_def emit_def)

lemma step_rel_np_load_input:
  "step_rel (np_load p (\<lambda>a s. s\<lparr>v_input_data_all := a\<rparr>))
            (np_load p (\<lambda>a s. s\<lparr>v_input_data_all := a\<rparr>))"
  by (auto simp add: step_rel_def same_data_def data_vars_def np_load_def emit_def
        split: option.splits)

lemma step_rel_np_load_output:
  "step_rel (np_load p (\<lambda>a s. s\<lparr>v_output_data_all := a\<rparr>))
            (np_load p (\<lambda>a s. s\<lparr>v_output_data_all := a\<rparr>))"
  by (auto simp add: step_rel_def same_data_def data_vars_def np_load_def emit_def
        split: option.splits)

lemma step_rel_index_data:
  assumes "\<And>s t. same_data s t \<Longrightarrow> arr1 s = arr2 t"
    and "\<And>v s t. same_data s t \<Longrightarrow>
           same_data (emit (Read name ixs) (store1 v s)) (emit (Read name ixs) (store2 v t))"
  shows "step_rel (index_data name arr1 ixs store1) (index_data name arr2 ixs store2)"
  unfolding step_rel_def
proof (intro allI impI)
  fix s t s' t'
  assume sd: "same_data s t" and a: "index_data name arr1 ixs store1 s = Inr s'"
    and b: "index_data name arr2 ixs store2 t = Inr t'"
  from a obtain v where v: "getitem ixs (arr1 s) = Inr v" "s' = emit (Read name ixs) (store1 v s)"
    by (auto simp add: index_data_def split: sum.splits)
  from b obtain w where w: "getitem ixs (arr2 t) = Inr w" "t' = emit (Read name ixs) (store2 w t)"
    by (auto simp add: index_data_def split: sum.splits)
  from assms(1) [OF sd] v(1) w(1) have "v = w" by simp
  with assms(2) [OF sd] v(2) w(2) show "same_data s' t'" by simp
qed

lemmas step_rel_intros =
  step_rel_lib_call step_rel_py_print step_rel_np_load_input step_rel_np_load_output

lemma cell_load_rel: "cell_rel (cell_load :: 'g step list) (cell_load :: 'h step list)"
  by (rule cell_rel_steps) (simp add: cell_load_def step_rel_intros)

lemma cell_ts_data_rel: "cell_rel (cell_ts_data :: 'g step list) (cell_ts_data :: 'h step list)"
  by (rule cell_rel_steps)
     (auto simp add: cell_ts_data_def same_data_def data_vars_def emit_def
        intro!: step_rel_assign step_rel_index_data)

lemma cell_model_rel: "cell_rel (cell_model L1 sec) (cell_model L2 sec)"
  by (rule cell_rel_lib [OF cell_model_lib cell_model_lib])

lemma cell_ts_train_rel: "cell_rel (cell_ts_train L1) (cell_ts_train L2)"
  by (rule cell_rel_lib [OF cell_ts_train_lib cell_ts_train_lib])

lemma cell_ds_train_rel: "cell_rel (cell_ds_train L1) (cell_ds_train L2)"
  by (rule cell_rel_lib [OF cell_ds_train_lib cell_ds_train_lib])

lemma cell_ts_predict_rel: "cell_rel (cell_ts_predict L1) (cell_ts_predict L2)"
  by (rule cell_rel_steps)
     (auto simp add: cell_ts_predict_def same_data_def data_vars_def emit_def step_rel_intros
        intro!: step_rel_assign step_rel_index_data)

lemma cell_ds_data_rel: "cell_rel (cell_ds_data :: 'g step list) (cell_ds_data :: 'h step list)"
  by (rule cell_rel_steps)
     (auto simp add: cell_ds_data_def same_data_def data_vars_def emit_def step_rel_intros
        intro!: step_rel_assign step_rel_index_data)

lemma cell_ds_grid_rel: "cell_rel (cell_ds_grid :: 'g step list) (cell_ds_grid :: 'h step list)"
  by (rule cell_rel_steps)
     (auto simp add: cell_ds_grid_def same_data_def data_vars_def intro!: step_rel_assign)

lemma cell_ds_predict_rel: "cell_rel (cell_ds_predict L1) (cell_ds_predict L2)"
  by (rule cell_rel_steps)
     (auto simp add: cell_ds_predict_def same_data_def data_vars_def step_rel_intros
        intro!: step_rel_assign_other)

lemma cell_ds_plot_rel: "cell_rel (cell_ds_plot L1) (cell_ds_plot L2)"
proof (rule cell_rel_steps)
  have a: "step_rel
     (assign 23 ''downscaled_SVDI'' (\<lambda>s. downscaled_SVDI Num_Tiles (v_preds_mean s))
        (\<lambda>a s. s\<lparr>v_downscaled_SVDI := a\<rparr>))
     (assign 23 ''downscaled_SVDI'' (\<lambda>s. downscaled_SVDI Num_Tiles (v_preds_mean s))
        (\<lambda>a s. s\<lparr>v_downscaled_SVDI := a\<rparr>))"
    by (rule step_rel_assign_other) (simp add: same_data_def data_vars_def)
  have b: "step_rel
     (assign 23 ''orig_SVDI'' (\<lambda>s. orig_SVDI Num_Tiles (v_train_y s)) (\<lambda>a s. s\<lparr>v_orig_SVDI := a\<rparr>))
     (assign 23 ''orig_SVDI'' (\<lambda>s. orig_SVDI Num_Tiles (v_train_y s)) (\<lambda>a s. s\<lparr>v_orig_SVDI := a\<rparr>))"
    by (rule step_rel_assign) (simp_all add: same_data_def data_vars_def)
  have c: "step_rel
     (assign 23 ''extent'' (\<lambda>s. extent (v_tiles_x s)) (\<lambda>a s. s\<lparr>v_extent := a\<rparr>))
     (assign 23 ''extent'' (\<lambda>s. extent (v_tiles_x s)) (\<lambda>a s. s\<lparr>v_extent := a\<rparr>))"
    by (rule step_rel_assign) (simp_all add: same_data_def data_vars_def)
  show "list_all2 step_rel (cell_ds_plot L1) (cell_ds_plot L2)"
    by (simp add: cell_ds_plot_def a b c step_rel_lib_call)
qed

lemma cells_all_rel: "list_all2 cell_rel (cells L1) (cells L2)"
  by (simp add: cells_def cell_load_rel cell_ts_data_rel cell_model_rel cell_ts_train_rel
        cell_ts_predict_rel cell_ds_data_rel cell_ds_train_rel cell_ds_grid_rel
        cell_ds_predict_rel cell_ds_plot_rel)

text \<open>
  Claim C5, amended.  The arrays the notebook's own code computes from the data and its
  constants (the loaded arrays, the training arrays, the time axes, the test grid, the
  tiles, the original image and the extent of the plot) do not depend on the library:
  after any number of cells, two runs that started from the same files and variables
  hold the same values, whatever the two libraries are and do.
\<close>

theorem library_independence:
  assumes "files s1 = files s2" and "data_vars s1 = data_vars s2"
    and "exec (concat (take n (cells L1))) s1 = (None, t1)"
    and "exec (concat (take n (cells L2))) s2 = (None, t2)"
  shows "data_vars t1 = data_vars t2"
proof -
  have "same_data s1 s2" using assms(1,2) by (simp add: same_data_def)
  from cells_rel [OF cells_all_rel this assms(3,4)] show ?thesis by (simp add: same_data_def)
qed


lemma notebook_take: "notebook L = concat (take 11 (cells L))"
  by (simp add: notebook_def cells_def)

theorem library_independence_witness:
  "\<exists>t1 t2.
     exec (concat (take 11 (cells cpu_library))) (fresh grid_files (0, [])) = (None, t1) \<and>
     exec (concat (take 11 (cells gpu_library))) (fresh grid_files (0, [])) = (None, t2) \<and>
     data_vars t1 = data_vars t2"
proof -
  from cpu_run obtain t1 where
    a: "exec (notebook cpu_library) (fresh grid_files (0, [])) = (None, t1)" by blast
  from gpu_run obtain t2 where
    b: "exec (notebook gpu_library) (fresh grid_files (0, [])) = (None, t2)" by blast
  note a' = a [unfolded notebook_take]
  note b' = b [unfolded notebook_take]
  have "data_vars t1 = data_vars t2"
    by (rule library_independence [OF _ _ a' b']) simp_all
  with a' b' show ?thesis by blast
qed

text \<open>
  Claim C5 as stated fails: for two libraries that differ in everything the notebook
  reads from them, the time axis \<open>train_x\<close> after the time-series cells and the test
  grid \<open>test_x\<close> at the end are the same arrays, of shapes (120, 1) and (65536, 2).
\<close>

theorem arrays_same_under_two_libraries:
  "fst (exec (notebook cpu_library) (fresh grid_files (0, []))) = None \<and>
   fst (exec (notebook gpu_library) (fresh grid_files (0, []))) = None \<and>
   cuda_is_available cpu_library \<noteq> cuda_is_available gpu_library \<and>
   param_item cpu_library Noise (0, []) \<noteq> param_item gpu_library Noise (0, []) \<and>
   v_test_x (snd (exec (notebook cpu_library) (fresh grid_files (0, [])))) =
     v_test_x (snd (exec (notebook gpu_library) (fresh grid_files (0, [])))) \<and>
   shape (v_test_x (snd (exec (notebook cpu_library) (fresh grid_files (0, []))))) = [65536, 2] \<and>
   v_train_x (snd (exec (concat (take 5 (cells cpu_library))) (fresh grid_files (0, [])))) =
     v_train_x (snd (exec (concat (take 5 (cells gpu_library))) (fresh grid_files (0, [])))) \<and>
   shape (v_train_x (snd (exec (concat (take 5 (cells cpu_library))) (fresh grid_files (0, [])))))
     = [120, 1]"
proof -
  from cpu_run obtain s1 s2 trainx tx tt testx where
    a: "exec (concat (take 5 (cells cpu_library))) (fresh grid_files (0, [])) = (None, s1)"
       "exec (notebook cpu_library) (fresh grid_files (0, [])) = (None, s2)"
       "ts_train_x = Inr trainx" "v_train_x s1 = trainx"
       "tiles_x Num_Tiles Start_Lat Start_Long Day_Number grid_input = Inr tx"
       "test_tiles tx = Inr tt" "ds_test_x tt = Inr testx" "v_test_x s2 = testx"
    by blast
  from gpu_run obtain s1' s2' trainx' tx' tt' testx' where
    b: "exec (concat (take 5 (cells gpu_library))) (fresh grid_files (0, [])) = (None, s1')"
       "exec (notebook gpu_library) (fresh grid_files (0, [])) = (None, s2')"
       "ts_train_x = Inr trainx'" "v_train_x s1' = trainx'"
       "tiles_x Num_Tiles Start_Lat Start_Long Day_Number grid_input = Inr tx'"
       "test_tiles tx' = Inr tt'" "ds_test_x tt' = Inr testx'" "v_test_x s2' = testx'"
    by blast
  have e1: "trainx' = trainx" using a(3) unfolding b(3) by simp
  have "tx' = tx" using a(5) unfolding b(5) by simp
  then have "tt' = tt" using a(6) b(6) by simp
  then have e2: "testx' = testx" using a(7) b(7) by simp
  have sx: "shape tx = [Num_Tiles, 16, Num_Tiles, 16, 2]"
    by (rule tiles_x_elem(1) [OF sample_data(3,5,6,7) a(5)])
  have st: "shape tt = [Num_Tiles, 32, Num_Tiles, 32, 2]"
    by (rule test_tiles_shape_of [OF sx a(6)])
  have "0 < Num_Tiles" by (simp add: Num_Tiles_def)
  from ds_test_x_full [OF st this] a(7) have sh2: "shape testx = [65536, 2]"
    by (auto simp add: Num_Tiles_def)
  have sh1: "shape trainx = [120, 1]"
    using arange_col_elem(1) [OF a(3) [unfolded ts_train_x_def]] by (simp add: N_Train_def)
  have d: "cuda_is_available cpu_library \<noteq> cuda_is_available gpu_library"
    "param_item cpu_library Noise (0, []) \<noteq> param_item gpu_library Noise (0, [])"
    by (simp_all add: cpu_library_def gpu_library_def)
  show ?thesis
    using a(1,2,4,8) b(1,2,4,8) e1 e2 sh1 sh2 d by simp
qed

section \<open>The loop and three failures on the sample data\<close>

theorem training_loop_witness:
  "\<exists>s'. exec (train cpu_library TimeSeries) (fresh grid_files (0, [])) = (None, s') \<and>
     (\<exists>loss. log s' = concat (map (\<lambda>i.
            [Call ZeroGrad, Call (ModelCall (zeros [0])), Call (NegMll (zeros [0])),
             Call Backward] @
            (if i mod 10 = 0 then [Print (IterationNumber i), Print (Loss (loss i))] else []) @
            [Call OptimizerStep]) [0..<500]))"
proof -
  have "\<And>c g. \<exists>g'. call cpu_library c g = Inr g'" by (simp add: cpu_library_def)
  from lib_steps_ok [OF this train_lib, of TimeSeries "fresh grid_files (0, [])"]
  obtain s' where r: "exec (train cpu_library TimeSeries) (fresh grid_files (0, [])) = (None, s')"
    by blast
  from training_loop [OF r] show ?thesis using r by (simp add: fresh_def)
qed

lemma train_unroll_4:
  "train L TimeSeries =
     (train_body L 0 @ train_body L 1 @ train_body L 2 @ train_body L 3) @
     concat (map (train_body L) [4..<500])"
proof -
  have a: "[0..<4::nat] = [0, 1, 2, 3]" by code_simp
  have "[0..<500::nat] = [0..<4] @ [4..<500]"
    using upt_add_eq_append [of 0 4 496] by (simp del: upt_rec_numeral)
  then have b: "[0..<500::nat] = [0, 1, 2, 3] @ [4..<500]" by (simp only: a)
  show ?thesis
    unfolding train_def N_iterations.simps b by (simp del: upt_rec_numeral)
qed

lemma diverging_run:
  "\<exists>s1. exec (notebook diverging_library) (fresh grid_files (0, [])) =
          (Some (LibraryError 1), s1)"
proof -
  obtain trainx where trainx: "ts_train_x = Inr trainx"
    unfolding ts_train_x_def arange_col by simp
  have ix: "long < 18" "lat < 39" "fst point < 16" "snd point < 16"
    by (simp_all add: long_def lat_def point_def)
  obtain trainy where trainy: "getitem ts_train_y_ix grid_output = Inr trainy"
    unfolding ts_train_y_ix_def ts_y_full [OF sample_data(4) ix] by simp
  define pre :: "(nat \<times> nat list) step list" where
    "pre = cell_load @ cell_ts_data @ cell_model diverging_library TimeSeries @
       [lib_call diverging_library (\<lambda>s. ModelTrain),
        lib_call diverging_library (\<lambda>s. LikelihoodTrain),
        lib_call diverging_library (\<lambda>s. Adam),
        lib_call diverging_library (\<lambda>s. ExactMarginalLogLikelihood)] @
       train_body diverging_library 0 @ train_body diverging_library 1 @
       train_body diverging_library 2 @ train_body diverging_library 3"
  have "\<exists>s1. exec pre (fresh grid_files (0, [])) = (Some (LibraryError 1), s1)"
    by (simp add: pre_def cell_load_def cell_ts_data_def cell_model_def train_body_def
          np_load_def index_data_def assign_def py_print_def lib_call_def emit_def
          diverging_library_def cpu_library_def fresh_def grid_files_def input_path_def
          output_path_def trainx trainy)
  then obtain s1 where "exec pre (fresh grid_files (0, [])) = (Some (LibraryError 1), s1)"
    by blast
  then have "exec (pre @ (concat (map (train_body diverging_library) [4..<500]) @
               print_params diverging_library) @
               concat (drop 4 (cells diverging_library)))
             (fresh grid_files (0, [])) = (Some (LibraryError 1), s1)"
    by (rule exec_append_Some)
  moreover have "notebook diverging_library =
      pre @ (concat (map (train_body diverging_library) [4..<500]) @
               print_params diverging_library) @
               concat (drop 4 (cells diverging_library))"
    by (simp add: notebook_def cells_def cell_ts_train_def train_unroll_4 pre_def)
  ultimately show ?thesis by auto
qed

lemma ds_train_x_empty:
  assumes "n_train tx = 0"
  shows "ds_train_x tx = Inl ValueError"
  unfolding ds_train_x_def reshape_def infer_shape_hole using assms by (simp add: ebind_def)

lemma short_run:
  "\<exists>s1. exec (notebook cpu_library) (fresh short_files (0, [])) = (Some ValueError, s1)"
proof -
  have fi: "files (fresh short_files (0 :: nat, [] :: nat list)) input_path = Some short_input"
    and fo: "files (fresh short_files (0 :: nat, [] :: nat list)) output_path = Some grid_output"
    by (simp_all add: fresh_def short_files_def input_path_def output_path_def)
  have pt: "fst point < 16" "snd point < 16" by (simp_all add: point_def)
  from ts_part_ok [OF sample_libraries(1) fi fo sample_data(4) sample_data(8,9) pt]
  obtain s1 where
    a: "exec (concat (take 5 (cells cpu_library))) (fresh short_files (0, [])) = (None, s1)"
    and vi: "v_input_data_all s1 = short_input"
    by blast
  obtain gx where
    gx: "getitem (tiles_x_ix Num_Tiles Start_Lat Start_Long Day_Number) short_input = Inr gx"
    and sg: "shape gx = [0, 8, 16, 16, 2]"
    by (simp add: getitem_def tiles_x_ix_def short_input_def zeros_def Num_Tiles_def
          Start_Lat_def Start_Long_def Day_Number_def)
  obtain tx where tx: "swapaxes 1 2 gx = Inr tx" and st: "shape tx = [0, 16, 8, 16, 2]"
    using sg by (simp add: swapaxes_def swap_def)
  have "n_train tx = 0" using st by (simp add: n_train_def)
  then have dx: "ds_train_x tx = Inl ValueError" by (rule ds_train_x_empty)
  have "\<exists>s2. exec (cell_ds_data :: (nat \<times> nat list) step list) s1 = (Some ValueError, s2)"
    by (simp add: cell_ds_data_def index_data_def assign_def py_print_def emit_def vi gx tx dx
          del: One_nat_def)
  then obtain s2 where
    b: "exec (cell_ds_data :: (nat \<times> nat list) step list) s1 = (Some ValueError, s2)" by blast
  have "exec (cell_ds_data @ concat (drop 6 (cells cpu_library))) s1 = (Some ValueError, s2)"
    by (rule exec_append_Some [OF b])
  then have "exec (concat (take 5 (cells cpu_library)) @
               cell_ds_data @ concat (drop 6 (cells cpu_library)))
             (fresh short_files (0, [])) = (Some ValueError, s2)"
    using a by (simp add: exec_append)
  moreover have "notebook cpu_library =
      concat (take 5 (cells cpu_library)) @ cell_ds_data @ concat (drop 6 (cells cpu_library))"
    by (simp add: notebook_def cells_def)
  ultimately show ?thesis by auto
qed

section \<open>Failures\<close>

text \<open>
  Claim C6.  The notebook handles no error.  A run ends with an error exactly when one of
  its statements raises it after all statements before it have succeeded, and then the
  run ends there, with that same error and the state reached before the statement;
  nothing is retried and nothing after it is run.  Statement by statement the notebook
  raises what the scheduled operation raises: a run ends with \<open>e\<close> exactly when its
  first \<open>k\<close> statements have succeeded and operation \<open>k\<close> of the schedule raises \<open>e\<close>
  in the state reached, be it a missing file, an index or a reshape that numpy refuses,
  or a library call that raises.  A run without one of the two files ends with
  \<open>FileNotFoundError\<close>.  A run that reaches the end has met no failure: both files
  were there, every numpy expression of the cells returned the value its variable holds,
  and every library call of the schedule was made and returned, the library's objects
  being changed by these calls and nothing else.  A statement raises exactly what the
  operation it performs raises: the library call, the file read, the index, the
  computation of the right-hand side; printing does not raise.
\<close>

theorem failure_propagates:
  "(exec (notebook L) s = (Some e, s1) \<longleftrightarrow>
     (\<exists>before stmt rest. notebook L = before @ stmt # rest \<and>
        exec before s = (None, s1) \<and> stmt s1 = Inl e)) \<and>
   (exec (notebook L) s = (Some e, s1) \<longleftrightarrow>
     (\<exists>k<length (schedule (cuda_is_available L)).
        exec (take k (notebook L)) s = (None, s1) \<and>
        fails_at L s1 (schedule (cuda_is_available L) ! k) e)) \<and>
   (files s input_path = None \<or> files s output_path = None \<longrightarrow>
      fst (exec (notebook L) s) = Some FileNotFoundError) \<and>
   (exec (notebook L) s = (None, s') \<longrightarrow>
      files s input_path = Some (v_input_data_all s') \<and>
      files s output_path = Some (v_output_data_all s') \<and>
      (\<exists>a. ts_train_x = Inr a) \<and> (\<exists>a. ts_train_y (v_output_data_all s') = Inr a) \<and>
      (\<exists>a. ts_test_x = Inr a) \<and> ts_test_y (v_output_data_all s') = Inr (v_test_y s') \<and>
      tiles_x Num_Tiles Start_Lat Start_Long Day_Number (v_input_data_all s') = Inr (v_tiles_x s') \<and>
      ds_train_x (v_tiles_x s') = Inr (v_train_x s') \<and>
      tiles_y Num_Tiles Start_Lat Start_Long Day_Number (v_output_data_all s') = Inr (v_tiles_y s') \<and>
      ds_train_y (v_tiles_x s') (v_tiles_y s') = Inr (v_train_y s') \<and>
      ebind (test_tiles (v_tiles_x s')) ds_test_x = Inr (v_test_x s') \<and>
      downscaled_SVDI Num_Tiles (v_preds_mean s') = Inr (v_downscaled_SVDI s') \<and>
      orig_SVDI Num_Tiles (v_train_y s') = Inr (v_orig_SVDI s') \<and>
      extent (v_tiles_x s') = Inr (v_extent s') \<and>
      (\<exists>ev. log s' = log s @ ev \<and> map erase ev = schedule (cuda_is_available L) \<and>
            lib_run L (calls_of ev) (gp s) = Inr (gp s'))) \<and>
   (lib_call L c s = Inl e \<longleftrightarrow> call L (c s) (gp s) = Inl e) \<and>
   (np_load path store s = Inl e \<longleftrightarrow> files s path = None \<and> e = FileNotFoundError) \<and>
   (index_data name arr ixs store s = Inl e \<longleftrightarrow> getitem ixs (arr s) = Inl e) \<and>
   (assign cell name' rhs store' s = Inl e \<longleftrightarrow> rhs s = Inl e) \<and>
   py_print f s \<noteq> Inl e"
proof -
  have h1: "exec (notebook L) s = (Some e, s1) \<longleftrightarrow>
     (\<exists>before stmt rest. notebook L = before @ stmt # rest \<and>
        exec before s = (None, s1) \<and> stmt s1 = Inl e)"
  proof
    assume "exec (notebook L) s = (Some e, s1)"
    then show "\<exists>before stmt rest. notebook L = before @ stmt # rest \<and>
        exec before s = (None, s1) \<and> stmt s1 = Inl e"
      by (rule exec_Some_split)
  next
    assume "\<exists>before stmt rest. notebook L = before @ stmt # rest \<and>
        exec before s = (None, s1) \<and> stmt s1 = Inl e"
    then show "exec (notebook L) s = (Some e, s1)"
      using exec_fails_at by metis
  qed
  note h2 = run_fails_iff [of L s e s1]
  have h3: "fst (exec (notebook L) s) = Some FileNotFoundError"
    if "files s input_path = None \<or> files s output_path = None"
    using that by (rule missing_file)
  have h4:
     "files s input_path = Some (v_input_data_all s') \<and>
      files s output_path = Some (v_output_data_all s') \<and>
      (\<exists>a. ts_train_x = Inr a) \<and> (\<exists>a. ts_train_y (v_output_data_all s') = Inr a) \<and>
      (\<exists>a. ts_test_x = Inr a) \<and> ts_test_y (v_output_data_all s') = Inr (v_test_y s') \<and>
      tiles_x Num_Tiles Start_Lat Start_Long Day_Number (v_input_data_all s') = Inr (v_tiles_x s') \<and>
      ds_train_x (v_tiles_x s') = Inr (v_train_x s') \<and>
      tiles_y Num_Tiles Start_Lat Start_Long Day_Number (v_output_data_all s') = Inr (v_tiles_y s') \<and>
      ds_train_y (v_tiles_x s') (v_tiles_y s') = Inr (v_train_y s') \<and>
      ebind (test_tiles (v_tiles_x s')) ds_test_x = Inr (v_test_x s') \<and>
      downscaled_SVDI Num_Tiles (v_preds_mean s') = Inr (v_downscaled_SVDI s') \<and>
      orig_SVDI Num_Tiles (v_train_y s') = Inr (v_orig_SVDI s') \<and>
      extent (v_tiles_x s') = Inr (v_extent s') \<and>
      (\<exists>ev. log s' = log s @ ev \<and> map erase ev = schedule (cuda_is_available L) \<and>
            lib_run L (calls_of ev) (gp s) = Inr (gp s'))"
    if "exec (notebook L) s = (None, s')"
    using notebook_completes [OF that]
    unfolding completed_def ds_grid_ready_def ds_ready_def ts_done_def loaded_def
    by blast
  have a: "lib_call L c s = Inl e \<longleftrightarrow> call L (c s) (gp s) = Inl e"
    by (simp add: lib_call_def split: sum.splits)
  have b: "np_load path store s = Inl e \<longleftrightarrow> files s path = None \<and> e = FileNotFoundError"
    by (auto simp add: np_load_def split: option.splits)
  have c: "index_data name arr ixs store s = Inl e \<longleftrightarrow> getitem ixs (arr s) = Inl e"
    by (simp add: index_data_def split: sum.splits)
  have d: "assign cell name' rhs store' s = Inl e \<longleftrightarrow> rhs s = Inl e"
    by (simp add: assign_def split: sum.splits)
  have f: "py_print f s \<noteq> Inl e"
    by (simp add: py_print_def)
  show ?thesis
    apply (intro conjI impI)
    using h1 h2 h3 h4 a b c d f by simp_all
qed

theorem failure_propagates_witness:
  "exec (notebook cpu_library) (fresh no_files (0, [])) =
     (Some FileNotFoundError, fresh no_files (0, [])) \<and>
   fst (exec (notebook cpu_library) (fresh no_files (0, []))) = Some FileNotFoundError \<and>
   (\<exists>s1 k. exec (notebook cpu_library) (fresh short_files (0, [])) = (Some ValueError, s1) \<and>
         k < length (schedule False) \<and>
         fails_at cpu_library s1 (schedule False ! k) ValueError) \<and>
   (\<exists>s1 k. exec (notebook diverging_library) (fresh grid_files (0, [])) =
          (Some (LibraryError 1), s1) \<and> k < length (schedule False) \<and>
          fails_at diverging_library s1 (schedule False ! k) (LibraryError 1)) \<and>
   (\<exists>s'. exec (notebook cpu_library) (fresh grid_files (0, [])) = (None, s') \<and>
         ds_train_x (v_tiles_x s') = Inr (v_train_x s') \<and>
         ebind (test_tiles (v_tiles_x s')) ds_test_x = Inr (v_test_x s') \<and>
         lib_run cpu_library (calls_of (log s')) (0, []) = Inr (gp s'))"
proof -
  have n: "notebook cpu_library =
      [] @ np_load input_path (\<lambda>a s. s\<lparr>v_input_data_all := a\<rparr>) # tl (notebook cpu_library)"
    by (simp add: notebook_def cells_def cell_load_def)
  have f: "np_load input_path (\<lambda>a s. s\<lparr>v_input_data_all := a\<rparr>) (fresh no_files (0, [])) =
      Inl FileNotFoundError"
    by (simp add: np_load_def no_files_def fresh_def)
  have a: "exec (notebook cpu_library) (fresh no_files (0, [])) =
     (Some FileNotFoundError, fresh no_files (0, []))"
    apply (rule iffD2 [OF failure_propagates [THEN conjunct1]])
    apply (rule exI [of _ "[]"])
    apply (rule exI [of _ "np_load input_path (\<lambda>a s. s\<lparr>v_input_data_all := a\<rparr>)"])
    apply (rule exI [of _ "tl (notebook cpu_library)"])
    using n f by simp
  have b: "fst (exec (notebook cpu_library) (fresh no_files (0, []))) = Some FileNotFoundError"
    using failure_propagates [where L = cpu_library and s = "fresh no_files (0, [])",
        THEN conjunct2, THEN conjunct2, THEN conjunct1]
    by (simp add: fresh_def no_files_def)
  from short_run obtain s1 where
    c: "exec (notebook cpu_library) (fresh short_files (0, [])) = (Some ValueError, s1)" by blast
  have c': "\<exists>k. k < length (schedule False) \<and>
         fails_at cpu_library s1 (schedule False ! k) ValueError"
    using failure_propagates [where L = cpu_library and s = "fresh short_files (0, [])"
        and e = ValueError and ?s1.0 = s1, THEN conjunct2, THEN conjunct1, THEN iffD1, OF c]
    by (auto simp add: cpu_library_def simp del: fails_at.simps)
  from diverging_run obtain s2 where
    d: "exec (notebook diverging_library) (fresh grid_files (0, [])) =
          (Some (LibraryError 1), s2)" by blast
  have d': "\<exists>k. k < length (schedule False) \<and>
         fails_at diverging_library s2 (schedule False ! k) (LibraryError 1)"
    using failure_propagates [where L = diverging_library and s = "fresh grid_files (0, [])"
        and e = "LibraryError 1" and ?s1.0 = s2, THEN conjunct2, THEN conjunct1, THEN iffD1,
        OF d]
    by (auto simp add: diverging_library_def cpu_library_def simp del: fails_at.simps)
  from cpu_run obtain s3 where
    g: "exec (notebook cpu_library) (fresh grid_files (0, [])) = (None, s3)" by blast
  have g': "ds_train_x (v_tiles_x s3) = Inr (v_train_x s3) \<and>
         ebind (test_tiles (v_tiles_x s3)) ds_test_x = Inr (v_test_x s3) \<and>
         lib_run cpu_library (calls_of (log s3)) (0, []) = Inr (gp s3)"
    using failure_propagates [where L = cpu_library and s = "fresh grid_files (0, [])"
        and s' = s3, THEN conjunct2, THEN conjunct2, THEN conjunct2, THEN conjunct1] g
    by (auto simp add: fresh_def)
  show ?thesis using a b c c' d d' g g' by blast
qed

end
